theory Spec2Isabelle
  imports Complex_Main "HOL-Library.List_Lexorder" "HOL-Library.Char_ord"
begin

section \<open>Numbers and strings of the source language\<close>

text \<open>
  Python floats are modelled as exact reals: every score, weight and ratio of the program
  is a real number, and \<open>round(x, 2)\<close> is rounding of \<open>100 * x\<close> to the nearest integer,
  ties going to the even neighbour, divided by 100 again.
\<close>

definition round_half_even :: "real \<Rightarrow> int" where
  "round_half_even y =
     (let f = \<lfloor>y\<rfloor>; d = y - of_int f
      in if d < 1 / 2 then f
         else if 1 / 2 < d then f + 1
         else if even f then f else f + 1)"

definition py_round2 :: "real \<Rightarrow> real" where
  "py_round2 x = of_int (round_half_even (x * 100)) / 100"

text \<open>
  Strings are lists of characters; \<open>len\<close> is the length of the list. \<open>str.lower()\<close> is taken
  on the ASCII letters; \<open>k in text\<close> is the substring test; \<open>str(n)\<close> of a non-negative
  integer is its decimal digits.
\<close>

definition lower_char :: "char \<Rightarrow> char" where
  "lower_char c =
     (case map_of (zip ''ABCDEFGHIJKLMNOPQRSTUVWXYZ'' ''abcdefghijklmnopqrstuvwxyz'') c of
        Some l \<Rightarrow> l
      | None \<Rightarrow> c)"

definition lower :: "string \<Rightarrow> string" where
  "lower s = map lower_char s"

fun str_nat :: "nat \<Rightarrow> string" where
  "str_nat n =
     (if n < 10 then [''0123456789'' ! n]
      else str_nat (n div 10) @ [''0123456789'' ! (n mod 10)])"

declare str_nat.simps [simp del]

fun startswith :: "string \<Rightarrow> string \<Rightarrow> bool" where
  "startswith s [] = True"
| "startswith [] (k # ks) = False"
| "startswith (c # cs) (k # ks) = (c = k \<and> startswith cs ks)"

fun contains :: "string \<Rightarrow> string \<Rightarrow> bool" where
  "contains [] k = (k = [])"
| "contains (c # cs) k = (startswith (c # cs) k \<or> contains cs k)"

text \<open>\<open>any(keyword in text for keyword in keywords)\<close>\<close>

definition any_keyword :: "string list \<Rightarrow> string \<Rightarrow> bool" where
  "any_keyword keywords text = list_ex (\<lambda>k. contains text k) keywords"

text \<open>Truth value of an \<open>Optional[str]\<close>: \<open>None\<close> and the empty string are false.\<close>

fun truthy :: "string option \<Rightarrow> bool" where
  "truthy None = False"
| "truthy (Some s) = (s \<noteq> [])"

section \<open>Data model\<close>

text \<open>
  The dataclasses of \<open>arrs/models\<close>. The \<open>id\<close> of a score, gap, page or simulation
  result is a fresh \<open>uuid4\<close> and the timestamps are the wall clock; nothing in the
  pipeline branches on them and they are left out. Field names that several dataclasses
  share carry a prefix.
\<close>

datatype exn =
    Exception string
  | CrawlerException string
  | SimulationException string
  | AttributeError string

fun str_exn :: "exn \<Rightarrow> string" where
  "str_exn (Exception m) = m"
| "str_exn (CrawlerException m) = m"
| "str_exn (SimulationException m) = m"
| "str_exn (AttributeError m) = m"

datatype AnalysisStatus = PENDING | PROCESSING | COMPLETED | FAILED

record Analysis =
  an_id :: string
  an_url :: string
  status :: AnalysisStatus
  composite_score :: "real option"
  error_message :: "string option"

record CrawledContent =
  cc_analysis_id :: string
  cc_url :: string
  html_content :: string
  crawl_method :: string
  status_code :: int

text \<open>The values of an \<open>EngineScore.details\<close> dictionary.\<close>

datatype dval = DFloat real | DInt int | DBool bool

record EngineScore =
  es_analysis_id :: string
  engine_name :: string
  score :: real
  weight :: real
  details :: "string \<rightharpoonup> dval"

record Gap =
  gap_analysis_id :: string
  gap_type :: string
  severity :: string
  description :: string
  recommendation :: string
  engine_source :: string

record SimulationResult =
  sr_analysis_id :: string
  prompt :: string
  response :: string
  brand_cited :: bool
  citation_count :: int
  missing_signals :: "string list"

section \<open>Parsed content\<close>

text \<open>
  The dictionary that \<open>AnalysisOrchestrator._parse_content\<close> hands to every engine, with
  the keys the engines read. \<open>_parse_content\<close> always supplies these keys, so the
  defaults of the engines' \<open>.get(key, default)\<close> calls are never taken; but the value
  under \<open>product\<close> is \<open>None\<close> when the page has no Product schema
  (\<open>SchemaParser.find_product_schema\<close>), and \<open>field_count\<close> is absent from the
  validation of a missing schema. A heading's level \<open>"h3"\<close> is the number \<open>3\<close>.
  The Product schema and an offer are dictionaries of strings.
\<close>

record image =
  src :: string
  alt :: string

record heading_validation =
  has_h1 :: bool
  h1_count :: nat
  multiple_h1 :: bool
  skipped_levels :: "(nat \<times> nat) list"
  valid_hierarchy :: bool

record html_data =
  title :: string
  meta_description :: string
  headings :: "(nat \<times> string) list"
  images :: "image list"
  text_content :: string
  word_count :: nat
  semantic_elements :: "(string \<times> nat) list"
  metadata :: "(string \<times> string) list"
  heading_validation :: heading_validation

record product_validation =
  present :: bool
  completeness :: real
  missing_fields :: "string list"
  field_count :: "nat option"

record reviews =
  has_reviews :: bool
  review_count :: nat

record schema_data =
  product :: "(string \<rightharpoonup> string) option"
  product_validation :: product_validation
  offers :: "(string \<rightharpoonup> string) list"
  reviews :: reviews
  schema_brand :: "string option"

record parsed_data =
  html :: html_data
  schema :: schema_data

text \<open>
  What the engines take from libraries outside the repository: the Flesch reading ease of
  \<open>textstat\<close> (any real number, negative for very hard text), the two regular-expression
  searches of the transaction engine, and the \<open>:.1f\<close> number format.
\<close>

record ext =
  flesch_reading_ease :: "string \<Rightarrow> real"
  search_email :: "string \<Rightarrow> bool"
  search_phone :: "string \<Rightarrow> bool"
  format_1f :: "real \<Rightarrow> string"

subsection \<open>\<open>HTMLParser.validate_heading_hierarchy\<close>\<close>

fun find_skipped :: "nat list \<Rightarrow> (nat \<times> nat) list" where
  "find_skipped (a # b # rest) =
     (if int b - int a > 1 then (a, b) # find_skipped (b # rest) else find_skipped (b # rest))"
| "find_skipped levels = []"

definition validate_heading_hierarchy :: "(nat \<times> string) list \<Rightarrow> heading_validation" where
  "validate_heading_hierarchy hs =
     (let levels = map fst hs;
          has = (1 \<in> set levels);
          cnt = count_list levels 1;
          skipped = find_skipped levels
      in \<lparr>has_h1 = has, h1_count = cnt, multiple_h1 = (cnt > 1), skipped_levels = skipped,
          valid_hierarchy = (has \<and> cnt = 1 \<and> skipped = [])\<rparr>)"

section \<open>Scoring engines\<close>

subsection \<open>\<open>scoring_utils\<close> and \<open>BaseEngine\<close>\<close>

definition calculate_richness_score :: "string \<Rightarrow> nat \<Rightarrow> real \<Rightarrow> real" where
  "calculate_richness_score content benchmark_chars max_points =
     (let char_count = length content;
          ratio = min 1 (real char_count / real benchmark_chars)
      in ratio * max_points)"

definition count_semantic_html_tags :: "html_data \<Rightarrow> nat" where
  "count_semantic_html_tags html_data = sum_list (map snd (semantic_elements html_data))"

text \<open>
  An engine is an object with a name, a weight and the two abstract methods; \<open>analyze\<close>
  and \<open>identify_gaps\<close> may raise.
\<close>

record engine =
  name :: string
  engine_weight :: real
  analyze :: "CrawledContent \<Rightarrow> parsed_data \<Rightarrow> exn + EngineScore"
  identify_gaps :: "EngineScore \<Rightarrow> parsed_data \<Rightarrow> exn + Gap list"

definition create_score ::
  "string \<Rightarrow> real \<Rightarrow> string \<Rightarrow> real \<Rightarrow> (string \<rightharpoonup> dval) \<Rightarrow> EngineScore" where
  "create_score self_name self_weight analysis_id sc dets =
     \<lparr>es_analysis_id = analysis_id, engine_name = self_name, score = sc,
      weight = self_weight, details = dets\<rparr>"

definition create_gap ::
  "string \<Rightarrow> string \<Rightarrow> string \<Rightarrow> string \<Rightarrow> string \<Rightarrow> string \<Rightarrow> Gap" where
  "create_gap self_name analysis_id gtype sev descr recom =
     \<lparr>gap_analysis_id = analysis_id, gap_type = gtype, severity = sev,
      description = descr, recommendation = recom, engine_source = self_name\<rparr>"

text \<open>\<open>details.get(key, 0)\<close> read as an integer, \<open>details.get(key)\<close> as a truth value.\<close>

definition details_int :: "(string \<rightharpoonup> dval) \<Rightarrow> string \<Rightarrow> int" where
  "details_int d k = (case d k of Some (DInt n) \<Rightarrow> n | _ \<Rightarrow> 0)"

definition details_float :: "(string \<rightharpoonup> dval) \<Rightarrow> string \<Rightarrow> real" where
  "details_float d k = (case d k of Some (DFloat x) \<Rightarrow> x | Some (DInt n) \<Rightarrow> of_int n | _ \<Rightarrow> 0)"

definition details_bool :: "(string \<rightharpoonup> dval) \<Rightarrow> string \<Rightarrow> bool" where
  "details_bool d k = (case d k of Some (DBool b) \<Rightarrow> b | _ \<Rightarrow> False)"

text \<open>\<open>d.get(key, '')\<close> on a dictionary of strings.\<close>

definition get_str :: "(string \<rightharpoonup> string) \<Rightarrow> string \<Rightarrow> string" where
  "get_str d k = (case d k of Some v \<Rightarrow> v | None \<Rightarrow> [])"

subsection \<open>ADE, the attribute density engine\<close>

definition ADE_score_schema_completeness :: "schema_data \<Rightarrow> real" where
  "ADE_score_schema_completeness schema_data =
     (let validation = product_validation schema_data
      in if \<not> present validation then 0 else completeness validation * 40)"

definition none_has_no_get :: exn where
  "none_has_no_get =
     AttributeError ([CHR 0x27] @ ''NoneType'' @ [CHR 0x27] @ '' object has no attribute ''
                       @ [CHR 0x27] @ ''get'' @ [CHR 0x27])"

text \<open>
  \<open>product = schema_data.get('product', {})\<close> is \<open>None\<close> for a page without Product
  schema, since the key is there; \<open>product.get\<close> then raises \<open>AttributeError\<close>.
\<close>

definition ADE_score_attribute_richness :: "schema_data \<Rightarrow> html_data \<Rightarrow> exn + real" where
  "ADE_score_attribute_richness schema_data html_data =
     (case product schema_data of
        None \<Rightarrow> Inl (none_has_no_get)
      | Some prd \<Rightarrow>
          (let description =
                 (if get_str prd ''description'' \<noteq> [] then get_str prd ''description''
                  else meta_description html_data);
               desc_score = calculate_richness_score description 300 15;
               has_brand = truthy (schema_brand schema_data);
               has_sku = (truthy (prd ''sku'') \<or> truthy (prd ''gtin'') \<or> truthy (prd ''mpn''));
               attribute_score0 = 0;
               attribute_score1 = (if has_brand then attribute_score0 + 7.5 else attribute_score0);
               attribute_score2 = (if has_sku then attribute_score1 + 7.5 else attribute_score1)
           in Inr (desc_score + attribute_score2)))"

definition ADE_score_image_quality :: "schema_data \<Rightarrow> html_data \<Rightarrow> real" where
  "ADE_score_image_quality schema_data html_data =
     (let imgs = images html_data
      in if imgs = [] then 0
         else let image_count_score = min 10 (real (length imgs) * 2.5);
                  images_with_alt = length (filter (\<lambda>img. alt img \<noteq> []) imgs);
                  alt_ratio = real images_with_alt / real (length imgs);
                  alt_score = alt_ratio * 10
              in image_count_score + alt_score)"

definition spec_keywords :: "string list" where
  "spec_keywords = [''specification'', ''dimensions'', ''weight'', ''material'',
                    ''features'', ''technical'', ''details'', ''capacity'', ''size'']"

definition ADE_score_technical_specs :: "html_data \<Rightarrow> real" where
  "ADE_score_technical_specs html_data =
     (let text = lower (text_content html_data);
          spec_mentions = length (filter (\<lambda>keyword. contains text keyword) spec_keywords)
      in min 10 (real spec_mentions * 2))"

definition ADE_analyze :: "real \<Rightarrow> CrawledContent \<Rightarrow> parsed_data \<Rightarrow> exn + EngineScore" where
  "ADE_analyze self_weight content parsed =
     (let schema_data = schema parsed;
          html_data = html parsed;
          schema_score = ADE_score_schema_completeness schema_data
      in case ADE_score_attribute_richness schema_data html_data of
           Inl e \<Rightarrow> Inl e
         | Inr richness_score \<Rightarrow>
             (let image_score = ADE_score_image_quality schema_data html_data;
                  specs_score = ADE_score_technical_specs html_data;
                  total_score = schema_score + richness_score + image_score + specs_score
              in case product schema_data of
                   None \<Rightarrow> Inl (none_has_no_get)
                 | Some prd \<Rightarrow>
                     Inr (create_score ''ADE'' self_weight (cc_analysis_id content) total_score
                       [''schema_completeness_score'' \<mapsto> DFloat schema_score,
                        ''attribute_richness_score'' \<mapsto> DFloat richness_score,
                        ''image_quality_score'' \<mapsto> DFloat image_score,
                        ''technical_specs_score'' \<mapsto> DFloat specs_score,
                        ''product_schema_present'' \<mapsto> DBool (present (product_validation schema_data)),
                        ''schema_field_count'' \<mapsto>
                           DInt (case field_count (product_validation schema_data) of
                                   Some n \<Rightarrow> int n | None \<Rightarrow> 0),
                        ''description_length'' \<mapsto> DInt (int (length (get_str prd ''description''))),
                        ''image_count'' \<mapsto> DInt (int (length (images html_data)))])))"

definition ADE_identify_gaps :: "EngineScore \<Rightarrow> parsed_data \<Rightarrow> Gap list" where
  "ADE_identify_gaps sc parsed =
     (let analysis_id = es_analysis_id sc;
          schema_data = schema parsed;
          gaps1 = (if \<not> present (product_validation schema_data)
                   then [create_gap ''ADE'' analysis_id ''missing_schema'' ''critical''
                           ''Product schema.org markup is missing''
                           ''Add Product schema.org markup using JSON-LD format to help AI understand product attributes'']
                   else []);
          missing = missing_fields (product_validation schema_data);
          critical_fields = [''name'', ''description'', ''image'', ''offers''];
          gaps2 = map (\<lambda>field.
                     create_gap ''ADE'' analysis_id (''missing_field_'' @ field) ''high''
                       (''Product schema missing '' @ [CHR 0x27] @ field @ [CHR 0x27] @ '' field'')
                       (''Add '' @ [CHR 0x27] @ field @ [CHR 0x27]
                          @ '' to Product schema for better AI attribute extraction''))
                    (filter (\<lambda>field. field \<in> set missing) critical_fields);
          desc_length = details_int (details sc) ''description_length'';
          gaps3 = (if desc_length < 100
                   then [create_gap ''ADE'' analysis_id ''short_description'' ''medium''
                           (''Product description is too short ('' @ str_nat (nat desc_length)
                              @ '' characters)'')
                           ''Expand product description to at least 300 characters with detailed attributes and benefits'']
                   else []);
          image_count = details_int (details sc) ''image_count'';
          gaps4 = (if image_count = 0
                   then [create_gap ''ADE'' analysis_id ''no_images'' ''high''
                           ''No product images found''
                           ''Add product images with descriptive alt text'']
                   else [])
      in gaps1 @ gaps2 @ gaps3 @ gaps4)"

definition ADEEngine :: "real \<Rightarrow> engine" where
  "ADEEngine w =
     \<lparr>name = ''ADE'', engine_weight = w, analyze = ADE_analyze w,
      identify_gaps = (\<lambda>sc parsed. Inr (ADE_identify_gaps sc parsed))\<rparr>"

subsection \<open>ARCE, the readability and composability engine\<close>

definition ARCE_score_semantic_html :: "html_data \<Rightarrow> real" where
  "ARCE_score_semantic_html html_data =
     (let semantic_count = count_semantic_html_tags html_data
      in min 30 (real semantic_count * 3))"

definition ARCE_score_readability :: "ext \<Rightarrow> html_data \<Rightarrow> real" where
  "ARCE_score_readability x html_data =
     (let text = text_content html_data
      in if text = [] \<or> length text < 100 then 0
         else let flesch_score = flesch_reading_ease x text
              in if flesch_score \<ge> 60 then 25
                 else if flesch_score \<ge> 30 then (flesch_score / 60) * 25
                 else (flesch_score / 30) * 12.5)"

definition ARCE_score_heading_hierarchy :: "html_data \<Rightarrow> real" where
  "ARCE_score_heading_hierarchy html_data =
     (let validation = heading_validation html_data;
          score0 = 0;
          score1 = (if has_h1 validation then score0 + 10 else score0);
          score2 = (if \<not> multiple_h1 validation then score1 + 10 else score1);
          score3 = (if skipped_levels validation = [] then score2 + 5 else score2)
      in score3)"

definition ARCE_score_metadata :: "html_data \<Rightarrow> real" where
  "ARCE_score_metadata html_data =
     (let md = metadata html_data;
          score0 = 0;
          score1 = (if title html_data \<noteq> [] then score0 + 5 else score0);
          score2 = (if meta_description html_data \<noteq> [] then score1 + 5 else score1);
          og_tags = filter (\<lambda>k. startswith k ''og_'') (remdups (map fst md));
          score3 = (if length og_tags \<ge> 3 then score2 + 5 else score2);
          score4 = (if truthy (map_of md ''canonical_url'') then score3 + 5 else score3)
      in score4)"

definition ARCE_analyze :: "ext \<Rightarrow> real \<Rightarrow> CrawledContent \<Rightarrow> parsed_data \<Rightarrow> exn + EngineScore" where
  "ARCE_analyze x self_weight content parsed =
     (let html_data = html parsed;
          semantic_score = ARCE_score_semantic_html html_data;
          readability_score = ARCE_score_readability x html_data;
          hierarchy_score = ARCE_score_heading_hierarchy html_data;
          metadata_score = ARCE_score_metadata html_data;
          total_score = semantic_score + readability_score + hierarchy_score + metadata_score
      in Inr (create_score ''ARCE'' self_weight (cc_analysis_id content) total_score
           [''semantic_html_score'' \<mapsto> DFloat semantic_score,
            ''readability_score'' \<mapsto> DFloat readability_score,
            ''heading_hierarchy_score'' \<mapsto> DFloat hierarchy_score,
            ''metadata_score'' \<mapsto> DFloat metadata_score,
            ''semantic_element_count'' \<mapsto> DInt (int (count_semantic_html_tags html_data)),
            ''flesch_reading_ease'' \<mapsto> DFloat (flesch_reading_ease x (text_content html_data)),
            ''has_valid_hierarchy'' \<mapsto> DBool (valid_hierarchy (heading_validation html_data)),
            ''word_count'' \<mapsto> DInt (int (word_count html_data))]))"

definition ARCE_identify_gaps :: "ext \<Rightarrow> EngineScore \<Rightarrow> parsed_data \<Rightarrow> Gap list" where
  "ARCE_identify_gaps x sc parsed =
     (let analysis_id = es_analysis_id sc;
          html_data = html parsed;
          semantic_count = count_semantic_html_tags html_data;
          gaps1 = (if semantic_count < 5
                   then [create_gap ''ARCE'' analysis_id ''low_semantic_html'' ''medium''
                           (''Only '' @ str_nat semantic_count @ '' semantic HTML elements found'')
                           ''Use semantic HTML5 elements (article, section, header, main) to improve AI content understanding'']
                   else []);
          validation = heading_validation html_data;
          gaps2 = (if \<not> has_h1 validation
                   then [create_gap ''ARCE'' analysis_id ''missing_h1'' ''high''
                           ''Page missing H1 heading''
                           ''Add a clear H1 heading that describes the page content'']
                   else []);
          gaps3 = (if multiple_h1 validation
                   then [create_gap ''ARCE'' analysis_id ''multiple_h1'' ''medium''
                           ''Page has multiple H1 headings''
                           ''Use only one H1 heading per page for clear content hierarchy'']
                   else []);
          flesch_score = details_float (details sc) ''flesch_reading_ease'';
          gaps4 = (if flesch_score < 30
                   then [create_gap ''ARCE'' analysis_id ''poor_readability'' ''medium''
                           (''Content has poor readability (Flesch score: '' @ format_1f x flesch_score @ '')'')
                           ''Simplify sentences and use clearer language to improve AI comprehension'']
                   else []);
          gaps5 = (if meta_description html_data = []
                   then [create_gap ''ARCE'' analysis_id ''missing_meta_description'' ''medium''
                           ''Meta description is missing''
                           ''Add a meta description (150-160 characters) summarizing the page content'']
                   else [])
      in gaps1 @ gaps2 @ gaps3 @ gaps4 @ gaps5)"

definition ARCEEngine :: "ext \<Rightarrow> real \<Rightarrow> engine" where
  "ARCEEngine x w =
     \<lparr>name = ''ARCE'', engine_weight = w, analyze = ARCE_analyze x w,
      identify_gaps = (\<lambda>sc parsed. Inr (ARCE_identify_gaps x sc parsed))\<rparr>"

subsection \<open>TRE, the transaction readiness engine\<close>

definition buy_keywords :: "string list" where
  "buy_keywords = [''add to cart'', ''add to bag'', ''buy now'', ''purchase'',
                   ''checkout'', ''order now'', ''add to basket'', ''buy'']"

definition TRE_detect_buy_button :: "html_data \<Rightarrow> bool" where
  "TRE_detect_buy_button html_data = any_keyword buy_keywords (lower (text_content html_data))"

definition TRE_score_cta_presence :: "html_data \<Rightarrow> schema_data \<Rightarrow> real" where
  "TRE_score_cta_presence html_data schema_data =
     (let score0 = 0;
          score1 = (if TRE_detect_buy_button html_data then score0 + 15 else score0);
          score2 = (case offers schema_data of
                      [] \<Rightarrow> score1
                    | offer # _ \<Rightarrow>
                        (if truthy (offer ''price'') \<and> truthy (offer ''priceCurrency'')
                         then score1 + 15 + 5 else score1 + 15))
      in min 30 score2)"

definition policy_keywords :: "string list" where
  "policy_keywords = [''return policy'', ''returns'', ''refund'', ''money back'', ''guarantee'']"

definition TRE_score_trust_signals :: "html_data \<Rightarrow> schema_data \<Rightarrow> string \<Rightarrow> real" where
  "TRE_score_trust_signals html_data schema_data url =
     (let score0 = 0;
          score1 = (if startswith url ''https://'' then score0 + 10 else score0);
          score2 = (if has_reviews (reviews schema_data) then score1 + 10 else score1);
          text = lower (text_content html_data);
          score3 = (if any_keyword policy_keywords text then score2 + 10 else score2)
      in score3)"

definition address_keywords :: "string list" where
  "address_keywords = [''address'', ''contact us'', ''location'', ''visit us'']"

definition TRE_score_contact_info :: "ext \<Rightarrow> html_data \<Rightarrow> schema_data \<Rightarrow> real" where
  "TRE_score_contact_info x html_data schema_data =
     (let text = lower (text_content html_data);
          score0 = 0;
          score1 = (if search_email x text then score0 + 7 else score0);
          score2 = (if search_phone x text then score1 + 7 else score1);
          score3 = (if any_keyword address_keywords text then score2 + 6 else score2)
      in score3)"

definition payment_keywords :: "string list" where
  "payment_keywords = [''visa'', ''mastercard'', ''paypal'', ''payment'', ''credit card'',
                       ''debit card'', ''apple pay'', ''google pay'']"

definition shipping_keywords :: "string list" where
  "shipping_keywords = [''shipping'', ''delivery'', ''free shipping'', ''ships to'',
                        ''ship'', ''express delivery'']"

definition TRE_score_payment_shipping_info :: "html_data \<Rightarrow> schema_data \<Rightarrow> real" where
  "TRE_score_payment_shipping_info html_data schema_data =
     (let text = lower (text_content html_data);
          score0 = 0;
          score1 = (if any_keyword payment_keywords text then score0 + 10 else score0);
          score2 = (if any_keyword shipping_keywords text then score1 + 10 else score1)
      in score2)"

definition TRE_analyze :: "ext \<Rightarrow> real \<Rightarrow> CrawledContent \<Rightarrow> parsed_data \<Rightarrow> exn + EngineScore" where
  "TRE_analyze x self_weight content parsed =
     (let html_data = html parsed;
          schema_data = schema parsed;
          cta_score = TRE_score_cta_presence html_data schema_data;
          trust_score = TRE_score_trust_signals html_data schema_data (cc_url content);
          contact_score = TRE_score_contact_info x html_data schema_data;
          payment_score = TRE_score_payment_shipping_info html_data schema_data;
          total_score = cta_score + trust_score + contact_score + payment_score
      in Inr (create_score ''TRE'' self_weight (cc_analysis_id content) total_score
           [''cta_score'' \<mapsto> DFloat cta_score,
            ''trust_score'' \<mapsto> DFloat trust_score,
            ''contact_score'' \<mapsto> DFloat contact_score,
            ''payment_score'' \<mapsto> DFloat payment_score,
            ''buy_button_found'' \<mapsto> DBool (TRE_detect_buy_button html_data),
            ''has_ssl'' \<mapsto> DBool (startswith (cc_url content) ''https://''),
            ''has_reviews'' \<mapsto> DBool (has_reviews (reviews schema_data)),
            ''has_offer'' \<mapsto> DBool (offers schema_data \<noteq> [])]))"

definition TRE_identify_gaps :: "ext \<Rightarrow> EngineScore \<Rightarrow> parsed_data \<Rightarrow> Gap list" where
  "TRE_identify_gaps x sc parsed =
     (let analysis_id = es_analysis_id sc;
          html_data = html parsed;
          schema_data = schema parsed;
          gaps1 = (if \<not> TRE_detect_buy_button html_data
                   then [create_gap ''TRE'' analysis_id ''no_buy_button'' ''critical''
                           ''No clear call-to-action (buy button/add to cart) detected''
                           (''Add a prominent '' @ [CHR 0x27] @ ''Add to Cart'' @ [CHR 0x27] @ '' or ''
                              @ [CHR 0x27] @ ''Buy Now'' @ [CHR 0x27]
                              @ '' button for AI to recognize purchase capability'')]
                   else []);
          gaps2 = (if offers schema_data = []
                   then [create_gap ''TRE'' analysis_id ''missing_offer_schema'' ''high''
                           ''Offer schema missing from Product markup''
                           ''Add Offer schema with price, currency, and availability information'']
                   else []);
          gaps3 = (if \<not> has_reviews (reviews schema_data)
                   then [create_gap ''TRE'' analysis_id ''no_reviews'' ''medium''
                           ''No review or rating information found''
                           ''Add AggregateRating or Review schema to build trust signals'']
                   else []);
          gaps4 = (if \<not> details_bool (details sc) ''has_ssl''
                   then [create_gap ''TRE'' analysis_id ''no_ssl'' ''critical''
                           ''Site not using HTTPS (SSL)''
                           ''Enable HTTPS for secure transactions and improved trust'']
                   else []);
          text = lower (text_content html_data);
          gaps5 = (if \<not> search_email x text \<and> \<not> search_phone x text
                   then [create_gap ''TRE'' analysis_id ''no_contact_info'' ''high''
                           ''No contact information (email or phone) found''
                           ''Add visible contact information to build customer trust'']
                   else [])
      in gaps1 @ gaps2 @ gaps3 @ gaps4 @ gaps5)"

definition TREEngine :: "ext \<Rightarrow> real \<Rightarrow> engine" where
  "TREEngine x w =
     \<lparr>name = ''TRE'', engine_weight = w, analyze = TRE_analyze x w,
      identify_gaps = (\<lambda>sc parsed. Inr (TRE_identify_gaps x sc parsed))\<rparr>"

section \<open>Composite scorer\<close>

text \<open>\<open>AnalysisOrchestrator._calculate_composite_score\<close>\<close>

definition calculate_composite_score :: "EngineScore list \<Rightarrow> real" where
  "calculate_composite_score engine_scores =
     (let total_weight = sum_list (map weight engine_scores)
      in if total_weight = 0 then 0
         else let weighted_sum = sum_list (map (\<lambda>s. score s * weight s) engine_scores);
                  composite = weighted_sum / total_weight
              in py_round2 composite)"

section \<open>Repository\<close>

text \<open>
  The tables of the SQLite database and the files of the JSON store, as far as the
  pipeline writes them: the raw pages (one file for each page saved, under the directory
  of its analysis) and \<open>simulation/simulation_results.json\<close> (one file for each analysis,
  written over by the next save). \<open>db_history\<close> records every version of a row of
  \<open>analyses\<close> in the order written (what a reader of the table can observe during a run),
  and \<open>calls\<close> records the calls the orchestrator makes to its collaborators; neither is
  read by the program.
\<close>

datatype call =
    CallCrawlBS
  | CallCrawlPlaywright
  | CallParse
  | CallAnalyze string
  | CallIdentifyGaps string
  | CallSimulate

record state =
  db_analyses :: "string \<rightharpoonup> Analysis"
  db_history :: "Analysis list"
  db_crawled_pages :: "CrawledContent list"
  db_engine_scores :: "EngineScore list"
  db_simulation_results :: "SimulationResult list"
  db_gaps :: "Gap list"
  json_raw_content :: "(string \<times> string) list"
  json_simulation_data :: "string \<rightharpoonup> SimulationResult"
  calls :: "call list"

text \<open>
  The world outside the orchestrator: the identifier \<open>uuid4\<close> hands out, which writes of
  the repository raise (and what), the two crawlers and the parsers. A write of the
  repository is a statement of the database or one of the two file writes of the JSON
  store.
\<close>

datatype db_op =
    CreateAnalysis
  | UpdateStatus AnalysisStatus
  | UpdateCompositeScore
  | SaveCrawledContent
  | SaveEngineScore string
  | SaveSimulationResult
  | SaveGaps
  | WriteRawContent
  | WriteSimulationData

record env =
  new_id :: string
  db_error :: "db_op \<Rightarrow> exn option"
  crawl_bs :: "string \<Rightarrow> string \<Rightarrow> exn + CrawledContent"
  crawl_playwright :: "string \<Rightarrow> string \<Rightarrow> exn + CrawledContent"
  parse :: "CrawledContent \<Rightarrow> exn + parsed_data"

text \<open>A step of the program: it returns a value or raises, and leaves a new state.\<close>

type_synonym 'a M = "state \<Rightarrow> (exn + 'a) \<times> state"

definition ret :: "'a \<Rightarrow> 'a M" where
  "ret x = (\<lambda>s. (Inr x, s))"

definition raise :: "exn \<Rightarrow> 'a M" where
  "raise e = (\<lambda>s. (Inl e, s))"

definition lift :: "exn + 'a \<Rightarrow> 'a M" where
  "lift r = (\<lambda>s. (r, s))"

definition bnd :: "'a M \<Rightarrow> ('a \<Rightarrow> 'b M) \<Rightarrow> 'b M" where
  "bnd m f = (\<lambda>s. case m s of (Inl e, s') \<Rightarrow> (Inl e, s') | (Inr x, s') \<Rightarrow> f x s')"

definition try_except :: "'a M \<Rightarrow> (exn \<Rightarrow> 'a M) \<Rightarrow> 'a M" where
  "try_except m h = (\<lambda>s. case m s of (Inl e, s') \<Rightarrow> h e s' | (Inr x, s') \<Rightarrow> (Inr x, s'))"

definition call :: "call \<Rightarrow> unit M" where
  "call c = (\<lambda>s. (Inr (), s\<lparr>calls := calls s @ [c]\<rparr>))"

text \<open>
  \<open>Database.execute\<close>: the statement raises and changes nothing, or is applied and
  committed.
\<close>

definition db_execute :: "env \<Rightarrow> db_op \<Rightarrow> (state \<Rightarrow> state) \<Rightarrow> unit M" where
  "db_execute e opn f =
     (\<lambda>s. case db_error e opn of Some err \<Rightarrow> (Inl err, s) | None \<Rightarrow> (Inr (), f s))"

text \<open>
  \<open>JSONStore.save_raw_content\<close> and \<open>JSONStore.save_simulation_data\<close>: the directories are
  made and the file is written, or the write raises.
\<close>

definition save_raw_content :: "env \<Rightarrow> string \<Rightarrow> string \<Rightarrow> unit M" where
  "save_raw_content e analysis_id content =
     (\<lambda>s. case db_error e WriteRawContent of
            Some err \<Rightarrow> (Inl err, s)
          | None \<Rightarrow> (Inr (), s\<lparr>json_raw_content := json_raw_content s @ [(analysis_id, content)]\<rparr>))"

definition save_simulation_data :: "env \<Rightarrow> string \<Rightarrow> SimulationResult \<Rightarrow> unit M" where
  "save_simulation_data e analysis_id simulation_data =
     (\<lambda>s. case db_error e WriteSimulationData of
            Some err \<Rightarrow> (Inl err, s)
          | None \<Rightarrow>
              (Inr (),
               s\<lparr>json_simulation_data := (json_simulation_data s)(analysis_id \<mapsto> simulation_data)\<rparr>))"

text \<open>\<open>UPDATE analyses SET ... WHERE id = ?\<close>\<close>

definition update_row :: "string \<Rightarrow> (Analysis \<Rightarrow> Analysis) \<Rightarrow> state \<Rightarrow> state" where
  "update_row analysis_id f s =
     (case db_analyses s analysis_id of
        None \<Rightarrow> s
      | Some a \<Rightarrow> s\<lparr>db_analyses := (db_analyses s)(analysis_id \<mapsto> f a),
                     db_history := db_history s @ [f a]\<rparr>)"

text \<open>\<open>Repository.create_analysis\<close>; the identifier is a fresh \<open>uuid4\<close>.\<close>

definition create_analysis :: "env \<Rightarrow> string \<Rightarrow> Analysis M" where
  "create_analysis e url =
     (let analysis = \<lparr>an_id = new_id e, an_url = url, status = PENDING,
                       composite_score = None, error_message = None\<rparr>
      in bnd (db_execute e CreateAnalysis
                (\<lambda>s. s\<lparr>db_analyses := (db_analyses s)(an_id analysis \<mapsto> analysis),
                         db_history := db_history s @ [analysis]\<rparr>))
             (\<lambda>_. ret analysis))"

definition update_analysis_status ::
  "env \<Rightarrow> string \<Rightarrow> AnalysisStatus \<Rightarrow> string option \<Rightarrow> unit M" where
  "update_analysis_status e analysis_id st err =
     db_execute e (UpdateStatus st)
       (update_row analysis_id (\<lambda>a. a\<lparr>status := st, error_message := err\<rparr>))"

definition update_composite_score :: "env \<Rightarrow> string \<Rightarrow> real \<Rightarrow> unit M" where
  "update_composite_score e analysis_id sc =
     db_execute e UpdateCompositeScore
       (update_row analysis_id (\<lambda>a. a\<lparr>composite_score := Some sc\<rparr>))"

text \<open>
  \<open>Repository.save_crawled_content\<close>: the row, with the first 50000 characters of the
  page, is inserted and committed; then the whole page is written to the JSON store.
\<close>

definition save_crawled_content :: "env \<Rightarrow> CrawledContent \<Rightarrow> unit M" where
  "save_crawled_content e content =
     bnd (db_execute e SaveCrawledContent
            (\<lambda>s. s\<lparr>db_crawled_pages := db_crawled_pages s
                       @ [content\<lparr>html_content := take 50000 (html_content content)\<rparr>]\<rparr>))
       (\<lambda>_. save_raw_content e (cc_analysis_id content) (html_content content))"

definition save_engine_score :: "env \<Rightarrow> EngineScore \<Rightarrow> unit M" where
  "save_engine_score e sc =
     db_execute e (SaveEngineScore (engine_name sc))
       (\<lambda>s. s\<lparr>db_engine_scores := db_engine_scores s @ [sc]\<rparr>)"

text \<open>
  \<open>Repository.save_simulation_result\<close>: the row is inserted and committed; then the result
  is written to the JSON store. A raise of the second write leaves the row in the table.
\<close>

definition save_simulation_result :: "env \<Rightarrow> SimulationResult \<Rightarrow> unit M" where
  "save_simulation_result e r =
     bnd (db_execute e SaveSimulationResult
            (\<lambda>s. s\<lparr>db_simulation_results := db_simulation_results s @ [r]\<rparr>))
       (\<lambda>_. save_simulation_data e (sr_analysis_id r) r)"

definition save_gaps :: "env \<Rightarrow> Gap list \<Rightarrow> unit M" where
  "save_gaps e gs =
     (if gs = [] then ret ()
      else db_execute e SaveGaps (\<lambda>s. s\<lparr>db_gaps := db_gaps s @ gs\<rparr>))"

text \<open>
  \<open>Repository.get_gaps\<close>: \<open>SELECT * FROM gaps WHERE analysis_id = ? ORDER BY severity\<close>.
  The column is \<open>TEXT\<close>, so the rows come in the order of the severity strings; rows of
  equal severity are taken in the order stored.
\<close>

definition get_gaps :: "state \<Rightarrow> string \<Rightarrow> Gap list" where
  "get_gaps s analysis_id =
     sort_key severity (filter (\<lambda>g. gap_analysis_id g = analysis_id) (db_gaps s))"

definition get_analysis :: "state \<Rightarrow> string \<Rightarrow> Analysis option" where
  "get_analysis s analysis_id = db_analyses s analysis_id"

section \<open>Orchestrator\<close>

record orchestrator =
  engines :: "(string \<times> engine) list"
  simulator :: "(string \<Rightarrow> string \<Rightarrow> string \<Rightarrow> string \<Rightarrow> exn + SimulationResult) option"

text \<open>\<open>AnalysisOrchestrator._crawl_url\<close>\<close>

definition crawl_url :: "env \<Rightarrow> string \<Rightarrow> string \<Rightarrow> CrawledContent M" where
  "crawl_url e url analysis_id =
     try_except (bnd (call CallCrawlBS) (\<lambda>_. lift (crawl_bs e url analysis_id)))
       (\<lambda>err. try_except
                (bnd (call CallCrawlPlaywright) (\<lambda>_. lift (crawl_playwright e url analysis_id)))
                (\<lambda>playwright_error.
                   raise (CrawlerException
                     (''Failed to crawl '' @ url @ '': '' @ str_exn playwright_error))))"

text \<open>\<open>AnalysisOrchestrator._parse_content\<close>: the parsers are libraries and may raise.\<close>

definition parse_content :: "env \<Rightarrow> CrawledContent \<Rightarrow> parsed_data M" where
  "parse_content e content = bnd (call CallParse) (\<lambda>_. lift (parse e content))"

text \<open>\<open>AnalysisOrchestrator._run_engines\<close>: the loop over \<open>self.engines.items()\<close>.\<close>

fun run_engines_loop ::
  "(string \<times> engine) list \<Rightarrow> CrawledContent \<Rightarrow> parsed_data \<Rightarrow> EngineScore list
     \<Rightarrow> EngineScore list M" where
  "run_engines_loop [] content parsed scores = ret scores"
| "run_engines_loop ((ename, engine) # rest) content parsed scores =
     bnd (call (CallAnalyze ename))
       (\<lambda>_. case analyze engine content parsed of
               Inr sc \<Rightarrow> run_engines_loop rest content parsed (scores @ [sc])
             | Inl err \<Rightarrow> run_engines_loop rest content parsed scores)"

definition run_engines :: "orchestrator \<Rightarrow> CrawledContent \<Rightarrow> parsed_data \<Rightarrow> EngineScore list M" where
  "run_engines orch content parsed = run_engines_loop (engines orch) content parsed []"

text \<open>The loop \<open>for score in engine_scores: await self.repository.save_engine_score(score)\<close>\<close>

fun save_engine_scores :: "env \<Rightarrow> EngineScore list \<Rightarrow> unit M" where
  "save_engine_scores e [] = ret ()"
| "save_engine_scores e (sc # rest) =
     bnd (save_engine_score e sc) (\<lambda>_. save_engine_scores e rest)"

text \<open>Step 7 of \<open>analyze_url\<close>: the gaps of every engine that has a score.\<close>

fun identify_all_gaps ::
  "orchestrator \<Rightarrow> EngineScore list \<Rightarrow> parsed_data \<Rightarrow> Gap list \<Rightarrow> Gap list M" where
  "identify_all_gaps orch [] parsed all_gaps = ret all_gaps"
| "identify_all_gaps orch (sc # rest) parsed all_gaps =
     (case map_of (engines orch) (engine_name sc) of
        None \<Rightarrow> identify_all_gaps orch rest parsed all_gaps
      | Some engine \<Rightarrow>
          bnd (call (CallIdentifyGaps (engine_name sc)))
            (\<lambda>_. bnd (lift (identify_gaps engine sc parsed))
                    (\<lambda>gs. identify_all_gaps orch rest parsed (all_gaps @ gs))))"

text \<open>\<open>AnalysisOrchestrator._run_simulation\<close>\<close>

definition run_simulation ::
  "(string \<Rightarrow> string \<Rightarrow> string \<Rightarrow> string \<Rightarrow> exn + SimulationResult)
     \<Rightarrow> string \<Rightarrow> string \<Rightarrow> string \<Rightarrow> string \<Rightarrow> SimulationResult M" where
  "run_simulation sim analysis_id b product_category use_case =
     bnd (call CallSimulate)
       (\<lambda>_. case sim analysis_id b product_category use_case of
               Inr r \<Rightarrow> ret r
             | Inl err \<Rightarrow> raise (SimulationException (''AI simulation failed: '' @ str_exn err)))"

text \<open>\<open>AnalysisOrchestrator._extract_simulation_gaps\<close>\<close>

definition extract_simulation_gaps :: "string \<Rightarrow> SimulationResult \<Rightarrow> parsed_data \<Rightarrow> Gap list" where
  "extract_simulation_gaps analysis_id simulation_result parsed =
     (let gaps1 = (if \<not> brand_cited simulation_result
                   then [\<lparr>gap_analysis_id = analysis_id, gap_type = ''not_cited_by_ai'',
                          severity = ''critical'',
                          description = ''Brand was not mentioned in AI recommendation'',
                          recommendation = ''Improve product attributes, trust signals, and content clarity to increase AI citation likelihood'',
                          engine_source = ''AI_SIMULATION''\<rparr>]
                   else []);
          gaps2 = map (\<lambda>signal.
                     \<lparr>gap_analysis_id = analysis_id, gap_type = ''missing_attribute'',
                      severity = ''medium'',
                      description = ''AI values this attribute but it may be missing: '' @ signal,
                      recommendation = ''Add or enhance information about: '' @ signal,
                      engine_source = ''AI_SIMULATION''\<rparr>)
                   (missing_signals simulation_result)
      in gaps1 @ gaps2)"

text \<open>
  Step 8 of \<open>analyze_url\<close>: the simulation runs when a simulator is configured and brand,
  category and use case are all true values (not \<open>None\<close>, not empty); whatever is raised
  inside the \<open>try\<close> is logged and dropped.
\<close>

definition simulation_step ::
  "env \<Rightarrow> orchestrator \<Rightarrow> string \<Rightarrow> string option \<Rightarrow> string option \<Rightarrow> string option
     \<Rightarrow> parsed_data \<Rightarrow> Gap list \<Rightarrow> Gap list M" where
  "simulation_step e orch analysis_id brand product_category use_case parsed all_gaps =
     (case (simulator orch, brand, product_category, use_case) of
        (Some sim, Some b, Some c, Some u) \<Rightarrow>
          (if b \<noteq> [] \<and> c \<noteq> [] \<and> u \<noteq> []
           then try_except
                  (bnd (run_simulation sim analysis_id b c u)
                     (\<lambda>simulation_result.
                        bnd (save_simulation_result e simulation_result)
                          (\<lambda>_. let simulation_gaps =
                                      extract_simulation_gaps analysis_id simulation_result parsed
                                in ret (all_gaps @ simulation_gaps))))
                  (\<lambda>err. ret all_gaps)
           else ret all_gaps)
      | _ \<Rightarrow> ret all_gaps)"

text \<open>\<open>AnalysisOrchestrator.analyze_url\<close>: the body of the \<open>try\<close>, then the whole method.\<close>

definition pipeline ::
  "env \<Rightarrow> orchestrator \<Rightarrow> Analysis \<Rightarrow> string \<Rightarrow> string option \<Rightarrow> string option
     \<Rightarrow> string option \<Rightarrow> string M" where
  "pipeline e orch analysis url brand product_category use_case =
     bnd (update_analysis_status e (an_id analysis) PROCESSING None) (\<lambda>_.
     bnd (crawl_url e url (an_id analysis)) (\<lambda>crawled_content.
     bnd (save_crawled_content e crawled_content) (\<lambda>_.
     bnd (parse_content e crawled_content) (\<lambda>parsed.
     bnd (run_engines orch crawled_content parsed) (\<lambda>engine_scores.
     bnd (save_engine_scores e engine_scores) (\<lambda>_.
     bnd (update_composite_score e (an_id analysis) (calculate_composite_score engine_scores)) (\<lambda>_.
     bnd (identify_all_gaps orch engine_scores parsed []) (\<lambda>all_gaps.
     bnd (simulation_step e orch (an_id analysis) brand product_category use_case parsed all_gaps)
       (\<lambda>all_gaps.
     bnd (save_gaps e all_gaps) (\<lambda>_.
     bnd (update_analysis_status e (an_id analysis) COMPLETED None) (\<lambda>_.
     ret (an_id analysis))))))))))))"

definition analyze_url ::
  "env \<Rightarrow> orchestrator \<Rightarrow> string \<Rightarrow> string option \<Rightarrow> string option \<Rightarrow> string option
     \<Rightarrow> string M" where
  "analyze_url e orch url brand product_category use_case =
     bnd (create_analysis e url) (\<lambda>analysis.
       try_except (pipeline e orch analysis url brand product_category use_case)
         (\<lambda>err. bnd (update_analysis_status e (an_id analysis) FAILED (Some (str_exn err)))
                   (\<lambda>_. raise err)))"

text \<open>The orchestrator as \<open>__init__\<close> builds it: the three engines with their weights.\<close>

definition make_orchestrator ::
  "ext \<Rightarrow> real \<Rightarrow> real \<Rightarrow> real
     \<Rightarrow> (string \<Rightarrow> string \<Rightarrow> string \<Rightarrow> string \<Rightarrow> exn + SimulationResult) option
     \<Rightarrow> orchestrator" where
  "make_orchestrator x weight_ade weight_arce weight_tre sim =
     \<lparr>engines = [(''ADE'', ADEEngine weight_ade), (''ARCE'', ARCEEngine x weight_arce),
                 (''TRE'', TREEngine x weight_tre)],
      simulator = sim\<rparr>"

section \<open>Report generator\<close>

text \<open>\<open>ReportGenerator._prioritize_recommendations\<close>\<close>

definition severity_order :: "string \<Rightarrow> nat" where
  "severity_order sev =
     (case map_of [(''critical'', 0), (''high'', 1), (''medium'', 2), (''low'', 3)] sev of
        Some r \<Rightarrow> r
      | None \<Rightarrow> 99)"

record recommendation_entry =
  priority :: nat
  rec_severity :: string
  issue :: string
  action :: string
  impact :: string

definition prioritize_recommendations :: "Gap list \<Rightarrow> recommendation_entry list" where
  "prioritize_recommendations gs =
     (let sorted_gaps = sort_key (\<lambda>g. severity_order (severity g)) gs
      in map (\<lambda>(idx, gap).
                \<lparr>priority = idx + 1, rec_severity = severity gap, issue = description gap,
                 action = recommendation gap,
                 impact = (if severity gap \<in> set [''critical'', ''high''] then ''High'' else ''Medium'')\<rparr>)
             (enumerate 0 (take 10 sorted_gaps)))"

section \<open>Example inputs\<close>

text \<open>
  A page with nothing on it, as the parsers report it: no text, no headings, no images, no
  metadata and no Product schema. It is served over plain HTTP.
\<close>

definition empty_html :: html_data where
  "empty_html =
     \<lparr>title = [], meta_description = [], headings = [], images = [], text_content = [],
      word_count = 0, semantic_elements = [], metadata = [],
      heading_validation = validate_heading_hierarchy []\<rparr>"

definition empty_schema :: schema_data where
  "empty_schema =
     \<lparr>product = None,
      product_validation =
        \<lparr>present = False, completeness = 0,
         missing_fields = [''name'', ''image'', ''description'', ''brand'', ''offers'',
                           ''sku'', ''gtin'', ''mpn'', ''aggregateRating'', ''review''],
         field_count = None\<rparr>,
      offers = [], reviews = \<lparr>has_reviews = False, review_count = 0\<rparr>, schema_brand = None\<rparr>"

definition empty_page :: parsed_data where
  "empty_page = \<lparr>html = empty_html, schema = empty_schema\<rparr>"

definition demo_content :: CrawledContent where
  "demo_content =
     \<lparr>cc_analysis_id = ''a1'', cc_url = ''http://example.com'', html_content = [],
      crawl_method = ''beautifulsoup'', status_code = 200\<rparr>"

definition demo_ext :: ext where
  "demo_ext =
     \<lparr>flesch_reading_ease = (\<lambda>_. 0), search_email = (\<lambda>_. False), search_phone = (\<lambda>_. False),
      format_1f = (\<lambda>_. ''0.0'')\<rparr>"

definition empty_state :: state where
  "empty_state =
     \<lparr>db_analyses = Map.empty, db_history = [], db_crawled_pages = [], db_engine_scores = [],
      db_simulation_results = [], db_gaps = [], json_raw_content = [],
      json_simulation_data = Map.empty, calls = []\<rparr>"

text \<open>A world in which the first crawler answers and every write goes through.\<close>

definition demo_env :: env where
  "demo_env =
     \<lparr>new_id = ''a1'', db_error = (\<lambda>_. None),
      crawl_bs = (\<lambda>_ _. Inr demo_content),
      crawl_playwright = (\<lambda>_ _. Inl (Exception ''browser not installed'')),
      parse = (\<lambda>_. Inr empty_page)\<rparr>"

definition demo_orchestrator :: orchestrator where
  "demo_orchestrator = make_orchestrator demo_ext 0.3 0.2 0.2 None"

section \<open>What each stage of a run returns and leaves\<close>

text \<open>
  Closed forms of the stages of \<open>analyze_url\<close>, used to state what a run leaves in the
  database: the outcome of the crawl with its fallback, the scores of the engines that did
  not raise, the gaps of the scored engines, and the outcome of the simulation step.
\<close>

definition crawl_result :: "env \<Rightarrow> string \<Rightarrow> string \<Rightarrow> exn + CrawledContent" where
  "crawl_result e url analysis_id =
     (case crawl_bs e url analysis_id of
        Inr c \<Rightarrow> Inr c
      | Inl _ \<Rightarrow>
          (case crawl_playwright e url analysis_id of
             Inr c \<Rightarrow> Inr c
           | Inl err \<Rightarrow> Inl (CrawlerException (''Failed to crawl '' @ url @ '': '' @ str_exn err))))"

definition crawl_calls :: "env \<Rightarrow> string \<Rightarrow> string \<Rightarrow> call list" where
  "crawl_calls e url analysis_id =
     (case crawl_bs e url analysis_id of
        Inr _ \<Rightarrow> [CallCrawlBS]
      | Inl _ \<Rightarrow> [CallCrawlBS, CallCrawlPlaywright])"

definition successful_scores ::
  "(string \<times> engine) list \<Rightarrow> CrawledContent \<Rightarrow> parsed_data \<Rightarrow> EngineScore list" where
  "successful_scores engs content parsed =
     concat (map (\<lambda>(n, eng). case analyze eng content parsed of Inr sc \<Rightarrow> [sc] | Inl _ \<Rightarrow> []) engs)"

fun collect_gaps :: "(string \<times> engine) list \<Rightarrow> EngineScore list \<Rightarrow> parsed_data \<Rightarrow> Gap list" where
  "collect_gaps engs [] parsed = []"
| "collect_gaps engs (sc # rest) parsed =
     (case map_of engs (engine_name sc) of
        None \<Rightarrow> []
      | Some eng \<Rightarrow> (case identify_gaps eng sc parsed of Inr gs \<Rightarrow> gs | Inl _ \<Rightarrow> []))
     @ collect_gaps engs rest parsed"

fun identify_calls :: "(string \<times> engine) list \<Rightarrow> EngineScore list \<Rightarrow> call list" where
  "identify_calls engs [] = []"
| "identify_calls engs (sc # rest) =
     (case map_of engs (engine_name sc) of
        None \<Rightarrow> []
      | Some eng \<Rightarrow> [CallIdentifyGaps (engine_name sc)])
     @ identify_calls engs rest"

definition gaps_ok :: "(string \<times> engine) list \<Rightarrow> EngineScore list \<Rightarrow> parsed_data \<Rightarrow> bool" where
  "gaps_ok engs scores parsed =
     list_all (\<lambda>sc. case map_of engs (engine_name sc) of
                       None \<Rightarrow> True
                     | Some eng \<Rightarrow> (case identify_gaps eng sc parsed of Inr _ \<Rightarrow> True | Inl _ \<Rightarrow> False))
       scores"

definition should_simulate ::
  "orchestrator \<Rightarrow> string option \<Rightarrow> string option \<Rightarrow> string option \<Rightarrow> bool" where
  "should_simulate orch brand product_category use_case =
     (simulator orch \<noteq> None \<and> truthy brand \<and> truthy product_category \<and> truthy use_case)"

text \<open>
  The simulation step: the result the simulator returns, when the step is entered and the
  simulator does not raise; that result when also its row and its file are written, so
  that the \<open>try\<close> block runs to its end.
\<close>

definition simulation_returned ::
  "orchestrator \<Rightarrow> string \<Rightarrow> string option \<Rightarrow> string option \<Rightarrow> string option
     \<Rightarrow> SimulationResult option" where
  "simulation_returned orch analysis_id brand product_category use_case =
     (case (simulator orch, brand, product_category, use_case) of
        (Some sim, Some b, Some c, Some u) \<Rightarrow>
          (if b \<noteq> [] \<and> c \<noteq> [] \<and> u \<noteq> []
           then (case sim analysis_id b c u of Inr r \<Rightarrow> Some r | Inl _ \<Rightarrow> None)
           else None)
      | _ \<Rightarrow> None)"

definition saved_simulation ::
  "env \<Rightarrow> orchestrator \<Rightarrow> string \<Rightarrow> string option \<Rightarrow> string option \<Rightarrow> string option
     \<Rightarrow> SimulationResult option" where
  "saved_simulation e orch analysis_id brand product_category use_case =
     (if db_error e SaveSimulationResult = None \<and> db_error e WriteSimulationData = None
      then simulation_returned orch analysis_id brand product_category use_case
      else None)"

definition simulation_gaps ::
  "env \<Rightarrow> orchestrator \<Rightarrow> string \<Rightarrow> string option \<Rightarrow> string option \<Rightarrow> string option
     \<Rightarrow> parsed_data \<Rightarrow> Gap list" where
  "simulation_gaps e orch analysis_id brand product_category use_case parsed =
     (case saved_simulation e orch analysis_id brand product_category use_case of
        Some r \<Rightarrow> extract_simulation_gaps analysis_id r parsed
      | None \<Rightarrow> [])"

definition simulation_rows ::
  "env \<Rightarrow> orchestrator \<Rightarrow> string \<Rightarrow> string option \<Rightarrow> string option \<Rightarrow> string option
     \<Rightarrow> SimulationResult list" where
  "simulation_rows e orch analysis_id brand product_category use_case =
     (case simulation_returned orch analysis_id brand product_category use_case of
        Some r \<Rightarrow> (if db_error e SaveSimulationResult = None then [r] else [])
      | None \<Rightarrow> [])"

definition simulation_files ::
  "env \<Rightarrow> orchestrator \<Rightarrow> string \<Rightarrow> string option \<Rightarrow> string option \<Rightarrow> string option
     \<Rightarrow> (string \<rightharpoonup> SimulationResult) \<Rightarrow> (string \<rightharpoonup> SimulationResult)" where
  "simulation_files e orch analysis_id brand product_category use_case files =
     (case saved_simulation e orch analysis_id brand product_category use_case of
        Some r \<Rightarrow> files(sr_analysis_id r \<mapsto> r)
      | None \<Rightarrow> files)"

definition simulation_calls ::
  "orchestrator \<Rightarrow> string option \<Rightarrow> string option \<Rightarrow> string option \<Rightarrow> call list" where
  "simulation_calls orch brand product_category use_case =
     (if should_simulate orch brand product_category use_case then [CallSimulate] else [])"

section \<open>Predicates and further example inputs\<close>

text \<open>
  What holds of every version of an analysis record: the error message is set exactly
  when the status is \<open>failed\<close>, and a \<open>completed\<close> record has a composite score.
\<close>

definition record_consistent :: "Analysis \<Rightarrow> bool" where
  "record_consistent a =
     ((error_message a \<noteq> None) = (status a = FAILED)
      \<and> (status a = COMPLETED \<longrightarrow> composite_score a \<noteq> None))"

text \<open>A world like \<open>demo_env\<close> in which the database refuses to store the gaps.\<close>

definition locked_env :: env where
  "locked_env =
     demo_env\<lparr>db_error :=
       (\<lambda>opn. if opn = SaveGaps then Some (Exception ''database is locked'') else None)\<rparr>"

text \<open>
  Triples for a step: from a state satisfying \<open>P\<close> it returns \<open>x\<close> in a state satisfying
  \<open>Q x\<close>, or raises in a state satisfying \<open>E\<close>.
\<close>

definition triple :: "(state \<Rightarrow> bool) \<Rightarrow> 'a M \<Rightarrow> ('a \<Rightarrow> state \<Rightarrow> bool) \<Rightarrow> (state \<Rightarrow> bool) \<Rightarrow> bool" where
  "triple P m Q E = (\<forall>s. P s \<longrightarrow> (case m s of (Inr x, s') \<Rightarrow> Q x s' | (Inl err, s') \<Rightarrow> E s'))"

text \<open>
  The record of analysis \<open>aid\<close> is the last of the versions \<open>hs\<close> written since the
  history was \<open>h0\<close>, and all of them are consistent; and the same with a composite score
  on the record.
\<close>

definition tracked :: "Analysis list \<Rightarrow> string \<Rightarrow> state \<Rightarrow> bool" where
  "tracked h0 aid s =
     (\<exists>hs. db_history s = h0 @ hs \<and> hs \<noteq> [] \<and> db_analyses s aid = Some (last hs)
           \<and> list_all record_consistent hs)"

definition scored :: "Analysis list \<Rightarrow> string \<Rightarrow> state \<Rightarrow> bool" where
  "scored h0 aid s =
     (tracked h0 aid s \<and> (\<exists>a. db_analyses s aid = Some a \<and> composite_score a \<noteq> None))"

definition finished :: "Analysis list \<Rightarrow> string \<Rightarrow> state \<Rightarrow> bool" where
  "finished h0 aid s =
     (tracked h0 aid s \<and> (\<exists>a. db_analyses s aid = Some a \<and> status a = COMPLETED))"

text \<open>A step that leaves the \<open>analyses\<close> table alone.\<close>

definition keeps_analyses :: "'a M \<Rightarrow> bool" where
  "keeps_analyses m =
     (\<forall>s. db_analyses (snd (m s)) = db_analyses s \<and> db_history (snd (m s)) = db_history s)"

text \<open>
  A page whose text is one unpunctuated sentence of 300 one-letter words: a single
  sentence of 300 words of one syllable has a Flesch reading ease of
  \<open>206.835 - 1.015 * 300 - 84.6 * 1\<close>, about \<open>-182\<close>.
\<close>

definition hard_text_ext :: ext where
  "hard_text_ext = demo_ext\<lparr>flesch_reading_ease := (\<lambda>_. - 182)\<rparr>"

definition hard_text_page :: parsed_data where
  "hard_text_page =
     \<lparr>html = empty_html\<lparr>text_content := concat (replicate 300 ''a ''), word_count := 300\<rparr>,
      schema = empty_schema\<rparr>"

text \<open>
  The severities the pipeline gives a gap: every \<open>create_gap\<close> of the three engines and
  every gap of \<open>_extract_simulation_gaps\<close> is \<open>critical\<close>, \<open>high\<close> or \<open>medium\<close>, and
  \<open>save_gaps\<close>, called by \<open>analyze_url\<close> alone, is the only writer of the table. A table
  all of whose rows have such a severity, and a step that leaves the table alone.
\<close>

definition pipeline_severity :: "Gap \<Rightarrow> bool" where
  "pipeline_severity g = (severity g \<in> set [''critical'', ''high'', ''medium''])"

definition pipeline_gaps :: "state \<Rightarrow> bool" where
  "pipeline_gaps s = list_all pipeline_severity (db_gaps s)"

definition keeps_gaps :: "'a M \<Rightarrow> bool" where
  "keeps_gaps m = (\<forall>s. db_gaps (snd (m s)) = db_gaps s)"

text \<open>
  A database holding four gaps of analysis \<open>a1\<close> and, between them, one of analysis
  \<open>a2\<close>, in the order the engines produced them.
\<close>

definition stored_gaps_example :: state where
  "stored_gaps_example =
     empty_state\<lparr>db_gaps :=
       [\<lparr>gap_analysis_id = ''a1'', gap_type = ''low_semantic_html'', severity = ''medium'',
         description = ''Only 0 semantic HTML elements found'',
         recommendation = ''Use semantic HTML5 elements (article, section, header, main) to improve AI content understanding'',
         engine_source = ''ARCE''\<rparr>,
        \<lparr>gap_analysis_id = ''a2'', gap_type = ''missing_h1'', severity = ''high'',
         description = ''Page missing H1 heading'',
         recommendation = ''Add a clear H1 heading that describes the page content'',
         engine_source = ''ARCE''\<rparr>,
        \<lparr>gap_analysis_id = ''a1'', gap_type = ''missing_h1'', severity = ''high'',
         description = ''Page missing H1 heading'',
         recommendation = ''Add a clear H1 heading that describes the page content'',
         engine_source = ''ARCE''\<rparr>,
        \<lparr>gap_analysis_id = ''a1'', gap_type = ''no_ssl'', severity = ''critical'',
         description = ''Site not using HTTPS (SSL)'',
         recommendation = ''Enable HTTPS for secure transactions and improved trust'',
         engine_source = ''TRE''\<rparr>,
        \<lparr>gap_analysis_id = ''a1'', gap_type = ''no_reviews'', severity = ''medium'',
         description = ''No review or rating information found'',
         recommendation = ''Add AggregateRating or Review schema to build trust signals'',
         engine_source = ''TRE''\<rparr>]\<rparr>"

text \<open>
  Two worlds in which the first crawler is refused: in one the browser crawler returns
  the page, in the other it times out.
\<close>

definition fallback_content :: CrawledContent where
  "fallback_content =
     \<lparr>cc_analysis_id = ''a1'', cc_url = ''http://example.com'', html_content = [],
      crawl_method = ''playwright'', status_code = 200\<rparr>"

definition fallback_env :: env where
  "fallback_env =
     demo_env\<lparr>crawl_bs := (\<lambda>_ _. Inl (Exception ''403 Forbidden'')),
              crawl_playwright := (\<lambda>_ _. Inr fallback_content)\<rparr>"

definition offline_env :: env where
  "offline_env =
     demo_env\<lparr>crawl_bs := (\<lambda>_ _. Inl (Exception ''403 Forbidden'')),
              crawl_playwright := (\<lambda>_ _. Inl (Exception ''Timeout while loading''))\<rparr>"

text \<open>
  A world like \<open>demo_env\<close> in which the JSON store cannot write the simulation data: the
  disk is full.
\<close>

definition disk_full_env :: env where
  "disk_full_env =
     demo_env\<lparr>db_error :=
       (\<lambda>opn. if opn = WriteSimulationData then Some (Exception ''No space left on device'')
              else None)\<rparr>"

text \<open>An orchestrator whose simulator is configured and unreachable.\<close>

definition failing_simulator_orchestrator :: orchestrator where
  "failing_simulator_orchestrator =
     make_orchestrator demo_ext 0.3 0.2 0.2 (Some (\<lambda>_ _ _ _. Inl (Exception ''connection refused'')))"

text \<open>
  A simulation in which the brand is not cited and two signals are missing, and an
  orchestrator whose simulator returns it.
\<close>

definition spec_example_simulation :: SimulationResult where
  "spec_example_simulation =
     \<lparr>sr_analysis_id = ''a1'', prompt = ''Which running shoes would you recommend?'',
      response = ''Consider the Pegasus or the Ghost.'', brand_cited = False,
      citation_count = 0, missing_signals = [''warranty'', ''shipping'']\<rparr>"

definition simulating_orchestrator :: orchestrator where
  "simulating_orchestrator =
     make_orchestrator demo_ext 0.3 0.2 0.2 (Some (\<lambda>_ _ _ _. Inr spec_example_simulation))"

text \<open>A page with two H1 headings and no other heading.\<close>

definition two_h1_page :: html_data where
  "two_h1_page =
     empty_html\<lparr>headings := [(1, ''Shoes''), (1, ''Sale'')],
                heading_validation := validate_heading_hierarchy [(1, ''Shoes''), (1, ''Sale'')]\<rparr>"

text \<open>
  A product page whose Product schema has a name and no description, with a meta
  description of 120 characters.
\<close>

definition meta_only_page :: parsed_data where
  "meta_only_page =
     \<lparr>html = empty_html\<lparr>meta_description := replicate 120 CHR ''x''\<rparr>,
      schema = empty_schema
        \<lparr>product := Some [''name'' \<mapsto> ''Trail shoe''],
         product_validation :=
           \<lparr>present = True, completeness = 0.1,
            missing_fields = [''image'', ''description'', ''brand'', ''offers'', ''sku'', ''gtin'',
                              ''mpn'', ''aggregateRating'', ''review''],
            field_count = Some 1\<rparr>\<rparr>\<rparr>"

section \<open>Summary of each stage\<close>

lemma ret_apply: "ret x s = (Inr x, s)"
  by (simp add: ret_def)

lemma raise_apply: "raise e s = (Inl e, s)"
  by (simp add: raise_def)

lemma lift_apply: "lift r s = (r, s)"
  by (simp add: lift_def)

lemma call_apply: "call c s = (Inr (), s\<lparr>calls := calls s @ [c]\<rparr>)"
  by (simp add: call_def)

lemma bnd_Inr: "m s = (Inr x, s') \<Longrightarrow> bnd m f s = f x s'"
  by (simp add: bnd_def)

lemma bnd_Inl: "m s = (Inl e, s') \<Longrightarrow> bnd m f s = (Inl e, s')"
  by (simp add: bnd_def)

lemma try_Inr: "m s = (Inr x, s') \<Longrightarrow> try_except m h s = (Inr x, s')"
  by (simp add: try_except_def)

lemma try_Inl: "m s = (Inl e, s') \<Longrightarrow> try_except m h s = h e s'"
  by (simp add: try_except_def)

lemma db_execute_ok: "db_error e opn = None \<Longrightarrow> db_execute e opn f s = (Inr (), f s)"
  by (simp add: db_execute_def)

lemma db_execute_fail: "db_error e opn = Some err \<Longrightarrow> db_execute e opn f s = (Inl err, s)"
  by (simp add: db_execute_def)

lemma crawl_url_eq:
  "crawl_url e url aid s = (crawl_result e url aid, s\<lparr>calls := calls s @ crawl_calls e url aid\<rparr>)"
  by (simp add: crawl_url_def crawl_result_def crawl_calls_def try_except_def bnd_def call_def
        lift_def raise_def split: sum.splits)

lemma run_engines_loop_eq:
  "run_engines_loop engs content parsed acc s =
     (Inr (acc @ successful_scores engs content parsed),
      s\<lparr>calls := calls s @ map (\<lambda>(n, eng). CallAnalyze n) engs\<rparr>)"
proof (induction engs arbitrary: acc s)
  case Nil
  then show ?case by (simp add: ret_def successful_scores_def)
next
  case (Cons ne engs)
  obtain n eng where ne: "ne = (n, eng)" by (cases ne)
  show ?case
    by (cases "analyze eng content parsed")
       (simp_all add: ne bnd_def call_def Cons.IH successful_scores_def)
qed

lemma save_engine_scores_ok:
  "\<forall>sc \<in> set scores. db_error e (SaveEngineScore (engine_name sc)) = None \<Longrightarrow>
   save_engine_scores e scores s = (Inr (), s\<lparr>db_engine_scores := db_engine_scores s @ scores\<rparr>)"
proof (induction scores arbitrary: s)
  case Nil
  then show ?case by (simp add: ret_def)
next
  case (Cons sc scores)
  then show ?case
    by (simp add: bnd_def save_engine_score_def db_execute_def)
qed

lemma identify_all_gaps_ok:
  "gaps_ok (engines orch) scores parsed \<Longrightarrow>
   identify_all_gaps orch scores parsed acc s =
     (Inr (acc @ collect_gaps (engines orch) scores parsed),
      s\<lparr>calls := calls s @ identify_calls (engines orch) scores\<rparr>)"
proof (induction scores arbitrary: acc s)
  case Nil
  then show ?case by (simp add: ret_def)
next
  case (Cons sc scores)
  then have rest: "gaps_ok (engines orch) scores parsed" by (simp add: gaps_ok_def)
  show ?case
  proof (cases "map_of (engines orch) (engine_name sc)")
    case None
    then show ?thesis by (simp add: Cons.IH [OF rest])
  next
    case (Some eng)
    with Cons.prems obtain gs where gs: "identify_gaps eng sc parsed = Inr gs"
      by (auto simp add: gaps_ok_def split: sum.splits)
    show ?thesis
      by (simp add: Some gs bnd_def call_def lift_def Cons.IH [OF rest])
  qed
qed

lemma save_simulation_result_eq:
  "save_simulation_result e r s =
     (case db_error e SaveSimulationResult of
        Some err \<Rightarrow> (Inl err, s)
      | None \<Rightarrow>
          (case db_error e WriteSimulationData of
             Some err \<Rightarrow> (Inl err, s\<lparr>db_simulation_results := db_simulation_results s @ [r]\<rparr>)
           | None \<Rightarrow>
               (Inr (),
                s\<lparr>db_simulation_results := db_simulation_results s @ [r],
                  json_simulation_data := (json_simulation_data s)(sr_analysis_id r \<mapsto> r)\<rparr>)))"
  by (simp add: save_simulation_result_def save_simulation_data_def bnd_def db_execute_def
        split: option.splits)

lemma save_crawled_content_ok:
  "db_error e SaveCrawledContent = None \<Longrightarrow> db_error e WriteRawContent = None \<Longrightarrow>
   save_crawled_content e content s =
     (Inr (),
      s\<lparr>db_crawled_pages := db_crawled_pages s
           @ [content\<lparr>html_content := take 50000 (html_content content)\<rparr>],
        json_raw_content := json_raw_content s @ [(cc_analysis_id content, html_content content)]\<rparr>)"
  by (simp add: save_crawled_content_def save_raw_content_def bnd_def db_execute_def)

lemma simulation_step_skipped:
  "\<not> should_simulate orch brand pc uc \<Longrightarrow>
   simulation_step e orch aid brand pc uc parsed all_gaps s = (Inr all_gaps, s)
   \<and> simulation_returned orch aid brand pc uc = None"
  by (auto simp add: simulation_step_def simulation_returned_def should_simulate_def ret_def
        split: option.splits)

lemma simulation_step_entered:
  assumes "simulator orch = Some sim" "brand = Some b" "pc = Some c" "uc = Some u"
      "b \<noteq> []" "c \<noteq> []" "u \<noteq> []"
  shows "simulation_step e orch aid brand pc uc parsed all_gaps s =
     (case sim aid b c u of
        Inl err \<Rightarrow> (Inr all_gaps, s\<lparr>calls := calls s @ [CallSimulate]\<rparr>)
      | Inr r \<Rightarrow>
          (case save_simulation_result e r (s\<lparr>calls := calls s @ [CallSimulate]\<rparr>) of
             (Inl err, s') \<Rightarrow> (Inr all_gaps, s')
           | (Inr _, s') \<Rightarrow> (Inr (all_gaps @ extract_simulation_gaps aid r parsed), s')))"
    and "simulation_returned orch aid brand pc uc
      = (case sim aid b c u of Inl err \<Rightarrow> None | Inr r \<Rightarrow> Some r)"
    and "should_simulate orch brand pc uc"
  using assms
  by (simp_all add: simulation_step_def simulation_returned_def should_simulate_def
        try_except_def bnd_def run_simulation_def call_def raise_def ret_def Let_def
        split: sum.splits prod.splits)

lemma simulation_step_eq:
  "simulation_step e orch aid brand pc uc parsed all_gaps s =
     (Inr (all_gaps @ simulation_gaps e orch aid brand pc uc parsed),
      s\<lparr>db_simulation_results := db_simulation_results s @ simulation_rows e orch aid brand pc uc,
        json_simulation_data := simulation_files e orch aid brand pc uc (json_simulation_data s),
        calls := calls s @ simulation_calls orch brand pc uc\<rparr>)"
proof (cases "should_simulate orch brand pc uc")
  case False
  from simulation_step_skipped [OF False, where e = e and aid = aid and parsed = parsed
      and all_gaps = all_gaps and s = s]
  show ?thesis
    using False
    by (simp add: simulation_gaps_def simulation_rows_def simulation_files_def
          simulation_calls_def saved_simulation_def)
next
  case True
  then obtain sim b c u where v: "simulator orch = Some sim" "brand = Some b" "pc = Some c"
      "uc = Some u" "b \<noteq> []" "c \<noteq> []" "u \<noteq> []"
    by (cases "simulator orch"; cases brand; cases pc; cases uc)
       (auto simp add: should_simulate_def)
  note step = simulation_step_entered(1) [OF v, where e = e and aid = aid and parsed = parsed
      and all_gaps = all_gaps and s = s] simulation_step_entered(2) [OF v, where aid = aid]
  show ?thesis
  proof (cases "sim aid b c u")
    case (Inl err)
    then show ?thesis using True
      by (simp add: step simulation_gaps_def simulation_rows_def simulation_files_def
            simulation_calls_def saved_simulation_def)
  next
    case (Inr r)
    show ?thesis
    proof (cases "db_error e SaveSimulationResult")
      case (Some err)
      then show ?thesis using True Inr
        by (simp add: step save_simulation_result_eq simulation_gaps_def simulation_rows_def
              simulation_files_def simulation_calls_def saved_simulation_def)
    next
      case None
      then show ?thesis using True Inr
        by (cases "db_error e WriteSimulationData")
           (simp_all add: step save_simulation_result_eq simulation_gaps_def simulation_rows_def
              simulation_files_def simulation_calls_def saved_simulation_def)
    qed
  qed
qed

lemma save_gaps_ok:
  "db_error e SaveGaps = None \<Longrightarrow> save_gaps e gs s = (Inr (), s\<lparr>db_gaps := db_gaps s @ gs\<rparr>)"
  by (cases "gs = []") (simp_all add: save_gaps_def ret_def db_execute_def)

lemma pipeline_completed:
  assumes row: "db_analyses s aid = Some a"
      and aid: "an_id analysis = aid"
      and db: "\<forall>opn. opn \<noteq> SaveSimulationResult \<and> opn \<noteq> WriteSimulationData \<longrightarrow>
                 db_error e opn = None"
      and crawl: "crawl_result e url aid = Inr content"
      and parse: "parse e content = Inr parsed"
      and gaps: "gaps_ok (engines orch) (successful_scores (engines orch) content parsed) parsed"
  shows "\<exists>s'. pipeline e orch analysis url brand pc uc s = (Inr aid, s')
     \<and> db_analyses s' = (db_analyses s)(aid \<mapsto>
           a\<lparr>composite_score :=
               Some (calculate_composite_score (successful_scores (engines orch) content parsed)),
             status := COMPLETED, error_message := None\<rparr>)
     \<and> db_history s' = db_history s @
          [a\<lparr>status := PROCESSING, error_message := None\<rparr>,
           a\<lparr>status := PROCESSING, error_message := None,
             composite_score :=
               Some (calculate_composite_score (successful_scores (engines orch) content parsed))\<rparr>,
           a\<lparr>composite_score :=
               Some (calculate_composite_score (successful_scores (engines orch) content parsed)),
             status := COMPLETED, error_message := None\<rparr>]
     \<and> db_crawled_pages s' = db_crawled_pages s
           @ [content\<lparr>html_content := take 50000 (html_content content)\<rparr>]
     \<and> json_raw_content s' = json_raw_content s @ [(cc_analysis_id content, html_content content)]
     \<and> db_engine_scores s' = db_engine_scores s @ successful_scores (engines orch) content parsed
     \<and> db_simulation_results s' = db_simulation_results s @ simulation_rows e orch aid brand pc uc
     \<and> json_simulation_data s' = simulation_files e orch aid brand pc uc (json_simulation_data s)
     \<and> db_gaps s' = db_gaps s @
          collect_gaps (engines orch) (successful_scores (engines orch) content parsed) parsed @
          simulation_gaps e orch aid brand pc uc parsed
     \<and> calls s' = calls s @ crawl_calls e url aid @ [CallParse]
                 @ map (\<lambda>(n, eng). CallAnalyze n) (engines orch)
                 @ identify_calls (engines orch) (successful_scores (engines orch) content parsed)
                 @ simulation_calls orch brand pc uc"
proof -
  have d: "db_error e (UpdateStatus PROCESSING) = None"
    "db_error e SaveCrawledContent = None" "db_error e UpdateCompositeScore = None"
    "db_error e WriteRawContent = None"
    "db_error e SaveGaps = None" "db_error e (UpdateStatus COMPLETED) = None"
    "\<And>scs. \<forall>sc \<in> set scs. db_error e (SaveEngineScore (engine_name sc)) = None"
    using db by simp_all
  define s1 where "s1 = update_row aid (\<lambda>a. a\<lparr>status := PROCESSING, error_message := None\<rparr>) s"
  have 1: "\<And>f. bnd (update_analysis_status e aid PROCESSING None) f s = f (()) s1"
    by (simp add: bnd_def update_analysis_status_def db_execute_ok d s1_def)
  define s2 where "s2 = s1\<lparr>calls := calls s1 @ crawl_calls e url aid\<rparr>"
  have 2: "\<And>f. bnd (crawl_url e url aid) f s1 = f (content) s2"
    by (simp add: bnd_def crawl_url_eq crawl s2_def)
  define s3 where
    "s3 = s2\<lparr>db_crawled_pages := db_crawled_pages s2
                 @ [content\<lparr>html_content := take 50000 (html_content content)\<rparr>],
             json_raw_content := json_raw_content s2
                 @ [(cc_analysis_id content, html_content content)]\<rparr>"
  have 3: "\<And>f. bnd (save_crawled_content e content) f s2 = f (()) s3"
    by (simp add: bnd_def save_crawled_content_ok d s3_def)
  define s4 where "s4 = s3\<lparr>calls := calls s3 @ [CallParse]\<rparr>"
  have 4: "\<And>f. bnd (parse_content e content) f s3 = f (parsed) s4"
    by (simp add: bnd_def parse_content_def bnd_def call_def lift_def parse s4_def)
  define scores where "scores = successful_scores (engines orch) content parsed"
  define s5 where "s5 = s4\<lparr>calls := calls s4 @ map (\<lambda>(n, eng). CallAnalyze n) (engines orch)\<rparr>"
  have 5: "\<And>f. bnd (run_engines orch content parsed) f s4 = f (scores) s5"
    by (simp add: bnd_def run_engines_def run_engines_loop_eq scores_def s5_def)
  define s6 where "s6 = s5\<lparr>db_engine_scores := db_engine_scores s5 @ scores\<rparr>"
  have 6: "\<And>f. bnd (save_engine_scores e scores) f s5 = f (()) s6"
    by (simp add: bnd_def save_engine_scores_ok d s6_def)
  define s7 where
    "s7 = update_row aid (\<lambda>a. a\<lparr>composite_score := Some (calculate_composite_score scores)\<rparr>) s6"
  have 7: "\<And>f. bnd (update_composite_score e aid (calculate_composite_score scores)) f s6 = f (()) s7"
    by (simp add: bnd_def update_composite_score_def db_execute_ok d s7_def)
  define egaps where "egaps = collect_gaps (engines orch) scores parsed"
  define s8 where "s8 = s7\<lparr>calls := calls s7 @ identify_calls (engines orch) scores\<rparr>"
  have 8: "\<And>f. bnd (identify_all_gaps orch scores parsed []) f s7 = f (egaps) s8"
    using gaps by (simp add: bnd_def identify_all_gaps_ok scores_def egaps_def s8_def)
  define s9 where
    "s9 = s8\<lparr>db_simulation_results := db_simulation_results s8 @ simulation_rows e orch aid brand pc uc,
             json_simulation_data := simulation_files e orch aid brand pc uc (json_simulation_data s8),
             calls := calls s8 @ simulation_calls orch brand pc uc\<rparr>"
  have 9: "\<And>f. bnd (simulation_step e orch aid brand pc uc parsed egaps) f s8 = f ((egaps @ simulation_gaps e orch aid brand pc uc parsed)) s9"
    by (simp add: bnd_def simulation_step_eq s9_def)
  define s10 where
    "s10 = s9\<lparr>db_gaps := db_gaps s9 @ egaps @ simulation_gaps e orch aid brand pc uc parsed\<rparr>"
  have 10: "\<And>f. bnd (save_gaps e (egaps @ simulation_gaps e orch aid brand pc uc parsed)) f s9 = f (()) s10"
    by (simp add: bnd_def save_gaps_ok d s10_def)
  define s11 where "s11 = update_row aid (\<lambda>a. a\<lparr>status := COMPLETED, error_message := None\<rparr>) s10"
  have 11: "\<And>f. bnd (update_analysis_status e aid COMPLETED None) f s10 = f (()) s11"
    by (simp add: bnd_def update_analysis_status_def db_execute_ok d s11_def)
  have run: "pipeline e orch analysis url brand pc uc s = (Inr aid, s11)"
    unfolding pipeline_def aid
    by (simp only: 1 2 3 4 5 6 7 8 9 10 11 ret_apply)
  have f1: "db_analyses s1 aid = Some (a\<lparr>status := PROCESSING, error_message := None\<rparr>)"
    by (simp add: s1_def update_row_def row)
  have f6: "db_analyses s6 = db_analyses s1" "db_history s6 = db_history s1"
    by (simp_all add: s6_def s5_def s4_def s3_def s2_def)
  have f10: "db_analyses s10 = db_analyses s7" "db_history s10 = db_history s7"
    by (simp_all add: s10_def s9_def s8_def)
  show ?thesis
    apply (rule exI [of _ s11])
    apply (simp only: run simp_thms)
    apply (simp add: s11_def update_row_def f10 s7_def f6 f1)
    apply (simp add: s10_def s9_def s8_def s7_def update_row_def f6 f1 s6_def s5_def s4_def s3_def
        s2_def s1_def row scores_def egaps_def)
    done
qed

lemma create_analysis_ok:
  "db_error e CreateAnalysis = None \<Longrightarrow>
   bnd (create_analysis e url) f s =
     f \<lparr>an_id = new_id e, an_url = url, status = PENDING, composite_score = None,
        error_message = None\<rparr>
       (s\<lparr>db_analyses := (db_analyses s)(new_id e \<mapsto>
             \<lparr>an_id = new_id e, an_url = url, status = PENDING, composite_score = None,
              error_message = None\<rparr>),
          db_history := db_history s @
             [\<lparr>an_id = new_id e, an_url = url, status = PENDING, composite_score = None,
               error_message = None\<rparr>]\<rparr>)"
  by (simp add: create_analysis_def bnd_def db_execute_def ret_def Let_def)

lemma analyze_url_completed:
  assumes db: "\<forall>opn. opn \<noteq> SaveSimulationResult \<and> opn \<noteq> WriteSimulationData \<longrightarrow>
                 db_error e opn = None"
      and crawl: "crawl_result e url (new_id e) = Inr content"
      and parse: "parse e content = Inr parsed"
      and gaps: "gaps_ok (engines orch) (successful_scores (engines orch) content parsed) parsed"
  shows "\<exists>s'. analyze_url e orch url brand pc uc s = (Inr (new_id e), s')
     \<and> db_analyses s' = (db_analyses s)(new_id e \<mapsto>
           \<lparr>an_id = new_id e, an_url = url, status = COMPLETED,
            composite_score =
              Some (calculate_composite_score (successful_scores (engines orch) content parsed)),
            error_message = None\<rparr>)
     \<and> db_history s' = db_history s @
          [\<lparr>an_id = new_id e, an_url = url, status = PENDING, composite_score = None,
            error_message = None\<rparr>,
           \<lparr>an_id = new_id e, an_url = url, status = PROCESSING, composite_score = None,
            error_message = None\<rparr>,
           \<lparr>an_id = new_id e, an_url = url, status = PROCESSING,
            composite_score =
              Some (calculate_composite_score (successful_scores (engines orch) content parsed)),
            error_message = None\<rparr>,
           \<lparr>an_id = new_id e, an_url = url, status = COMPLETED,
            composite_score =
              Some (calculate_composite_score (successful_scores (engines orch) content parsed)),
            error_message = None\<rparr>]
     \<and> db_crawled_pages s' = db_crawled_pages s
           @ [content\<lparr>html_content := take 50000 (html_content content)\<rparr>]
     \<and> json_raw_content s' = json_raw_content s @ [(cc_analysis_id content, html_content content)]
     \<and> db_engine_scores s' = db_engine_scores s @ successful_scores (engines orch) content parsed
     \<and> db_simulation_results s' =
          db_simulation_results s @ simulation_rows e orch (new_id e) brand pc uc
     \<and> json_simulation_data s' =
          simulation_files e orch (new_id e) brand pc uc (json_simulation_data s)
     \<and> db_gaps s' = db_gaps s @
          collect_gaps (engines orch) (successful_scores (engines orch) content parsed) parsed @
          simulation_gaps e orch (new_id e) brand pc uc parsed
     \<and> calls s' = calls s @ crawl_calls e url (new_id e) @ [CallParse]
                 @ map (\<lambda>(n, eng). CallAnalyze n) (engines orch)
                 @ identify_calls (engines orch) (successful_scores (engines orch) content parsed)
                 @ simulation_calls orch brand pc uc"
proof -
  define a0 where "a0 = \<lparr>an_id = new_id e, an_url = url, status = PENDING,
    composite_score = None, error_message = None\<rparr>"
  define s0 where "s0 = s\<lparr>db_analyses := (db_analyses s)(new_id e \<mapsto> a0),
    db_history := db_history s @ [a0]\<rparr>"
  have c: "db_error e CreateAnalysis = None" using db by simp
  have row: "db_analyses s0 (new_id e) = Some a0" by (simp add: s0_def)
  have aid: "an_id a0 = new_id e" by (simp add: a0_def)
  obtain s' where p: "pipeline e orch a0 url brand pc uc s0 = (Inr (new_id e), s')"
    and f: "db_analyses s' = (db_analyses s0)(new_id e \<mapsto>
           a0\<lparr>composite_score :=
               Some (calculate_composite_score (successful_scores (engines orch) content parsed)),
             status := COMPLETED, error_message := None\<rparr>)"
      "db_history s' = db_history s0 @
          [a0\<lparr>status := PROCESSING, error_message := None\<rparr>,
           a0\<lparr>status := PROCESSING, error_message := None,
             composite_score :=
               Some (calculate_composite_score (successful_scores (engines orch) content parsed))\<rparr>,
           a0\<lparr>composite_score :=
               Some (calculate_composite_score (successful_scores (engines orch) content parsed)),
             status := COMPLETED, error_message := None\<rparr>]"
      "db_crawled_pages s' = db_crawled_pages s0
           @ [content\<lparr>html_content := take 50000 (html_content content)\<rparr>]"
      "json_raw_content s' = json_raw_content s0 @ [(cc_analysis_id content, html_content content)]"
      "db_engine_scores s' = db_engine_scores s0 @ successful_scores (engines orch) content parsed"
      "db_simulation_results s' =
          db_simulation_results s0 @ simulation_rows e orch (new_id e) brand pc uc"
      "json_simulation_data s' =
          simulation_files e orch (new_id e) brand pc uc (json_simulation_data s0)"
      "db_gaps s' = db_gaps s0 @
          collect_gaps (engines orch) (successful_scores (engines orch) content parsed) parsed @
          simulation_gaps e orch (new_id e) brand pc uc parsed"
      "calls s' = calls s0 @ crawl_calls e url (new_id e) @ [CallParse]
                 @ map (\<lambda>(n, eng). CallAnalyze n) (engines orch)
                 @ identify_calls (engines orch) (successful_scores (engines orch) content parsed)
                 @ simulation_calls orch brand pc uc"
    using pipeline_completed [OF row aid db crawl parse gaps, where brand = brand and pc = pc and uc = uc]
    by blast
  have run: "analyze_url e orch url brand pc uc s = (Inr (new_id e), s')"
    unfolding analyze_url_def
    by (simp add: create_analysis_ok [OF c] a0_def [symmetric] s0_def [symmetric]
          try_except_def p)
  show ?thesis
    apply (rule exI [of _ s'])
    apply (simp only: run simp_thms f)
    apply (simp add: s0_def a0_def)
    done
qed

lemma analyze_url_crawl_failed:
  assumes db: "db_error e CreateAnalysis = None" "db_error e (UpdateStatus PROCESSING) = None"
        "db_error e (UpdateStatus FAILED) = None"
      and crawl: "crawl_result e url (new_id e) = Inl err"
  shows "analyze_url e orch url brand pc uc s =
     (Inl err,
      s\<lparr>db_analyses := (db_analyses s)(new_id e \<mapsto>
           \<lparr>an_id = new_id e, an_url = url, status = FAILED, composite_score = None,
            error_message = Some (str_exn err)\<rparr>),
        db_history := db_history s @
          [\<lparr>an_id = new_id e, an_url = url, status = PENDING, composite_score = None,
            error_message = None\<rparr>,
           \<lparr>an_id = new_id e, an_url = url, status = PROCESSING, composite_score = None,
            error_message = None\<rparr>,
           \<lparr>an_id = new_id e, an_url = url, status = FAILED, composite_score = None,
            error_message = Some (str_exn err)\<rparr>],
        calls := calls s @ crawl_calls e url (new_id e)\<rparr>)"
  unfolding analyze_url_def pipeline_def
  apply (subst create_analysis_ok [OF db(1)])
  apply (simp add: db update_analysis_status_def db_execute_def bnd_def
        try_except_def crawl_url_eq crawl update_row_def raise_def)
  done

section \<open>The three engines in the pipeline\<close>

lemmas engine_defs =
  make_orchestrator_def ADEEngine_def ARCEEngine_def TREEngine_def
  ADE_analyze_def ADE_score_attribute_richness_def ADE_score_schema_completeness_def
  ARCE_analyze_def ARCE_score_semantic_html_def ARCE_score_readability_def
  ARCE_score_heading_hierarchy_def ARCE_score_metadata_def count_semantic_html_tags_def
  TRE_analyze_def TRE_score_cta_presence_def TRE_score_trust_signals_def
  TRE_score_contact_info_def TRE_score_payment_shipping_info_def TRE_detect_buy_button_def
  create_score_def validate_heading_hierarchy_def any_keyword_def lower_def
  buy_keywords_def policy_keywords_def address_keywords_def payment_keywords_def
  shipping_keywords_def

lemmas demo_defs =
  demo_orchestrator_def demo_env_def demo_content_def demo_ext_def empty_page_def
  empty_html_def empty_schema_def empty_state_def

lemma demo_scores:
  "map (\<lambda>sc. (engine_name sc, score sc, weight sc))
     (successful_scores (engines demo_orchestrator) demo_content empty_page)
   = [(''ARCE'', 15, 0.2), (''TRE'', 0, 0.2)]"
  by (simp add: successful_scores_def engine_defs demo_defs Let_def)

lemma demo_composite:
  "calculate_composite_score (successful_scores (engines demo_orchestrator) demo_content empty_page)
   = 7.5"
proof -
  have w: "map weight (successful_scores (engines demo_orchestrator) demo_content empty_page) = [0.2, 0.2]"
    and sw: "map (\<lambda>s. score s * weight s)
       (successful_scores (engines demo_orchestrator) demo_content empty_page) = [3, 0]"
    by (simp_all add: successful_scores_def engine_defs demo_defs Let_def)
  show ?thesis
    by (simp add: calculate_composite_score_def w sw py_round2_def round_half_even_def)
qed

lemmas gap_defs =
  ADE_identify_gaps_def ARCE_identify_gaps_def TRE_identify_gaps_def create_gap_def
  details_int_def details_float_def details_bool_def

lemma demo_gaps_ok:
  "gaps_ok (engines (make_orchestrator x w1 w2 w3 sim)) scores parsed"
  by (induction scores) (simp_all add: gaps_ok_def make_orchestrator_def ADEEngine_def ARCEEngine_def TREEngine_def)

lemma demo_gap_types:
  "map (\<lambda>g. (engine_source g, gap_type g, severity g))
     (collect_gaps (engines demo_orchestrator)
        (successful_scores (engines demo_orchestrator) demo_content empty_page) empty_page)
   = [(''ARCE'', ''low_semantic_html'', ''medium''), (''ARCE'', ''missing_h1'', ''high''),
      (''ARCE'', ''poor_readability'', ''medium''), (''ARCE'', ''missing_meta_description'', ''medium''),
      (''TRE'', ''no_buy_button'', ''critical''), (''TRE'', ''missing_offer_schema'', ''high''),
      (''TRE'', ''no_reviews'', ''medium''), (''TRE'', ''no_ssl'', ''critical''),
      (''TRE'', ''no_contact_info'', ''high'')]"
  by (simp add: successful_scores_def engine_defs demo_defs gap_defs Let_def)

lemma make_orchestrator_names:
  "\<forall>(n, eng) \<in> set (engines (make_orchestrator x w1 w2 w3 sim)).
     \<forall>sc. analyze eng content parsed = Inr sc \<longrightarrow> engine_name sc = n"
  by (auto simp add: make_orchestrator_def ADEEngine_def ARCEEngine_def TREEngine_def
        ADE_analyze_def ARCE_analyze_def TRE_analyze_def create_score_def Let_def
        split: sum.splits option.splits)

lemma make_orchestrator_sources:
  "\<forall>(n, eng) \<in> set (engines (make_orchestrator x w1 w2 w3 sim)).
     \<forall>sc gs. identify_gaps eng sc parsed = Inr gs \<longrightarrow> (\<forall>g \<in> set gs. engine_source g = n)"
  by (auto simp add: make_orchestrator_def ADEEngine_def ARCEEngine_def TREEngine_def
        ADE_identify_gaps_def ARCE_identify_gaps_def TRE_identify_gaps_def create_gap_def Let_def)

lemma make_orchestrator_distinct:
  "distinct (map fst (engines (make_orchestrator x w1 w2 w3 sim)))"
  by (simp add: make_orchestrator_def)

lemma successful_scores_iff:
  "sc \<in> set (successful_scores engs content parsed) \<longleftrightarrow>
     (\<exists>n eng. (n, eng) \<in> set engs \<and> analyze eng content parsed = Inr sc)"
proof (induction engs)
  case Nil
  then show ?case by (simp add: successful_scores_def)
next
  case (Cons ne engs)
  obtain n eng where ne: "ne = (n, eng)" by (cases ne)
  have hd: "sc \<in> set (case analyze eng content parsed of Inr sc' \<Rightarrow> [sc'] | Inl _ \<Rightarrow> [])
              \<longleftrightarrow> analyze eng content parsed = Inr sc"
    by (cases "analyze eng content parsed") auto
  have "sc \<in> set (successful_scores (ne # engs) content parsed) \<longleftrightarrow>
          analyze eng content parsed = Inr sc \<or> sc \<in> set (successful_scores engs content parsed)"
    using hd by (simp add: successful_scores_def ne)
  then show ?case using Cons.IH ne by auto
qed

lemma collect_gaps_sources:
  assumes "\<forall>(n, eng) \<in> set engs. \<forall>sc gs. identify_gaps eng sc parsed = Inr gs \<longrightarrow>
             (\<forall>g \<in> set gs. engine_source g = n)"
      and "g \<in> set (collect_gaps engs scores parsed)"
  shows "\<exists>sc \<in> set scores. engine_source g = engine_name sc"
  using assms(2)
proof (induction scores)
  case Nil
  then show ?case by simp
next
  case (Cons sc scores)
  show ?case
  proof (cases "g \<in> set (collect_gaps engs scores parsed)")
    case True
    then show ?thesis using Cons.IH by auto
  next
    case False
    with Cons.prems have here:
      "g \<in> set (case map_of engs (engine_name sc) of
                   None \<Rightarrow> []
                 | Some eng \<Rightarrow> (case identify_gaps eng sc parsed of Inr gs \<Rightarrow> gs | Inl _ \<Rightarrow> []))"
      by simp
    then obtain eng where m: "map_of engs (engine_name sc) = Some eng"
      by (cases "map_of engs (engine_name sc)") auto
    with here obtain gs where i: "identify_gaps eng sc parsed = Inr gs" and g: "g \<in> set gs"
      by (cases "identify_gaps eng sc parsed") auto
    from m have "(engine_name sc, eng) \<in> set engs" by (rule map_of_SomeD)
    with assms(1) i g have "engine_source g = engine_name sc" by blast
    then show ?thesis by simp
  qed
qed

lemma simulation_gaps_source:
  "g \<in> set (simulation_gaps e orch aid brand pc uc parsed) \<Longrightarrow> engine_source g = ''AI_SIMULATION''"
  by (auto simp add: simulation_gaps_def extract_simulation_gaps_def Let_def split: option.splits if_splits)

section \<open>Where the engine scores do stay in range\<close>

lemma TRE_cta_bounds: "0 \<le> TRE_score_cta_presence h sd \<and> TRE_score_cta_presence h sd \<le> 30"
  by (simp add: TRE_score_cta_presence_def Let_def split: list.splits)

lemma TRE_trust_bounds: "0 \<le> TRE_score_trust_signals h sd url \<and> TRE_score_trust_signals h sd url \<le> 30"
  by (simp add: TRE_score_trust_signals_def Let_def)

lemma TRE_contact_bounds: "0 \<le> TRE_score_contact_info x h sd \<and> TRE_score_contact_info x h sd \<le> 20"
  by (simp add: TRE_score_contact_info_def Let_def)

lemma TRE_payment_bounds:
  "0 \<le> TRE_score_payment_shipping_info h sd \<and> TRE_score_payment_shipping_info h sd \<le> 20"
  by (simp add: TRE_score_payment_shipping_info_def Let_def)

lemma TRE_score_in_range:
  "\<exists>sc. TRE_analyze x w content parsed = Inr sc \<and> 0 \<le> score sc \<and> score sc \<le> 100"
proof -
  have "score (create_score ''TRE'' w (cc_analysis_id content)
          (TRE_score_cta_presence (html parsed) (schema parsed)
           + TRE_score_trust_signals (html parsed) (schema parsed) (cc_url content)
           + TRE_score_contact_info x (html parsed) (schema parsed)
           + TRE_score_payment_shipping_info (html parsed) (schema parsed)) d)
        = TRE_score_cta_presence (html parsed) (schema parsed)
           + TRE_score_trust_signals (html parsed) (schema parsed) (cc_url content)
           + TRE_score_contact_info x (html parsed) (schema parsed)
           + TRE_score_payment_shipping_info (html parsed) (schema parsed)" for d
    by (simp add: create_score_def)
  then show ?thesis
    using TRE_cta_bounds [of "html parsed" "schema parsed"]
      TRE_trust_bounds [of "html parsed" "schema parsed" "cc_url content"]
      TRE_contact_bounds [of x "html parsed" "schema parsed"]
      TRE_payment_bounds [of "html parsed" "schema parsed"]
    by (simp add: TRE_analyze_def Let_def)
qed

lemma ARCE_semantic_bounds: "0 \<le> ARCE_score_semantic_html h \<and> ARCE_score_semantic_html h \<le> 30"
  by (simp add: ARCE_score_semantic_html_def Let_def)

lemma ARCE_readability_upper: "ARCE_score_readability x h \<le> 25"
  by (simp add: ARCE_score_readability_def Let_def)

lemma ARCE_readability_lower:
  "0 \<le> flesch_reading_ease x (text_content h) \<Longrightarrow> 0 \<le> ARCE_score_readability x h"
  by (simp add: ARCE_score_readability_def Let_def)

lemma ARCE_hierarchy_bounds: "0 \<le> ARCE_score_heading_hierarchy h \<and> ARCE_score_heading_hierarchy h \<le> 25"
  by (simp add: ARCE_score_heading_hierarchy_def Let_def)

lemma ARCE_metadata_bounds: "0 \<le> ARCE_score_metadata h \<and> ARCE_score_metadata h \<le> 20"
  by (simp add: ARCE_score_metadata_def Let_def)

lemma ARCE_score_in_range:
  "\<exists>sc. ARCE_analyze x w content parsed = Inr sc \<and> score sc \<le> 100
     \<and> score sc =
         ARCE_score_semantic_html (html parsed) + ARCE_score_readability x (html parsed)
         + ARCE_score_heading_hierarchy (html parsed) + ARCE_score_metadata (html parsed)
     \<and> (0 \<le> flesch_reading_ease x (text_content (html parsed)) \<longrightarrow> 0 \<le> score sc)"
  using ARCE_semantic_bounds [of "html parsed"] ARCE_readability_upper [of x "html parsed"]
    ARCE_readability_lower [of x "html parsed"] ARCE_hierarchy_bounds [of "html parsed"]
    ARCE_metadata_bounds [of "html parsed"]
  by (simp add: ARCE_analyze_def Let_def create_score_def)

lemma ADE_richness_bounds:
  assumes "ADE_score_attribute_richness sd h = Inr r"
  shows "0 \<le> r \<and> r \<le> 30"
proof -
  have b: "0 \<le> calculate_richness_score d 300 15 \<and> calculate_richness_score d 300 15 \<le> 15" for d
    by (simp add: calculate_richness_score_def Let_def min_def)
  from assms obtain prd where p: "product sd = Some prd"
    by (cases "product sd") (simp_all add: ADE_score_attribute_richness_def)
  define d where "d = (if get_str prd ''description'' \<noteq> [] then get_str prd ''description''
                       else meta_description h)"
  define a1 :: real where "a1 = (if truthy (schema_brand sd) then 7.5 else 0)"
  define a2 :: real where
    "a2 = (if truthy (prd ''sku'') \<or> truthy (prd ''gtin'') \<or> truthy (prd ''mpn'') then 7.5 else 0)"
  have r: "r = calculate_richness_score d 300 15 + (a1 + a2)"
    using assms by (auto simp add: ADE_score_attribute_richness_def Let_def p d_def a1_def a2_def)
  have "0 \<le> a1 \<and> a1 \<le> 7.5" "0 \<le> a2 \<and> a2 \<le> 7.5"
    by (simp_all add: a1_def a2_def)
  with b [of d] show ?thesis unfolding r by linarith
qed

lemma ADE_image_bounds: "0 \<le> ADE_score_image_quality sd h \<and> ADE_score_image_quality sd h \<le> 20"
proof (cases "images h = []")
  case True
  then show ?thesis by (simp add: ADE_score_image_quality_def)
next
  case False
  define cnt :: real where "cnt = min 10 (real (length (images h)) * 2.5)"
  define ratio :: real where
    "ratio = real (length (filter (\<lambda>img. alt img \<noteq> []) (images h))) / real (length (images h))"
  from False have pos: "0 < real (length (images h))" by simp
  have "length (filter (\<lambda>img. alt img \<noteq> []) (images h)) \<le> length (images h)"
    by (rule length_filter_le)
  then have r1: "ratio \<le> 1" unfolding ratio_def using pos by (simp add: divide_le_eq_1)
  have r0: "0 \<le> ratio" unfolding ratio_def by simp
  have c: "0 \<le> cnt \<and> cnt \<le> 10" unfolding cnt_def by simp
  have eq: "ADE_score_image_quality sd h = cnt + ratio * 10"
    unfolding ADE_score_image_quality_def Let_def cnt_def ratio_def
    using False by (simp only: if_False)
  show ?thesis unfolding eq using c r0 r1 by linarith
qed

lemma ADE_specs_bounds: "0 \<le> ADE_score_technical_specs h \<and> ADE_score_technical_specs h \<le> 10"
  by (simp add: ADE_score_technical_specs_def Let_def)

lemma ADE_schema_bounds:
  "0 \<le> completeness (product_validation sd) \<Longrightarrow> completeness (product_validation sd) \<le> 1 \<Longrightarrow>
   0 \<le> ADE_score_schema_completeness sd \<and> ADE_score_schema_completeness sd \<le> 40"
  by (simp add: ADE_score_schema_completeness_def Let_def)

lemma ADE_score_in_range:
  assumes "ADE_analyze w content parsed = Inr sc"
      and "0 \<le> completeness (product_validation (schema parsed))"
      and "completeness (product_validation (schema parsed)) \<le> 1"
  shows "0 \<le> score sc \<and> score sc \<le> 100"
proof -
  from assms(1) obtain r where r: "ADE_score_attribute_richness (schema parsed) (html parsed) = Inr r"
    and sc: "score sc = ADE_score_schema_completeness (schema parsed) + r
               + ADE_score_image_quality (schema parsed) (html parsed)
               + ADE_score_technical_specs (html parsed)"
    by (auto simp add: ADE_analyze_def Let_def create_score_def split: sum.splits option.splits)
  show ?thesis
    using ADE_richness_bounds [OF r] ADE_image_bounds [of "schema parsed" "html parsed"]
      ADE_specs_bounds [of "html parsed"] ADE_schema_bounds [OF assms(2) assms(3)]
    by (simp add: sc)
qed

section \<open>Where the two gap orders agree\<close>

lemma insort_key_order_equiv:
  fixes f :: "'a \<Rightarrow> 'b::linorder" and g :: "'a \<Rightarrow> 'c::linorder"
  assumes "\<forall>y \<in> set ys. (f x \<le> f y) = (g x \<le> g y)"
  shows "insort_key f x ys = insort_key g x ys"
  using assms by (induction ys) simp_all

lemma sort_key_order_equiv:
  fixes f :: "'a \<Rightarrow> 'b::linorder" and g :: "'a \<Rightarrow> 'c::linorder"
  assumes "\<forall>x \<in> set xs. \<forall>y \<in> set xs. (f x \<le> f y) = (g x \<le> g y)"
  shows "sort_key f xs = sort_key g xs"
  using assms
proof (induction xs)
  case Nil
  then show ?case by simp
next
  case (Cons x xs)
  then have IH: "sort_key f xs = sort_key g xs" by simp
  have "\<forall>y \<in> set (sort_key g xs). (f x \<le> f y) = (g x \<le> g y)"
    using Cons.prems by simp
  then show ?case
    by (simp add: IH insort_key_order_equiv)
qed

lemma severity_orders_agree:
  assumes "a \<in> {''critical'', ''high'', ''medium''}" and "b \<in> {''critical'', ''high'', ''medium''}"
  shows "(a \<le> b) = (severity_order a \<le> severity_order b)"
  using assms by (auto simp add: severity_order_def)

lemma get_gaps_rank_order:
  assumes "\<forall>g \<in> set (db_gaps s). severity g \<in> {''critical'', ''high'', ''medium''}"
  shows "get_gaps s aid =
     sort_key (\<lambda>g. severity_order (severity g))
       (filter (\<lambda>g. gap_analysis_id g = aid) (db_gaps s))"
  unfolding get_gaps_def
  by (rule sort_key_order_equiv) (use assms severity_orders_agree in auto)

lemma prioritize_recommendations_order:
  "map rec_severity (prioritize_recommendations gs)
     = map severity (take 10 (sort_key (\<lambda>g. severity_order (severity g)) gs))
   \<and> map issue (prioritize_recommendations gs)
     = map description (take 10 (sort_key (\<lambda>g. severity_order (severity g)) gs))
   \<and> sorted (map (\<lambda>g. severity_order (severity g)) (sort_key (\<lambda>g. severity_order (severity g)) gs))
   \<and> filter (\<lambda>g. severity_order (severity g) = k) (sort_key (\<lambda>g. severity_order (severity g)) gs)
     = filter (\<lambda>g. severity_order (severity g) = k) gs
   \<and> length (prioritize_recommendations gs) = min 10 (length gs)"
proof -
  have m: "map (h \<circ> (\<lambda>(idx, gap). F idx gap)) (enumerate n xs) = map G xs"
    if "\<And>idx gap. h (F idx gap) = G gap" for h F G n and xs :: "Gap list"
    using that by (induction xs arbitrary: n) simp_all
  show ?thesis
    by (simp add: prioritize_recommendations_def Let_def m sort_key_stable min.commute)
qed

section \<open>Rounding keeps a value between two integers\<close>





section \<open>Claims about the composite scorer\<close>



section \<open>The analysis record during a run\<close>

lemma triple_bnd:
  "triple P m Q E \<Longrightarrow> (\<And>x. triple (Q x) (f x) R E) \<Longrightarrow> triple P (bnd m f) R E"
  unfolding triple_def bnd_def
  by (fastforce split: prod.splits sum.splits)

lemma triple_try:
  "triple P m Q E' \<Longrightarrow> (\<And>err. triple E' (h err) Q E) \<Longrightarrow> triple P (try_except m h) Q E"
  unfolding triple_def try_except_def
  by (fastforce split: prod.splits sum.splits)

lemma triple_ret: "triple (Q x) (ret x) Q E"
  by (simp add: triple_def ret_def)

lemma triple_raise: "triple E (raise err) Q E"
  by (simp add: triple_def raise_def)

lemma triple_weaken:
  "triple P m Q E \<Longrightarrow> (\<And>s. P' s \<Longrightarrow> P s) \<Longrightarrow> (\<And>x s. Q x s \<Longrightarrow> Q' x s) \<Longrightarrow>
   (\<And>s. E s \<Longrightarrow> E' s) \<Longrightarrow> triple P' m Q' E'"
  unfolding triple_def
  by (fastforce split: prod.splits sum.splits)

lemma tracked_cong:
  "db_analyses s' = db_analyses s \<Longrightarrow> db_history s' = db_history s \<Longrightarrow>
   tracked h0 aid s' = tracked h0 aid s"
  by (simp add: tracked_def)

lemma scored_cong:
  "db_analyses s' = db_analyses s \<Longrightarrow> db_history s' = db_history s \<Longrightarrow>
   scored h0 aid s' = scored h0 aid s"
  by (simp add: scored_def tracked_def)

lemma keeps_tracked: "keeps_analyses m \<Longrightarrow> triple (tracked h0 aid) m (\<lambda>_. tracked h0 aid) (tracked h0 aid)"
  unfolding triple_def keeps_analyses_def
proof (intro allI impI)
  fix s assume k: "\<forall>s. db_analyses (snd (m s)) = db_analyses s \<and> db_history (snd (m s)) = db_history s"
    and t: "tracked h0 aid s"
  have "tracked h0 aid (snd (m s))" using k t tracked_cong [of "snd (m s)" s h0 aid] by simp
  then show "case m s of (Inr x, s') \<Rightarrow> tracked h0 aid s' | (Inl err, s') \<Rightarrow> tracked h0 aid s'"
    by (cases "m s") (auto split: sum.splits)
qed

lemma keeps_scored: "keeps_analyses m \<Longrightarrow> triple (scored h0 aid) m (\<lambda>_. scored h0 aid) (tracked h0 aid)"
  unfolding triple_def keeps_analyses_def
proof (intro allI impI)
  fix s assume k: "\<forall>s. db_analyses (snd (m s)) = db_analyses s \<and> db_history (snd (m s)) = db_history s"
    and t: "scored h0 aid s"
  have "scored h0 aid (snd (m s))" using k t scored_cong [of "snd (m s)" s h0 aid] by simp
  then show "case m s of (Inr x, s') \<Rightarrow> scored h0 aid s' | (Inl err, s') \<Rightarrow> tracked h0 aid s'"
    by (cases "m s") (auto simp add: scored_def split: sum.splits)
qed

lemma keeps_db_execute:
  "(\<And>s. db_analyses (f s) = db_analyses s \<and> db_history (f s) = db_history s) \<Longrightarrow>
   keeps_analyses (db_execute e opn f)"
  by (simp add: keeps_analyses_def db_execute_def split: option.splits)

lemma keeps_bnd: "keeps_analyses m \<Longrightarrow> (\<And>x. keeps_analyses (f x)) \<Longrightarrow> keeps_analyses (bnd m f)"
  unfolding keeps_analyses_def bnd_def
proof (intro allI)
  fix s
  assume m: "\<forall>s. db_analyses (snd (m s)) = db_analyses s \<and> db_history (snd (m s)) = db_history s"
    and f: "\<And>x. \<forall>s. db_analyses (snd (f x s)) = db_analyses s \<and> db_history (snd (f x s)) = db_history s"
  obtain r s1 where ms: "m s = (r, s1)" by (cases "m s")
  from m have s1: "db_analyses s1 = db_analyses s \<and> db_history s1 = db_history s"
    using ms by (metis snd_conv)
  show "db_analyses (snd (case m s of (Inl e, s') \<Rightarrow> (Inl e, s') | (Inr x, s') \<Rightarrow> f x s')) = db_analyses s
      \<and> db_history (snd (case m s of (Inl e, s') \<Rightarrow> (Inl e, s') | (Inr x, s') \<Rightarrow> f x s')) = db_history s"
    using s1 f by (cases r) (simp_all add: ms)
qed

lemma keeps_ret: "keeps_analyses (ret x)"
  by (simp add: keeps_analyses_def ret_def)

lemma keeps_crawl_url: "keeps_analyses (crawl_url e url aid)"
  by (simp add: keeps_analyses_def crawl_url_eq)

lemma keeps_save_crawled_content: "keeps_analyses (save_crawled_content e content)"
  by (simp add: keeps_analyses_def save_crawled_content_def save_raw_content_def bnd_def
        db_execute_def split: option.splits)

lemma keeps_parse_content: "keeps_analyses (parse_content e content)"
  by (simp add: keeps_analyses_def parse_content_def bnd_def call_def lift_def)

lemma keeps_run_engines: "keeps_analyses (run_engines orch content parsed)"
  by (simp add: keeps_analyses_def run_engines_def run_engines_loop_eq)

lemma keeps_save_engine_score: "keeps_analyses (save_engine_score e sc)"
  unfolding save_engine_score_def by (rule keeps_db_execute) simp

lemma keeps_save_engine_scores: "keeps_analyses (save_engine_scores e scores)"
  by (induction scores) (simp_all add: keeps_ret keeps_bnd keeps_save_engine_score)

lemma keeps_call: "keeps_analyses (call c)"
  by (simp add: keeps_analyses_def call_def)

lemma keeps_lift: "keeps_analyses (lift r)"
  by (simp add: keeps_analyses_def lift_def)

lemma keeps_identify_all_gaps: "keeps_analyses (identify_all_gaps orch scores parsed acc)"
proof (induction scores arbitrary: acc)
  case Nil
  then show ?case by (simp add: keeps_ret)
next
  case (Cons sc scores)
  show ?case
    by (cases "map_of (engines orch) (engine_name sc)")
       (simp_all add: Cons.IH keeps_bnd keeps_call keeps_lift)
qed

lemma keeps_simulation_step:
  "keeps_analyses (simulation_step e orch aid brand pc uc parsed all_gaps)"
  by (simp add: keeps_analyses_def simulation_step_eq)

lemma keeps_save_gaps: "keeps_analyses (save_gaps e gs)"
proof (cases "gs = []")
  case True
  then show ?thesis by (simp add: save_gaps_def keeps_ret)
next
  case False
  then show ?thesis unfolding save_gaps_def by (simp add: keeps_db_execute)
qed

lemma tracked_update_row:
  assumes t: "tracked h0 aid s"
      and f: "\<And>a. db_analyses s aid = Some a \<Longrightarrow> record_consistent a \<Longrightarrow> record_consistent (f a)"
  shows "tracked h0 aid (update_row aid f s)"
proof -
  from t obtain hs where h: "db_history s = h0 @ hs" and ne: "hs \<noteq> []"
    and row: "db_analyses s aid = Some (last hs)" and ok: "list_all record_consistent hs"
    unfolding tracked_def by blast
  from ne ok have "record_consistent (last hs)" by (simp add: list_all_iff)
  with f row have new: "record_consistent (f (last hs))" by blast
  have "db_history (update_row aid f s) = h0 @ (hs @ [f (last hs)])"
    and "hs @ [f (last hs)] \<noteq> []"
    and "db_analyses (update_row aid f s) aid = Some (last (hs @ [f (last hs)]))"
    and "list_all record_consistent (hs @ [f (last hs)])"
    using h row ok new by (simp_all add: update_row_def)
  then show ?thesis unfolding tracked_def by blast
qed

lemma update_row_lookup:
  "db_analyses s aid = Some a \<Longrightarrow> db_analyses (update_row aid f s) aid = Some (f a)"
  by (simp add: update_row_def)

lemma tracked_row: "tracked h0 aid s \<Longrightarrow> \<exists>a. db_analyses s aid = Some a"
  unfolding tracked_def by blast

lemma triple_db_execute:
  "(\<And>s. P s \<Longrightarrow> Q (f s)) \<Longrightarrow> (\<And>s. P s \<Longrightarrow> E s) \<Longrightarrow>
   triple P (db_execute e opn f) (\<lambda>_. Q) E"
  by (simp add: triple_def db_execute_def split: option.splits)

lemma triple_status_processing:
  "triple (tracked h0 aid) (update_analysis_status e aid PROCESSING None)
     (\<lambda>_. tracked h0 aid) (tracked h0 aid)"
  unfolding update_analysis_status_def
  by (rule triple_db_execute) (simp_all add: tracked_update_row record_consistent_def)

lemma triple_status_failed:
  "triple (tracked h0 aid) (update_analysis_status e aid FAILED (Some msg))
     (\<lambda>_. tracked h0 aid) (tracked h0 aid)"
  unfolding update_analysis_status_def
  by (rule triple_db_execute) (simp_all add: tracked_update_row record_consistent_def)

lemma triple_composite:
  "triple (tracked h0 aid) (update_composite_score e aid c)
     (\<lambda>_. scored h0 aid) (tracked h0 aid)"
  unfolding update_composite_score_def
proof (rule triple_db_execute)
  fix s assume t: "tracked h0 aid s"
  then obtain a where row: "db_analyses s aid = Some a" using tracked_row by blast
  have "tracked h0 aid (update_row aid (\<lambda>a. a\<lparr>composite_score := Some c\<rparr>) s)"
    using t by (rule tracked_update_row) (simp add: record_consistent_def)
  then show "scored h0 aid (update_row aid (\<lambda>a. a\<lparr>composite_score := Some c\<rparr>) s)"
    unfolding scored_def using update_row_lookup [OF row] by simp
qed simp

lemma triple_status_completed:
  "triple (scored h0 aid) (update_analysis_status e aid COMPLETED None)
     (\<lambda>_. finished h0 aid) (tracked h0 aid)"
  unfolding update_analysis_status_def
proof (rule triple_db_execute)
  fix s assume sc: "scored h0 aid s"
  then obtain a where t: "tracked h0 aid s" and row: "db_analyses s aid = Some a"
    and comp: "composite_score a \<noteq> None"
    unfolding scored_def by blast
  have "tracked h0 aid (update_row aid (\<lambda>a. a\<lparr>status := COMPLETED, error_message := None\<rparr>) s)"
    using t
  proof (rule tracked_update_row)
    fix a' assume "db_analyses s aid = Some a'"
    with row comp have "composite_score a' \<noteq> None" by simp
    then show "record_consistent (a'\<lparr>status := COMPLETED, error_message := None\<rparr>)"
      by (simp add: record_consistent_def)
  qed
  then show "finished h0 aid (update_row aid (\<lambda>a. a\<lparr>status := COMPLETED, error_message := None\<rparr>) s)"
    unfolding finished_def using update_row_lookup [OF row] by simp
next
  fix s assume "scored h0 aid s"
  then show "tracked h0 aid s" by (simp add: scored_def)
qed

lemma triple_pipeline:
  "triple (tracked h0 (an_id analysis)) (pipeline e orch analysis url brand pc uc)
     (\<lambda>_. finished h0 (an_id analysis)) (tracked h0 (an_id analysis))"
  unfolding pipeline_def
  apply (rule triple_bnd [OF triple_status_processing])
  apply (rule triple_bnd [OF keeps_tracked [OF keeps_crawl_url]])
  apply (rule triple_bnd [OF keeps_tracked [OF keeps_save_crawled_content]])
  apply (rule triple_bnd [OF keeps_tracked [OF keeps_parse_content]])
  apply (rule triple_bnd [OF keeps_tracked [OF keeps_run_engines]])
  apply (rule triple_bnd [OF keeps_tracked [OF keeps_save_engine_scores]])
  apply (rule triple_bnd [OF triple_composite])
  apply (rule triple_bnd [OF keeps_scored [OF keeps_identify_all_gaps]])
  apply (rule triple_bnd [OF keeps_scored [OF keeps_simulation_step]])
  apply (rule triple_bnd [OF keeps_scored [OF keeps_save_gaps]])
  apply (rule triple_bnd [OF triple_status_completed])
  apply (simp add: triple_def ret_def)
  done

lemma triple_create_analysis:
  "triple (\<lambda>s. db_history s = h0) (create_analysis e url)
     (\<lambda>a s. tracked h0 (new_id e) s \<and> an_id a = new_id e)
     (\<lambda>s. db_history s = h0)"
  by (simp add: triple_def create_analysis_def bnd_def db_execute_def ret_def Let_def tracked_def
        record_consistent_def split: option.splits)

lemma triple_analyze_url:
  "triple (\<lambda>s. db_history s = h0) (analyze_url e orch url brand pc uc)
     (\<lambda>_. finished h0 (new_id e))
     (\<lambda>s. db_history s = h0 \<or> tracked h0 (new_id e) s)"
  unfolding analyze_url_def
proof (rule triple_bnd)
  show "triple (\<lambda>s. db_history s = h0) (create_analysis e url)
     (\<lambda>a s. tracked h0 (new_id e) s \<and> an_id a = new_id e)
     (\<lambda>s. db_history s = h0 \<or> tracked h0 (new_id e) s)"
    by (rule triple_weaken [OF triple_create_analysis]) auto
next
  fix a
  show "triple (\<lambda>s. tracked h0 (new_id e) s \<and> an_id a = new_id e)
          (try_except (pipeline e orch a url brand pc uc)
             (\<lambda>err. bnd (update_analysis_status e (an_id a) FAILED (Some (str_exn err)))
                       (\<lambda>_. raise err)))
          (\<lambda>_. finished h0 (new_id e))
          (\<lambda>s. db_history s = h0 \<or> tracked h0 (new_id e) s)"
  proof (cases "an_id a = new_id e")
    case False
    then show ?thesis by (simp add: triple_def)
  next
    case True
    have body: "triple (tracked h0 (new_id e)) (pipeline e orch a url brand pc uc)
        (\<lambda>_. finished h0 (new_id e)) (tracked h0 (new_id e))"
      using triple_pipeline [of h0 a e orch url brand pc uc] by (simp add: True)
    have handler: "triple (tracked h0 (new_id e))
        (bnd (update_analysis_status e (an_id a) FAILED (Some (str_exn err))) (\<lambda>_. raise err))
        (\<lambda>_. finished h0 (new_id e)) (tracked h0 (new_id e))" for err
      unfolding True
      by (rule triple_bnd [OF triple_status_failed]) (rule triple_raise)
    have "triple (tracked h0 (new_id e))
          (try_except (pipeline e orch a url brand pc uc)
             (\<lambda>err. bnd (update_analysis_status e (an_id a) FAILED (Some (str_exn err)))
                       (\<lambda>_. raise err)))
          (\<lambda>_. finished h0 (new_id e)) (tracked h0 (new_id e))"
      by (rule triple_try [OF body handler])
    then show ?thesis by (rule triple_weaken) auto
  qed
qed

lemma analyze_url_save_gaps_failed:
  assumes db: "\<forall>opn. opn \<noteq> SaveSimulationResult \<and> opn \<noteq> SaveGaps \<longrightarrow> db_error e opn = None"
      and locked: "db_error e SaveGaps = Some err"
      and crawl: "crawl_result e url (new_id e) = Inr content"
      and parse: "parse e content = Inr parsed"
      and gaps: "gaps_ok (engines orch) (successful_scores (engines orch) content parsed) parsed"
      and some: "collect_gaps (engines orch) (successful_scores (engines orch) content parsed) parsed
                   \<noteq> []"
  shows "\<exists>s'. analyze_url e orch url brand pc uc s = (Inl err, s')
     \<and> db_analyses s' (new_id e) =
         Some \<lparr>an_id = new_id e, an_url = url, status = FAILED,
               composite_score =
                 Some (calculate_composite_score (successful_scores (engines orch) content parsed)),
               error_message = Some (str_exn err)\<rparr>
     \<and> db_history s' = db_history s @
          [\<lparr>an_id = new_id e, an_url = url, status = PENDING, composite_score = None,
            error_message = None\<rparr>,
           \<lparr>an_id = new_id e, an_url = url, status = PROCESSING, composite_score = None,
            error_message = None\<rparr>,
           \<lparr>an_id = new_id e, an_url = url, status = PROCESSING,
            composite_score =
              Some (calculate_composite_score (successful_scores (engines orch) content parsed)),
            error_message = None\<rparr>,
           \<lparr>an_id = new_id e, an_url = url, status = FAILED,
            composite_score =
              Some (calculate_composite_score (successful_scores (engines orch) content parsed)),
            error_message = Some (str_exn err)\<rparr>]"
proof -
  define aid where "aid = new_id e"
  define a0 where "a0 = \<lparr>an_id = aid, an_url = url, status = PENDING,
    composite_score = None, error_message = None\<rparr>"
  have d: "db_error e CreateAnalysis = None" "db_error e (UpdateStatus PROCESSING) = None"
    "db_error e SaveCrawledContent = None" "db_error e UpdateCompositeScore = None"
    "db_error e (UpdateStatus FAILED) = None" "db_error e WriteRawContent = None"
    "\<And>scs. \<forall>sc \<in> set scs. db_error e (SaveEngineScore (engine_name sc)) = None"
    using db by simp_all
  define s0 where "s0 = s\<lparr>db_analyses := (db_analyses s)(aid \<mapsto> a0),
    db_history := db_history s @ [a0]\<rparr>"
  have 0: "\<And>f. bnd (create_analysis e url) f s = f a0 s0"
    by (simp add: create_analysis_ok [OF d(1)] a0_def s0_def aid_def)
  have id0: "an_id a0 = aid" by (simp add: a0_def)
  define s1 where "s1 = update_row aid (\<lambda>a. a\<lparr>status := PROCESSING, error_message := None\<rparr>) s0"
  have 1: "\<And>f. bnd (update_analysis_status e aid PROCESSING None) f s0 = f () s1"
    by (simp add: bnd_def update_analysis_status_def db_execute_ok d s1_def)
  define s2 where "s2 = s1\<lparr>calls := calls s1 @ crawl_calls e url aid\<rparr>"
  have 2: "\<And>f. bnd (crawl_url e url aid) f s1 = f content s2"
    using crawl by (simp add: bnd_def crawl_url_eq s2_def aid_def)
  define s3 where
    "s3 = s2\<lparr>db_crawled_pages := db_crawled_pages s2
                 @ [content\<lparr>html_content := take 50000 (html_content content)\<rparr>],
             json_raw_content := json_raw_content s2
                 @ [(cc_analysis_id content, html_content content)]\<rparr>"
  have 3: "\<And>f. bnd (save_crawled_content e content) f s2 = f () s3"
    by (simp add: bnd_def save_crawled_content_ok d s3_def)
  define s4 where "s4 = s3\<lparr>calls := calls s3 @ [CallParse]\<rparr>"
  have 4: "\<And>f. bnd (parse_content e content) f s3 = f parsed s4"
    by (simp add: bnd_def parse_content_def call_def lift_def parse s4_def)
  define scores where "scores = successful_scores (engines orch) content parsed"
  define s5 where "s5 = s4\<lparr>calls := calls s4 @ map (\<lambda>(n, eng). CallAnalyze n) (engines orch)\<rparr>"
  have 5: "\<And>f. bnd (run_engines orch content parsed) f s4 = f scores s5"
    by (simp add: bnd_def run_engines_def run_engines_loop_eq scores_def s5_def)
  define s6 where "s6 = s5\<lparr>db_engine_scores := db_engine_scores s5 @ scores\<rparr>"
  have 6: "\<And>f. bnd (save_engine_scores e scores) f s5 = f () s6"
    by (simp add: bnd_def save_engine_scores_ok d s6_def)
  define s7 where
    "s7 = update_row aid (\<lambda>a. a\<lparr>composite_score := Some (calculate_composite_score scores)\<rparr>) s6"
  have 7: "\<And>f. bnd (update_composite_score e aid (calculate_composite_score scores)) f s6 = f () s7"
    by (simp add: bnd_def update_composite_score_def db_execute_ok d s7_def)
  define egaps where "egaps = collect_gaps (engines orch) scores parsed"
  define s8 where "s8 = s7\<lparr>calls := calls s7 @ identify_calls (engines orch) scores\<rparr>"
  have 8: "\<And>f. bnd (identify_all_gaps orch scores parsed []) f s7 = f egaps s8"
    using gaps by (simp add: bnd_def identify_all_gaps_ok scores_def egaps_def s8_def)
  define s9 where
    "s9 = s8\<lparr>db_simulation_results := db_simulation_results s8 @ simulation_rows e orch aid brand pc uc,
             json_simulation_data := simulation_files e orch aid brand pc uc (json_simulation_data s8),
             calls := calls s8 @ simulation_calls orch brand pc uc\<rparr>"
  have 9: "\<And>f. bnd (simulation_step e orch aid brand pc uc parsed egaps) f s8 =
             f (egaps @ simulation_gaps e orch aid brand pc uc parsed) s9"
    by (simp add: bnd_def simulation_step_eq s9_def)
  have ne: "egaps @ simulation_gaps e orch aid brand pc uc parsed \<noteq> []"
    using some by (simp add: egaps_def scores_def)
  have sg: "save_gaps e (egaps @ simulation_gaps e orch aid brand pc uc parsed) =
      db_execute e SaveGaps
        (\<lambda>s. s\<lparr>db_gaps := db_gaps s @ egaps @ simulation_gaps e orch aid brand pc uc parsed\<rparr>)"
    unfolding save_gaps_def using ne by (simp only: if_False append_assoc)
  have 10: "\<And>f. bnd (save_gaps e (egaps @ simulation_gaps e orch aid brand pc uc parsed)) f s9 =
             (Inl err, s9)"
    by (simp add: sg bnd_def db_execute_def locked)
  have body: "pipeline e orch a0 url brand pc uc s0 = (Inl err, s9)"
    unfolding pipeline_def id0
    by (simp only: 1 2 3 4 5 6 7 8 9 10)
  define s10 where
    "s10 = update_row aid (\<lambda>a. a\<lparr>status := FAILED, error_message := Some (str_exn err)\<rparr>) s9"
  have handler: "bnd (update_analysis_status e aid FAILED (Some (str_exn err))) (\<lambda>_. raise err) s9
      = (Inl err, s10)"
    by (simp add: bnd_def update_analysis_status_def db_execute_ok d s10_def raise_def)
  have tr: "\<And>h. try_except (pipeline e orch a0 url brand pc uc) h s0 = h err s9"
    by (simp add: try_except_def body)
  have run: "analyze_url e orch url brand pc uc s = (Inl err, s10)"
    unfolding analyze_url_def
    by (simp only: 0 id0 tr handler)
  have f1: "db_analyses s1 aid = Some (a0\<lparr>status := PROCESSING, error_message := None\<rparr>)"
    "db_history s1 = db_history s @ [a0, a0\<lparr>status := PROCESSING, error_message := None\<rparr>]"
    by (simp_all add: s1_def update_row_def s0_def)
  have f6: "db_analyses s6 = db_analyses s1" "db_history s6 = db_history s1"
    by (simp_all add: s6_def s5_def s4_def s3_def s2_def)
  have f7: "db_analyses s7 aid = Some (a0\<lparr>status := PROCESSING, error_message := None,
        composite_score := Some (calculate_composite_score scores)\<rparr>)"
    "db_history s7 = db_history s @ [a0, a0\<lparr>status := PROCESSING, error_message := None\<rparr>,
        a0\<lparr>status := PROCESSING, error_message := None,
          composite_score := Some (calculate_composite_score scores)\<rparr>]"
    by (simp_all add: s7_def update_row_def f6 f1)
  have f9: "db_analyses s9 = db_analyses s7" "db_history s9 = db_history s7"
    by (simp_all add: s9_def s8_def)
  show ?thesis
    apply (rule exI [of _ s10])
    apply (simp only: run simp_thms)
    apply (simp add: s10_def update_row_def f9 f7)
    apply (simp add: a0_def aid_def scores_def)
    done
qed

text \<open>
  C2, as the code has it. Of the versions of the analysis record that a run writes, each
  has its error message set exactly when its status is \<open>failed\<close>, and has a composite
  score when its status is \<open>completed\<close>; the record left in the table is the last version
  written; and a run that returns ends with the record \<open>completed\<close>.
\<close>

theorem analysis_record_invariant:
  "\<exists>hs. db_history (snd (analyze_url e orch url brand pc uc s)) = db_history s @ hs
     \<and> list_all record_consistent hs
     \<and> (hs \<noteq> [] \<longrightarrow>
          db_analyses (snd (analyze_url e orch url brand pc uc s)) (new_id e) = Some (last hs))
     \<and> ((\<exists>aid. fst (analyze_url e orch url brand pc uc s) = Inr aid) \<longrightarrow>
          hs \<noteq> [] \<and> status (last hs) = COMPLETED \<and> composite_score (last hs) \<noteq> None
          \<and> error_message (last hs) = None)"
proof -
  obtain r s' where run: "analyze_url e orch url brand pc uc s = (r, s')"
    by (cases "analyze_url e orch url brand pc uc s")
  have t: "case analyze_url e orch url brand pc uc s of
             (Inr x, s') \<Rightarrow> finished (db_history s) (new_id e) s'
           | (Inl err, s') \<Rightarrow> db_history s' = db_history s \<or> tracked (db_history s) (new_id e) s'"
    using triple_analyze_url [of "db_history s" e orch url brand pc uc]
    unfolding triple_def by simp
  show ?thesis
  proof (cases r)
    case (Inr aid)
    with t run have fin: "finished (db_history s) (new_id e) s'" by simp
    then obtain hs a where h: "db_history s' = db_history s @ hs" and ne: "hs \<noteq> []"
      and row: "db_analyses s' (new_id e) = Some (last hs)" and ok: "list_all record_consistent hs"
      and a: "db_analyses s' (new_id e) = Some a" "status a = COMPLETED"
      unfolding finished_def tracked_def by blast
    from row a have st: "status (last hs) = COMPLETED" by simp
    from ne ok have "record_consistent (last hs)" by (simp add: list_all_iff)
    with st have "composite_score (last hs) \<noteq> None" "error_message (last hs) = None"
      by (simp_all add: record_consistent_def)
    with h ne row ok st show ?thesis
      by (intro exI [of _ hs]) (simp add: run)
  next
    case (Inl err)
    with t run have "db_history s' = db_history s \<or> tracked (db_history s) (new_id e) s'" by simp
    then show ?thesis
    proof
      assume "db_history s' = db_history s"
      then show ?thesis by (intro exI [of _ "[]"]) (simp add: run Inl)
    next
      assume "tracked (db_history s) (new_id e) s'"
      then obtain hs where "db_history s' = db_history s @ hs" "hs \<noteq> []"
        "db_analyses s' (new_id e) = Some (last hs)" "list_all record_consistent hs"
        unfolding tracked_def by blast
      then show ?thesis by (intro exI [of _ hs]) (simp add: run Inl)
    qed
  qed
qed

theorem analysis_record_invariant_witness:
  "\<exists>hs. db_history (snd (analyze_url demo_env demo_orchestrator ''http://example.com''
                            None None None empty_state)) = hs
     \<and> map status hs = [PENDING, PROCESSING, PROCESSING, COMPLETED]
     \<and> list_all record_consistent hs
     \<and> db_analyses (snd (analyze_url demo_env demo_orchestrator ''http://example.com''
                            None None None empty_state)) ''a1'' = Some (last hs)
     \<and> composite_score (last hs) = Some 7.5"
proof -
  have db: "\<forall>opn. opn \<noteq> SaveSimulationResult \<and> opn \<noteq> WriteSimulationData \<longrightarrow>
      db_error demo_env opn = None"
    by (simp add: demo_env_def)
  have crawl: "crawl_result demo_env ''http://example.com'' (new_id demo_env) = Inr demo_content"
    by (simp add: crawl_result_def demo_env_def)
  have parse: "parse demo_env demo_content = Inr empty_page"
    by (simp add: demo_env_def)
  have gaps: "gaps_ok (engines demo_orchestrator)
      (successful_scores (engines demo_orchestrator) demo_content empty_page) empty_page"
    unfolding demo_orchestrator_def by (rule demo_gaps_ok)
  from analyze_url_completed [OF db crawl parse gaps, where brand = None and pc = None
      and uc = None and s = empty_state]
  obtain s' where run: "analyze_url demo_env demo_orchestrator ''http://example.com''
        None None None empty_state = (Inr (new_id demo_env), s')"
    and h: "db_history s' = db_history empty_state @
          [\<lparr>an_id = new_id demo_env, an_url = ''http://example.com'', status = PENDING,
            composite_score = None, error_message = None\<rparr>,
           \<lparr>an_id = new_id demo_env, an_url = ''http://example.com'', status = PROCESSING,
            composite_score = None, error_message = None\<rparr>,
           \<lparr>an_id = new_id demo_env, an_url = ''http://example.com'', status = PROCESSING,
            composite_score = Some (calculate_composite_score
              (successful_scores (engines demo_orchestrator) demo_content empty_page)),
            error_message = None\<rparr>,
           \<lparr>an_id = new_id demo_env, an_url = ''http://example.com'', status = COMPLETED,
            composite_score = Some (calculate_composite_score
              (successful_scores (engines demo_orchestrator) demo_content empty_page)),
            error_message = None\<rparr>]"
    by blast
  from analysis_record_invariant [of demo_env demo_orchestrator "''http://example.com''"
      None None None empty_state]
  obtain hs where "db_history s' = db_history empty_state @ hs"
    and "list_all record_consistent hs"
    and "hs \<noteq> [] \<longrightarrow> db_analyses s' (new_id demo_env) = Some (last hs)"
    unfolding run by auto
  then show ?thesis
    unfolding run using h
    by (intro exI [of _ hs]) (auto simp add: empty_state_def demo_composite demo_env_def)
qed

text \<open>
  The claim as written fails: the composite score is written while the status is still
  \<open>processing\<close>, and it stays when the run fails later. With the database refusing to
  store the gaps, the run raises and the record ends \<open>failed\<close>, with an error message and
  with the composite score 7.5 still on it.
\<close>

theorem failed_with_composite_counterexample:
  "\<exists>s'. analyze_url locked_env demo_orchestrator ''http://example.com'' None None None empty_state
           = (Inl (Exception ''database is locked''), s')
     \<and> db_analyses s' ''a1'' =
         Some \<lparr>an_id = ''a1'', an_url = ''http://example.com'', status = FAILED,
               composite_score = Some 7.5, error_message = Some ''database is locked''\<rparr>
     \<and> map (\<lambda>a. (status a, composite_score a)) (db_history s')
         = [(PENDING, None), (PROCESSING, None), (PROCESSING, Some 7.5), (FAILED, Some 7.5)]"
proof -
  have db: "\<forall>opn. opn \<noteq> SaveSimulationResult \<and> opn \<noteq> SaveGaps \<longrightarrow> db_error locked_env opn = None"
    by (simp add: locked_env_def demo_env_def)
  have locked: "db_error locked_env SaveGaps = Some (Exception ''database is locked'')"
    by (simp add: locked_env_def demo_env_def)
  have crawl: "crawl_result locked_env ''http://example.com'' (new_id locked_env) = Inr demo_content"
    by (simp add: crawl_result_def locked_env_def demo_env_def)
  have parse: "parse locked_env demo_content = Inr empty_page"
    by (simp add: locked_env_def demo_env_def)
  have gaps: "gaps_ok (engines demo_orchestrator)
      (successful_scores (engines demo_orchestrator) demo_content empty_page) empty_page"
    unfolding demo_orchestrator_def by (rule demo_gaps_ok)
  have some: "collect_gaps (engines demo_orchestrator)
      (successful_scores (engines demo_orchestrator) demo_content empty_page) empty_page \<noteq> []"
    using arg_cong [OF demo_gap_types, of length] by auto
  from analyze_url_save_gaps_failed [OF db locked crawl parse gaps some, where brand = None
      and pc = None and uc = None and s = empty_state]
  obtain s' where "analyze_url locked_env demo_orchestrator ''http://example.com'' None None None
        empty_state = (Inl (Exception ''database is locked''), s')"
    and "db_analyses s' (new_id locked_env) =
         Some \<lparr>an_id = new_id locked_env, an_url = ''http://example.com'', status = FAILED,
               composite_score = Some (calculate_composite_score
                 (successful_scores (engines demo_orchestrator) demo_content empty_page)),
               error_message = Some (str_exn (Exception ''database is locked''))\<rparr>"
    and "db_history s' = db_history empty_state @
          [\<lparr>an_id = new_id locked_env, an_url = ''http://example.com'', status = PENDING,
            composite_score = None, error_message = None\<rparr>,
           \<lparr>an_id = new_id locked_env, an_url = ''http://example.com'', status = PROCESSING,
            composite_score = None, error_message = None\<rparr>,
           \<lparr>an_id = new_id locked_env, an_url = ''http://example.com'', status = PROCESSING,
            composite_score = Some (calculate_composite_score
              (successful_scores (engines demo_orchestrator) demo_content empty_page)),
            error_message = None\<rparr>,
           \<lparr>an_id = new_id locked_env, an_url = ''http://example.com'', status = FAILED,
            composite_score = Some (calculate_composite_score
              (successful_scores (engines demo_orchestrator) demo_content empty_page)),
            error_message = Some (str_exn (Exception ''database is locked''))\<rparr>]"
    by blast
  then show ?thesis
    by (intro exI [of _ s'])
       (simp add: demo_composite locked_env_def demo_env_def empty_state_def)
qed

section \<open>Engine failure isolation\<close>

text \<open>
  C3. Let the run get as far as the engines (the page is crawled and parsed, the database
  writes succeed, and no \<open>identify_gaps\<close> of a scored engine raises), let every engine put
  its own name on its score and gaps, and let the \<open>analyze\<close> of one engine \<open>x\<close> raise.
  Then the run still returns the analysis id with status \<open>completed\<close>; the scores saved
  are exactly the results of the engines that did not raise, none of them of \<open>x\<close>; the
  composite is computed from those; the engine gaps hold none attributed to \<open>x\<close>, the gaps
  after them are the simulation's. When every engine raises the composite is 0 and there
  are no engine gaps.
\<close>

theorem engine_failure_isolation:
  assumes db: "\<forall>opn. opn \<noteq> SaveSimulationResult \<longrightarrow> db_error e opn = None"
      and crawl: "crawl_result e url (new_id e) = Inr content"
      and parse: "parse e content = Inr parsed"
      and gaps: "gaps_ok (engines orch) (successful_scores (engines orch) content parsed) parsed"
      and names: "\<forall>(n, eng) \<in> set (engines orch).
                    \<forall>sc. analyze eng content parsed = Inr sc \<longrightarrow> engine_name sc = n"
      and sources: "\<forall>(n, eng) \<in> set (engines orch).
                    \<forall>sc gs. identify_gaps eng sc parsed = Inr gs \<longrightarrow>
                      (\<forall>g \<in> set gs. engine_source g = n)"
      and dist: "distinct (map fst (engines orch))"
      and x: "(x, engine_x) \<in> set (engines orch)"
      and fails: "analyze engine_x content parsed = Inl err"
  shows "\<exists>s' egaps sgaps.
       analyze_url e orch url brand pc uc s = (Inr (new_id e), s')
     \<and> db_analyses s' (new_id e) =
         Some \<lparr>an_id = new_id e, an_url = url, status = COMPLETED,
               composite_score =
                 Some (calculate_composite_score (successful_scores (engines orch) content parsed)),
               error_message = None\<rparr>
     \<and> db_engine_scores s' = db_engine_scores s @ successful_scores (engines orch) content parsed
     \<and> (\<forall>sc \<in> set (successful_scores (engines orch) content parsed).
           engine_name sc \<noteq> x
           \<and> (\<exists>n eng. (n, eng) \<in> set (engines orch) \<and> analyze eng content parsed = Inr sc))
     \<and> db_gaps s' = db_gaps s @ egaps @ sgaps
     \<and> (\<forall>g \<in> set egaps. engine_source g \<noteq> x)
     \<and> (\<forall>g \<in> set sgaps. engine_source g = ''AI_SIMULATION'')
     \<and> ((\<forall>(n, eng) \<in> set (engines orch). \<exists>err'. analyze eng content parsed = Inl err') \<longrightarrow>
           successful_scores (engines orch) content parsed = []
           \<and> calculate_composite_score (successful_scores (engines orch) content parsed) = 0
           \<and> egaps = [])"
proof -
  define scores where "scores = successful_scores (engines orch) content parsed"
  define egaps where "egaps = collect_gaps (engines orch) scores parsed"
  define sgaps where "sgaps = simulation_gaps e orch (new_id e) brand pc uc parsed"
  from db have db2: "\<forall>opn. opn \<noteq> SaveSimulationResult \<and> opn \<noteq> WriteSimulationData \<longrightarrow>
      db_error e opn = None" by simp
  obtain s' where run: "analyze_url e orch url brand pc uc s = (Inr (new_id e), s')"
    and a: "db_analyses s' = (db_analyses s)(new_id e \<mapsto>
           \<lparr>an_id = new_id e, an_url = url, status = COMPLETED,
            composite_score = Some (calculate_composite_score scores), error_message = None\<rparr>)"
    and es: "db_engine_scores s' = db_engine_scores s @ scores"
    and gs: "db_gaps s' = db_gaps s @ egaps @ sgaps"
    using analyze_url_completed [OF db2 crawl parse gaps, where brand = brand and pc = pc and uc = uc
        and s = s]
    unfolding scores_def egaps_def sgaps_def by blast
  have notx: "engine_name sc \<noteq> x" if "sc \<in> set scores" for sc
  proof
    assume eq: "engine_name sc = x"
    from that obtain n eng where mem: "(n, eng) \<in> set (engines orch)"
      and ok: "analyze eng content parsed = Inr sc"
      unfolding scores_def successful_scores_iff by blast
    from names mem ok have "engine_name sc = n" by blast
    with eq mem have "(x, eng) \<in> set (engines orch)" by simp
    with x dist have "eng = engine_x" by (meson eq_key_imp_eq_value)
    with ok fails show False by simp
  qed
  have from_engine: "\<exists>n eng. (n, eng) \<in> set (engines orch) \<and> analyze eng content parsed = Inr sc"
    if "sc \<in> set scores" for sc
    using that unfolding scores_def successful_scores_iff .
  have eg: "engine_source g \<noteq> x" if "g \<in> set egaps" for g
  proof -
    from collect_gaps_sources [OF sources] that obtain sc where "sc \<in> set scores"
      and "engine_source g = engine_name sc"
      unfolding egaps_def by blast
    then show ?thesis using notx by simp
  qed
  have sg: "engine_source g = ''AI_SIMULATION''" if "g \<in> set sgaps" for g
    using that unfolding sgaps_def by (rule simulation_gaps_source)
  have none: "scores = [] \<and> calculate_composite_score scores = 0 \<and> egaps = []"
    if "\<forall>(n, eng) \<in> set (engines orch). \<exists>err'. analyze eng content parsed = Inl err'"
  proof -
    have "scores = []"
    proof (rule ccontr)
      assume "scores \<noteq> []"
      then obtain sc where "sc \<in> set scores" by (cases scores) auto
      then obtain n eng where "(n, eng) \<in> set (engines orch)"
        and "analyze eng content parsed = Inr sc" using from_engine by blast
      with that show False by fastforce
    qed
    then show ?thesis by (simp add: egaps_def calculate_composite_score_def)
  qed
  show ?thesis
    apply (rule exI [of _ s'], rule exI [of _ egaps], rule exI [of _ sgaps])
    using run a es gs notx from_engine eg sg none
    unfolding scores_def [symmetric]
    by (simp add: calculate_composite_score_def)
qed

theorem engine_failure_isolation_witness:
  "\<exists>s' egaps sgaps.
       analyze_url demo_env demo_orchestrator ''http://example.com'' None None None empty_state
         = (Inr ''a1'', s')
     \<and> analyze (ADEEngine 0.3) demo_content empty_page = Inl none_has_no_get
     \<and> db_analyses s' ''a1'' =
         Some \<lparr>an_id = ''a1'', an_url = ''http://example.com'', status = COMPLETED,
               composite_score = Some 7.5, error_message = None\<rparr>
     \<and> map (\<lambda>sc. (engine_name sc, score sc, weight sc)) (db_engine_scores s')
         = [(''ARCE'', 15, 0.2), (''TRE'', 0, 0.2)]
     \<and> db_gaps s' = egaps @ sgaps
     \<and> list_all (\<lambda>g. engine_source g \<noteq> ''ADE'') egaps
     \<and> list_all (\<lambda>g. engine_source g = ''AI_SIMULATION'') sgaps"
proof -
  have db: "\<forall>opn. opn \<noteq> SaveSimulationResult \<longrightarrow> db_error demo_env opn = None"
    by (simp add: demo_env_def)
  have crawl: "crawl_result demo_env ''http://example.com'' (new_id demo_env) = Inr demo_content"
    by (simp add: crawl_result_def demo_env_def)
  have parse: "parse demo_env demo_content = Inr empty_page"
    by (simp add: demo_env_def)
  have gaps: "gaps_ok (engines demo_orchestrator)
      (successful_scores (engines demo_orchestrator) demo_content empty_page) empty_page"
    unfolding demo_orchestrator_def by (rule demo_gaps_ok)
  have names: "\<forall>(n, eng) \<in> set (engines demo_orchestrator).
      \<forall>sc. analyze eng demo_content empty_page = Inr sc \<longrightarrow> engine_name sc = n"
    unfolding demo_orchestrator_def by (rule make_orchestrator_names)
  have sources: "\<forall>(n, eng) \<in> set (engines demo_orchestrator).
      \<forall>sc gs. identify_gaps eng sc empty_page = Inr gs \<longrightarrow> (\<forall>g \<in> set gs. engine_source g = n)"
    unfolding demo_orchestrator_def by (rule make_orchestrator_sources)
  have dist: "distinct (map fst (engines demo_orchestrator))"
    unfolding demo_orchestrator_def by (rule make_orchestrator_distinct)
  have x: "(''ADE'', ADEEngine 0.3) \<in> set (engines demo_orchestrator)"
    by (simp add: demo_orchestrator_def make_orchestrator_def)
  have fails: "analyze (ADEEngine 0.3) demo_content empty_page = Inl none_has_no_get"
    by (simp add: ADEEngine_def ADE_analyze_def ADE_score_attribute_richness_def Let_def
          empty_page_def empty_schema_def)
  from engine_failure_isolation [OF db crawl parse gaps names sources dist x fails,
      where brand = None and pc = None and uc = None and s = empty_state]
  obtain s' egaps sgaps where
        "analyze_url demo_env demo_orchestrator ''http://example.com'' None None None empty_state
           = (Inr (new_id demo_env), s')"
    and "db_analyses s' (new_id demo_env) =
         Some \<lparr>an_id = new_id demo_env, an_url = ''http://example.com'', status = COMPLETED,
               composite_score = Some (calculate_composite_score
                 (successful_scores (engines demo_orchestrator) demo_content empty_page)),
               error_message = None\<rparr>"
    and "db_engine_scores s' = db_engine_scores empty_state
           @ successful_scores (engines demo_orchestrator) demo_content empty_page"
    and "db_gaps s' = db_gaps empty_state @ egaps @ sgaps"
    and "\<forall>g \<in> set egaps. engine_source g \<noteq> ''ADE''"
    and "\<forall>g \<in> set sgaps. engine_source g = ''AI_SIMULATION''"
    by blast
  then show ?thesis
    using fails demo_scores
    by (intro exI [of _ s'] exI [of _ egaps] exI [of _ sgaps])
       (simp add: demo_composite list_all_iff, simp add: demo_env_def empty_state_def)
qed

section \<open>Range of the engine scores\<close>

lemma hard_text_length: "length (concat (replicate 300 ''a '')) = 600"
  by (simp add: length_concat sum_list_replicate)

text \<open>
  C4 fails on the code. On the hard text ARCE's readability part is
  \<open>(-182 / 30) * 12.5\<close>, below \<open>-75\<close>, and the ARCE score is \<open>-365/6\<close>, below 0. On the page
  with nothing on it (no Product schema) ADE does not produce a score at all: it raises.
\<close>

theorem engine_score_out_of_range:
  "length (text_content (html hard_text_page)) = 600
   \<and> ARCE_score_readability hard_text_ext (html hard_text_page) = - 455 / 6
   \<and> map_sum id score (ARCE_analyze hard_text_ext 0.2 demo_content hard_text_page) = Inr (- 365 / 6)
   \<and> ADE_analyze 0.3 demo_content empty_page = Inl none_has_no_get"
  by (simp add: hard_text_page_def hard_text_ext_def demo_ext_def empty_html_def empty_page_def
        empty_schema_def hard_text_length ARCE_analyze_def ARCE_score_semantic_html_def
        ARCE_score_readability_def ARCE_score_heading_hierarchy_def ARCE_score_metadata_def
        count_semantic_html_tags_def create_score_def validate_heading_hierarchy_def
        ADE_analyze_def ADE_score_attribute_richness_def Let_def)

section \<open>Order of the gaps\<close>

lemma keeps_gaps_triple:
  "keeps_gaps m \<Longrightarrow> triple pipeline_gaps m (\<lambda>_. pipeline_gaps) pipeline_gaps"
  unfolding triple_def keeps_gaps_def pipeline_gaps_def
proof (intro allI impI)
  fix s :: state
  assume k: "\<forall>s. db_gaps (snd (m s)) = db_gaps s"
    and t: "list_all pipeline_severity (db_gaps s)"
  have "list_all pipeline_severity (db_gaps (snd (m s)))" using k t by simp
  then show "case m s of (Inr x, s') \<Rightarrow> list_all pipeline_severity (db_gaps s')
               | (Inl err, s') \<Rightarrow> list_all pipeline_severity (db_gaps s')"
    by (cases "m s") (auto split: sum.splits)
qed

lemma keeps_gaps_value:
  "keeps_gaps m \<Longrightarrow> triple (\<lambda>s. pipeline_gaps s \<and> A) m (\<lambda>_ s. pipeline_gaps s \<and> A) pipeline_gaps"
  using keeps_gaps_triple [of m] unfolding triple_def
  by (auto split: prod.splits sum.splits)

lemma keeps_gaps_db_execute:
  "(\<And>s. db_gaps (f s) = db_gaps s) \<Longrightarrow> keeps_gaps (db_execute e opn f)"
  by (simp add: keeps_gaps_def db_execute_def split: option.splits)

lemma update_row_gaps: "db_gaps (update_row aid f s) = db_gaps s"
  by (simp add: update_row_def split: option.splits)

lemma keeps_gaps_bnd: "keeps_gaps m \<Longrightarrow> (\<And>x. keeps_gaps (f x)) \<Longrightarrow> keeps_gaps (bnd m f)"
  unfolding keeps_gaps_def bnd_def
proof (intro allI)
  fix s
  assume m: "\<forall>s. db_gaps (snd (m s)) = db_gaps s"
    and f: "\<And>x. \<forall>s. db_gaps (snd (f x s)) = db_gaps s"
  obtain r s1 where ms: "m s = (r, s1)" by (cases "m s")
  from m have s1: "db_gaps s1 = db_gaps s"
    using ms by (metis snd_conv)
  show "db_gaps (snd (case m s of (Inl e, s') \<Rightarrow> (Inl e, s') | (Inr x, s') \<Rightarrow> f x s')) = db_gaps s"
    using s1 f by (cases r) (simp_all add: ms)
qed

lemma keeps_gaps_status: "keeps_gaps (update_analysis_status e aid st msg)"
  unfolding update_analysis_status_def by (rule keeps_gaps_db_execute) (rule update_row_gaps)

lemma keeps_gaps_composite: "keeps_gaps (update_composite_score e aid c)"
  unfolding update_composite_score_def by (rule keeps_gaps_db_execute) (rule update_row_gaps)

lemma keeps_gaps_crawl_url: "keeps_gaps (crawl_url e url aid)"
  by (simp add: keeps_gaps_def crawl_url_eq)

lemma keeps_gaps_save_crawled_content: "keeps_gaps (save_crawled_content e content)"
  by (simp add: keeps_gaps_def save_crawled_content_def save_raw_content_def bnd_def
        db_execute_def split: option.splits)

lemma keeps_gaps_parse_content: "keeps_gaps (parse_content e content)"
  by (simp add: keeps_gaps_def parse_content_def bnd_def call_def lift_def)

lemma keeps_gaps_run_engines: "keeps_gaps (run_engines orch content parsed)"
  by (simp add: keeps_gaps_def run_engines_def run_engines_loop_eq)

lemma keeps_gaps_ret: "keeps_gaps (ret x)"
  by (simp add: keeps_gaps_def ret_def)

lemma keeps_gaps_save_engine_score: "keeps_gaps (save_engine_score e sc)"
  unfolding save_engine_score_def by (rule keeps_gaps_db_execute) simp

lemma keeps_gaps_save_engine_scores: "keeps_gaps (save_engine_scores e scores)"
  by (induction scores) (simp_all add: keeps_gaps_ret keeps_gaps_bnd keeps_gaps_save_engine_score)

lemma make_orchestrator_severities:
  "\<forall>(n, eng) \<in> set (engines (make_orchestrator x w1 w2 w3 sim)).
     \<forall>sc gs. identify_gaps eng sc parsed = Inr gs \<longrightarrow> list_all pipeline_severity gs"
  by (auto simp add: make_orchestrator_def ADEEngine_def ARCEEngine_def TREEngine_def
        ADE_identify_gaps_def ARCE_identify_gaps_def TRE_identify_gaps_def create_gap_def Let_def
        pipeline_severity_def list_all_iff)

lemma identify_all_gaps_severities:
  assumes engs: "\<forall>(n, eng) \<in> set (engines orch).
     \<forall>sc gs. identify_gaps eng sc parsed = Inr gs \<longrightarrow> list_all pipeline_severity gs"
  shows "list_all pipeline_severity acc \<Longrightarrow>
     triple pipeline_gaps (identify_all_gaps orch scores parsed acc)
       (\<lambda>gs s. pipeline_gaps s \<and> list_all pipeline_severity gs) pipeline_gaps"
proof (induction scores arbitrary: acc)
  case Nil
  then show ?case by (simp add: triple_def ret_def)
next
  case (Cons sc scores)
  show ?case
  proof (cases "map_of (engines orch) (engine_name sc)")
    case None
    then show ?thesis using Cons.IH [OF Cons.prems] by simp
  next
    case (Some eng)
    then have mem: "(engine_name sc, eng) \<in> set (engines orch)" by (rule map_of_SomeD)
    show ?thesis
    proof (cases "identify_gaps eng sc parsed")
      case (Inl err)
      then show ?thesis
        by (simp add: Some triple_def bnd_def call_def lift_def pipeline_gaps_def)
    next
      case (Inr gs)
      with engs mem have "list_all pipeline_severity gs" by blast
      with Cons.prems have acc: "list_all pipeline_severity (acc @ gs)" by simp
      have ih: "triple pipeline_gaps (identify_all_gaps orch scores parsed (acc @ gs))
         (\<lambda>gs s. pipeline_gaps s \<and> list_all pipeline_severity gs) pipeline_gaps"
        by (rule Cons.IH [OF acc])
      show ?thesis
        unfolding triple_def
      proof (intro allI impI)
        fix s :: state
        assume k: "pipeline_gaps s"
        define s1 where "s1 = s\<lparr>calls := calls s @ [CallIdentifyGaps (engine_name sc)]\<rparr>"
        have k1: "pipeline_gaps s1" using k by (simp add: s1_def pipeline_gaps_def)
        have eq: "identify_all_gaps orch (sc # scores) parsed acc s
            = identify_all_gaps orch scores parsed (acc @ gs) s1"
          by (simp add: Some Inr bnd_def call_def lift_def s1_def)
        show "case identify_all_gaps orch (sc # scores) parsed acc s of
                (Inr gs, s') \<Rightarrow> pipeline_gaps s' \<and> list_all pipeline_severity gs
              | (Inl err, s') \<Rightarrow> pipeline_gaps s'"
          unfolding eq using ih k1 unfolding triple_def by auto
      qed
    qed
  qed
qed

lemma simulation_gaps_severities:
  "list_all pipeline_severity (simulation_gaps e orch aid brand pc uc parsed)"
  by (auto simp add: simulation_gaps_def extract_simulation_gaps_def Let_def pipeline_severity_def
        list_all_iff split: option.splits)

lemma simulation_step_severities:
  "triple (\<lambda>s. pipeline_gaps s \<and> list_all pipeline_severity all_gaps)
     (simulation_step e orch aid brand pc uc parsed all_gaps)
     (\<lambda>gs s. pipeline_gaps s \<and> list_all pipeline_severity gs) pipeline_gaps"
  by (simp add: triple_def simulation_step_eq pipeline_gaps_def simulation_gaps_severities)

lemma save_gaps_severities:
  "triple (\<lambda>s. pipeline_gaps s \<and> list_all pipeline_severity gs) (save_gaps e gs)
     (\<lambda>_. pipeline_gaps) pipeline_gaps"
  by (simp add: triple_def save_gaps_def ret_def db_execute_def pipeline_gaps_def
        split: option.splits)

lemma pipeline_severities:
  assumes engs: "\<And>parsed. \<forall>(n, eng) \<in> set (engines orch).
     \<forall>sc gs. identify_gaps eng sc parsed = Inr gs \<longrightarrow> list_all pipeline_severity gs"
  shows "triple pipeline_gaps (pipeline e orch analysis url brand pc uc)
     (\<lambda>_. pipeline_gaps) pipeline_gaps"
  unfolding pipeline_def
  apply (rule triple_bnd [OF keeps_gaps_triple [OF keeps_gaps_status]])
  apply (rule triple_bnd [OF keeps_gaps_triple [OF keeps_gaps_crawl_url]])
  apply (rule triple_bnd [OF keeps_gaps_triple [OF keeps_gaps_save_crawled_content]])
  apply (rule triple_bnd [OF keeps_gaps_triple [OF keeps_gaps_parse_content]])
  apply (rule triple_bnd [OF keeps_gaps_triple [OF keeps_gaps_run_engines]])
  apply (rule triple_bnd [OF keeps_gaps_triple [OF keeps_gaps_save_engine_scores]])
  apply (rule triple_bnd [OF keeps_gaps_triple [OF keeps_gaps_composite]])
  apply (rule triple_bnd [OF identify_all_gaps_severities [OF engs]])
   apply simp
  apply (rule triple_bnd [OF simulation_step_severities])
  apply (rule triple_bnd [OF save_gaps_severities])
  apply (rule triple_bnd [OF keeps_gaps_triple [OF keeps_gaps_status]])
  apply (simp add: triple_def ret_def)
  done

lemma analyze_url_severities:
  assumes engs: "\<And>parsed. \<forall>(n, eng) \<in> set (engines orch).
     \<forall>sc gs. identify_gaps eng sc parsed = Inr gs \<longrightarrow> list_all pipeline_severity gs"
  shows "triple pipeline_gaps (analyze_url e orch url brand pc uc)
     (\<lambda>_. pipeline_gaps) pipeline_gaps"
  unfolding analyze_url_def
  apply (rule triple_bnd [where Q = "\<lambda>_. pipeline_gaps"])
   apply (simp add: triple_def create_analysis_def bnd_def db_execute_def ret_def Let_def
      pipeline_gaps_def split: option.splits)
  apply (rule triple_try [OF pipeline_severities [OF engs]])
  apply (rule triple_bnd [OF keeps_gaps_triple [OF keeps_gaps_status]])
  apply (rule triple_raise)
  done

text \<open>
  C5. The only writer of the gaps table is \<open>save_gaps\<close> in \<open>analyze_url\<close>, and every gap
  the engines and the simulation step produce is \<open>critical\<close>, \<open>high\<close> or \<open>medium\<close>: a table
  of such rows stays one through every run, successful or failed. On such a table
  \<open>get_gaps\<close>, which orders by the severity text, returns the gaps of the analysis in the
  stable order of the ranks \<open>critical < high < medium\<close>: sorted by rank, and the gaps of one
  severity in the order they were stored. The report's view is the first ten of them,
  numbered from 1, in that order; both are functions of the table and leave it as it is.
\<close>

theorem get_gaps_stable_rank_order:
  assumes known: "pipeline_gaps s"
  shows "pipeline_gaps (snd (analyze_url e (make_orchestrator x w1 w2 w3 sim) url brand pc uc s))
     \<and> get_gaps s aid =
         sort_key (\<lambda>g. severity_order (severity g))
           (filter (\<lambda>g. gap_analysis_id g = aid) (db_gaps s))
     \<and> sorted (map (\<lambda>g. severity_order (severity g)) (get_gaps s aid))
     \<and> (\<forall>sev. filter (\<lambda>g. severity g = sev) (get_gaps s aid)
              = filter (\<lambda>g. severity g = sev)
                  (filter (\<lambda>g. gap_analysis_id g = aid) (db_gaps s)))
     \<and> map (\<lambda>r. (priority r, rec_severity r, issue r, action r))
           (prioritize_recommendations (get_gaps s aid))
         = map (\<lambda>(idx, g). (idx + 1, severity g, description g, recommendation g))
             (enumerate 0 (take 10 (get_gaps s aid)))"
proof -
  have sev: "\<forall>g \<in> set (db_gaps s). severity g \<in> {''critical'', ''high'', ''medium''}"
    using known by (simp add: pipeline_gaps_def pipeline_severity_def list_all_iff)
  have engs: "\<forall>(n, eng) \<in> set (engines (make_orchestrator x w1 w2 w3 sim)).
     \<forall>sc gs. identify_gaps eng sc parsed = Inr gs \<longrightarrow> list_all pipeline_severity gs" for parsed
    by (rule make_orchestrator_severities)
  have run: "pipeline_gaps (snd (analyze_url e (make_orchestrator x w1 w2 w3 sim) url brand pc uc s))"
    using analyze_url_severities [OF engs, where e = e and url = url and brand = brand
        and pc = pc and uc = uc]
      known
    unfolding triple_def
    by (cases "analyze_url e (make_orchestrator x w1 w2 w3 sim) url brand pc uc s")
       (auto split: sum.splits)
  have rank: "get_gaps s aid =
         sort_key (\<lambda>g. severity_order (severity g))
           (filter (\<lambda>g. gap_analysis_id g = aid) (db_gaps s))"
    by (rule get_gaps_rank_order [OF sev])
  have srt: "sorted (map (\<lambda>g. severity_order (severity g)) (get_gaps s aid))"
    unfolding rank by (rule sorted_sort_key)
  have stable: "filter (\<lambda>g. severity g = sev) (get_gaps s aid)
              = filter (\<lambda>g. severity g = sev)
                  (filter (\<lambda>g. gap_analysis_id g = aid) (db_gaps s))" for sev
    unfolding get_gaps_def by (rule sort_key_stable)
  have again: "sort_key (\<lambda>g. severity_order (severity g)) (get_gaps s aid) = get_gaps s aid"
    using srt by (rule sort_key_id_if_sorted)
  have m: "map (h \<circ> (\<lambda>(idx, gap). F idx gap)) (enumerate n xs) = map (\<lambda>(idx, g). G idx g) (enumerate n xs)"
    if "\<And>idx gap. h (F idx gap) = G idx gap" for h F G n and xs :: "Gap list"
    using that by (induction xs arbitrary: n) simp_all
  have top: "map (\<lambda>r. (priority r, rec_severity r, issue r, action r))
           (prioritize_recommendations (get_gaps s aid))
         = map (\<lambda>(idx, g). (idx + 1, severity g, description g, recommendation g))
             (enumerate 0 (take 10 (get_gaps s aid)))"
    by (simp add: prioritize_recommendations_def Let_def again m)
  show ?thesis using run rank srt stable top by blast
qed

theorem get_gaps_stable_rank_order_witness:
  "pipeline_gaps stored_gaps_example
   \<and> pipeline_gaps (snd (analyze_url demo_env demo_orchestrator ''http://example.com'' None None None
        stored_gaps_example))
   \<and> map (\<lambda>g. (severity g, gap_type g)) (get_gaps stored_gaps_example ''a1'')
       = [(''critical'', ''no_ssl''), (''high'', ''missing_h1''),
          (''medium'', ''low_semantic_html''), (''medium'', ''no_reviews'')]
   \<and> map (\<lambda>r. (priority r, rec_severity r, issue r))
         (prioritize_recommendations (get_gaps stored_gaps_example ''a1''))
       = [(1, ''critical'', ''Site not using HTTPS (SSL)''), (2, ''high'', ''Page missing H1 heading''),
          (3, ''medium'', ''Only 0 semantic HTML elements found''),
          (4, ''medium'', ''No review or rating information found'')]
   \<and> map gap_type (db_gaps stored_gaps_example)
       = [''low_semantic_html'', ''missing_h1'', ''missing_h1'', ''no_ssl'', ''no_reviews'']"
proof -
  have known: "pipeline_gaps stored_gaps_example"
    by (simp add: pipeline_gaps_def pipeline_severity_def stored_gaps_example_def empty_state_def)
  have g: "map (\<lambda>g. (severity g, gap_type g, description g)) (get_gaps stored_gaps_example ''a1'')
       = [(''critical'', ''no_ssl'', ''Site not using HTTPS (SSL)''),
          (''high'', ''missing_h1'', ''Page missing H1 heading''),
          (''medium'', ''low_semantic_html'', ''Only 0 semantic HTML elements found''),
          (''medium'', ''no_reviews'', ''No review or rating information found'')]"
    by (simp add: get_gaps_def stored_gaps_example_def empty_state_def)
  note inst = get_gaps_stable_rank_order [OF known, of demo_env demo_ext "0.3" "0.2" "0.2" None
      "''http://example.com''" None None None "''a1''"]
  have run: "pipeline_gaps (snd (analyze_url demo_env demo_orchestrator ''http://example.com''
        None None None stored_gaps_example))"
    and top: "map (\<lambda>r. (priority r, rec_severity r, issue r, action r))
           (prioritize_recommendations (get_gaps stored_gaps_example ''a1''))
         = map (\<lambda>(idx, g). (idx + 1, severity g, description g, recommendation g))
             (enumerate 0 (take 10 (get_gaps stored_gaps_example ''a1'')))"
    unfolding demo_orchestrator_def
    by (rule inst [THEN conjunct1])
       (rule inst [THEN conjunct2, THEN conjunct2, THEN conjunct2, THEN conjunct2])
  have len: "length (get_gaps stored_gaps_example ''a1'') = 4"
    using arg_cong [OF g, of length] by simp
  have top3: "map (\<lambda>r. (priority r, rec_severity r, issue r))
         (prioritize_recommendations (get_gaps stored_gaps_example ''a1''))
       = map (\<lambda>(idx, g). (idx + 1, severity g, description g))
             (enumerate 0 (get_gaps stored_gaps_example ''a1''))"
    using arg_cong [OF top, of "map (\<lambda>(p, sv, i, a). (p, sv, i))"] len
    by (simp add: comp_def case_prod_beta)
  show ?thesis
    using known run g top3
    by (simp add: get_gaps_def stored_gaps_example_def empty_state_def enumerate_eq_zip upt_rec)
qed

section \<open>Acquisition with fallback\<close>

text \<open>
  C6. When the first crawler raises and the browser crawler returns a page, the run goes
  on with that page (its content and its \<open>crawl_method\<close>): it is the page saved, parsed
  and scored, and with the later stages succeeding the analysis is \<open>completed\<close>. When
  both raise, \<open>analyze_url\<close> raises \<open>CrawlerException\<close>, the analysis is \<open>failed\<close> with the
  message \<open>Failed to crawl <url>: <the browser crawler's error>\<close>, and nothing after the
  crawl has run: no parser or engine call, no page, score, simulation result or gap stored.
\<close>

theorem acquisition_fallback:
  "(crawl_bs e url (new_id e) = Inl err1 \<and> crawl_playwright e url (new_id e) = Inr content
      \<and> (\<forall>opn. opn \<noteq> SaveSimulationResult \<longrightarrow> db_error e opn = None)
      \<and> parse e content = Inr parsed
      \<and> gaps_ok (engines orch) (successful_scores (engines orch) content parsed) parsed
    \<longrightarrow> (\<exists>s'. analyze_url e orch url brand pc uc s = (Inr (new_id e), s')
          \<and> db_crawled_pages s' = db_crawled_pages s
                @ [content\<lparr>html_content := take 50000 (html_content content)\<rparr>]
          \<and> json_raw_content s' = json_raw_content s
                @ [(cc_analysis_id content, html_content content)]
          \<and> db_engine_scores s' = db_engine_scores s @ successful_scores (engines orch) content parsed
          \<and> db_analyses s' (new_id e) =
               Some \<lparr>an_id = new_id e, an_url = url, status = COMPLETED,
                     composite_score =
                       Some (calculate_composite_score
                               (successful_scores (engines orch) content parsed)),
                     error_message = None\<rparr>
          \<and> take 3 (drop (length (calls s)) (calls s'))
               = [CallCrawlBS, CallCrawlPlaywright, CallParse]))
   \<and> (crawl_bs e url (new_id e) = Inl err1 \<and> crawl_playwright e url (new_id e) = Inl err2
      \<and> db_error e CreateAnalysis = None \<and> db_error e (UpdateStatus PROCESSING) = None
      \<and> db_error e (UpdateStatus FAILED) = None
    \<longrightarrow> (\<exists>s'. analyze_url e orch url brand pc uc s =
                 (Inl (CrawlerException (''Failed to crawl '' @ url @ '': '' @ str_exn err2)), s')
          \<and> db_analyses s' (new_id e) =
               Some \<lparr>an_id = new_id e, an_url = url, status = FAILED, composite_score = None,
                     error_message = Some (''Failed to crawl '' @ url @ '': '' @ str_exn err2)\<rparr>
          \<and> calls s' = calls s @ [CallCrawlBS, CallCrawlPlaywright]
          \<and> db_crawled_pages s' = db_crawled_pages s
          \<and> json_raw_content s' = json_raw_content s
          \<and> db_engine_scores s' = db_engine_scores s
          \<and> db_simulation_results s' = db_simulation_results s
          \<and> db_gaps s' = db_gaps s))"
proof (intro conjI impI)
  assume h: "crawl_bs e url (new_id e) = Inl err1 \<and> crawl_playwright e url (new_id e) = Inr content
      \<and> (\<forall>opn. opn \<noteq> SaveSimulationResult \<longrightarrow> db_error e opn = None)
      \<and> parse e content = Inr parsed
      \<and> gaps_ok (engines orch) (successful_scores (engines orch) content parsed) parsed"
  then have crawl: "crawl_result e url (new_id e) = Inr content"
    and cc: "crawl_calls e url (new_id e) = [CallCrawlBS, CallCrawlPlaywright]"
    by (simp_all add: crawl_result_def crawl_calls_def)
  from h have db: "\<forall>opn. opn \<noteq> SaveSimulationResult \<and> opn \<noteq> WriteSimulationData \<longrightarrow>
      db_error e opn = None"
    and parse: "parse e content = Inr parsed"
    and gaps: "gaps_ok (engines orch) (successful_scores (engines orch) content parsed) parsed"
    by simp_all
  from analyze_url_completed [OF db crawl parse gaps, where brand = brand and pc = pc and uc = uc
      and s = s]
  obtain s' where "analyze_url e orch url brand pc uc s = (Inr (new_id e), s')"
    and "db_analyses s' = (db_analyses s)(new_id e \<mapsto>
           \<lparr>an_id = new_id e, an_url = url, status = COMPLETED,
            composite_score =
              Some (calculate_composite_score (successful_scores (engines orch) content parsed)),
            error_message = None\<rparr>)"
    and "db_crawled_pages s' = db_crawled_pages s
                @ [content\<lparr>html_content := take 50000 (html_content content)\<rparr>]"
    and "json_raw_content s' = json_raw_content s
                @ [(cc_analysis_id content, html_content content)]"
    and "db_engine_scores s' = db_engine_scores s @ successful_scores (engines orch) content parsed"
    and "calls s' = calls s @ crawl_calls e url (new_id e) @ [CallParse]
                 @ map (\<lambda>(n, eng). CallAnalyze n) (engines orch)
                 @ identify_calls (engines orch) (successful_scores (engines orch) content parsed)
                 @ simulation_calls orch brand pc uc"
    by blast
  then show "\<exists>s'. analyze_url e orch url brand pc uc s = (Inr (new_id e), s')
          \<and> db_crawled_pages s' = db_crawled_pages s
                @ [content\<lparr>html_content := take 50000 (html_content content)\<rparr>]
          \<and> json_raw_content s' = json_raw_content s
                @ [(cc_analysis_id content, html_content content)]
          \<and> db_engine_scores s' = db_engine_scores s @ successful_scores (engines orch) content parsed
          \<and> db_analyses s' (new_id e) =
               Some \<lparr>an_id = new_id e, an_url = url, status = COMPLETED,
                     composite_score =
                       Some (calculate_composite_score
                               (successful_scores (engines orch) content parsed)),
                     error_message = None\<rparr>
          \<and> take 3 (drop (length (calls s)) (calls s'))
               = [CallCrawlBS, CallCrawlPlaywright, CallParse]"
    by (intro exI [of _ s']) (simp add: cc)
next
  assume h: "crawl_bs e url (new_id e) = Inl err1 \<and> crawl_playwright e url (new_id e) = Inl err2
      \<and> db_error e CreateAnalysis = None \<and> db_error e (UpdateStatus PROCESSING) = None
      \<and> db_error e (UpdateStatus FAILED) = None"
  then have crawl: "crawl_result e url (new_id e) =
      Inl (CrawlerException (''Failed to crawl '' @ url @ '': '' @ str_exn err2))"
    and cc: "crawl_calls e url (new_id e) = [CallCrawlBS, CallCrawlPlaywright]"
    by (simp_all add: crawl_result_def crawl_calls_def)
  from h have db: "db_error e CreateAnalysis = None" "db_error e (UpdateStatus PROCESSING) = None"
    "db_error e (UpdateStatus FAILED) = None" by simp_all
  show "\<exists>s'. analyze_url e orch url brand pc uc s =
                 (Inl (CrawlerException (''Failed to crawl '' @ url @ '': '' @ str_exn err2)), s')
          \<and> db_analyses s' (new_id e) =
               Some \<lparr>an_id = new_id e, an_url = url, status = FAILED, composite_score = None,
                     error_message = Some (''Failed to crawl '' @ url @ '': '' @ str_exn err2)\<rparr>
          \<and> calls s' = calls s @ [CallCrawlBS, CallCrawlPlaywright]
          \<and> db_crawled_pages s' = db_crawled_pages s
          \<and> json_raw_content s' = json_raw_content s
          \<and> db_engine_scores s' = db_engine_scores s
          \<and> db_simulation_results s' = db_simulation_results s
          \<and> db_gaps s' = db_gaps s"
    by (simp add: analyze_url_crawl_failed [OF db crawl] cc)
qed

theorem acquisition_fallback_witness:
  "(\<exists>s'. analyze_url fallback_env demo_orchestrator ''http://example.com'' None None None empty_state
            = (Inr ''a1'', s')
        \<and> map crawl_method (db_crawled_pages s') = [''playwright'']
        \<and> map_option status (db_analyses s' ''a1'') = Some COMPLETED
        \<and> take 3 (calls s') = [CallCrawlBS, CallCrawlPlaywright, CallParse])
   \<and> (\<exists>s'. analyze_url offline_env demo_orchestrator ''http://example.com'' None None None empty_state
            = (Inl (CrawlerException ''Failed to crawl http://example.com: Timeout while loading''), s')
        \<and> map_option status (db_analyses s' ''a1'') = Some FAILED
        \<and> map_option error_message (db_analyses s' ''a1'')
             = Some (Some ''Failed to crawl http://example.com: Timeout while loading'')
        \<and> calls s' = [CallCrawlBS, CallCrawlPlaywright]
        \<and> db_crawled_pages s' = [] \<and> db_engine_scores s' = [] \<and> db_gaps s' = [])"
proof -
  have gaps: "gaps_ok (engines demo_orchestrator)
      (successful_scores (engines demo_orchestrator) fallback_content empty_page) empty_page"
    unfolding demo_orchestrator_def by (rule demo_gaps_ok)
  have 1: "crawl_bs fallback_env ''http://example.com'' (new_id fallback_env) = Inl (Exception ''403 Forbidden'')
      \<and> crawl_playwright fallback_env ''http://example.com'' (new_id fallback_env) = Inr fallback_content
      \<and> (\<forall>opn. opn \<noteq> SaveSimulationResult \<longrightarrow> db_error fallback_env opn = None)
      \<and> parse fallback_env fallback_content = Inr empty_page
      \<and> gaps_ok (engines demo_orchestrator)
           (successful_scores (engines demo_orchestrator) fallback_content empty_page) empty_page"
    using gaps by (simp add: fallback_env_def demo_env_def)
  have 2: "crawl_bs offline_env ''http://example.com'' (new_id offline_env) = Inl (Exception ''403 Forbidden'')
      \<and> crawl_playwright offline_env ''http://example.com'' (new_id offline_env)
           = Inl (Exception ''Timeout while loading'')
      \<and> db_error offline_env CreateAnalysis = None
      \<and> db_error offline_env (UpdateStatus PROCESSING) = None
      \<and> db_error offline_env (UpdateStatus FAILED) = None"
    by (simp add: offline_env_def demo_env_def)
  have a: "\<exists>s'. analyze_url fallback_env demo_orchestrator ''http://example.com'' None None None empty_state
            = (Inr ''a1'', s')
        \<and> map crawl_method (db_crawled_pages s') = [''playwright'']
        \<and> map_option status (db_analyses s' ''a1'') = Some COMPLETED
        \<and> take 3 (calls s') = [CallCrawlBS, CallCrawlPlaywright, CallParse]"
    using acquisition_fallback [of fallback_env "''http://example.com''" "Exception ''403 Forbidden''"
        fallback_content empty_page demo_orchestrator None None None empty_state] 1
    by (auto simp add: fallback_env_def demo_env_def empty_state_def fallback_content_def)
  have b: "\<exists>s'. analyze_url offline_env demo_orchestrator ''http://example.com'' None None None empty_state
            = (Inl (CrawlerException ''Failed to crawl http://example.com: Timeout while loading''), s')
        \<and> map_option status (db_analyses s' ''a1'') = Some FAILED
        \<and> map_option error_message (db_analyses s' ''a1'')
             = Some (Some ''Failed to crawl http://example.com: Timeout while loading'')
        \<and> calls s' = [CallCrawlBS, CallCrawlPlaywright]
        \<and> db_crawled_pages s' = [] \<and> db_engine_scores s' = [] \<and> db_gaps s' = []"
    using acquisition_fallback [where e = offline_env and url = "''http://example.com''"
        and ?err1.0 = "Exception ''403 Forbidden''" and content = fallback_content
        and parsed = empty_page and orch = demo_orchestrator and brand = None and pc = None
        and uc = None and s = empty_state and ?err2.0 = "Exception ''Timeout while loading''"] 2
    by (auto simp add: offline_env_def demo_env_def empty_state_def)
  from a b show ?thesis by simp
qed

section \<open>The optional simulation\<close>

lemma no_simulate_in_crawl_calls: "CallSimulate \<notin> set (crawl_calls e url aid)"
  by (simp add: crawl_calls_def split: sum.splits)

lemma no_simulate_in_analyze_calls: "CallSimulate \<notin> (\<lambda>(n, eng). CallAnalyze n) ` set engs"
  by auto

lemma no_simulate_in_identify_calls: "CallSimulate \<notin> set (identify_calls engs scores)"
  by (induction scores) (auto split: option.splits)

lemma not_simulated:
  "\<not> should_simulate orch brand pc uc \<Longrightarrow>
   simulation_gaps e orch aid brand pc uc parsed = []
   \<and> simulation_rows e orch aid brand pc uc = []
   \<and> simulation_files e orch aid brand pc uc files = files"
  by (auto simp add: should_simulate_def simulation_gaps_def simulation_rows_def
        simulation_files_def saved_simulation_def simulation_returned_def split: option.splits)

lemma simulated:
  assumes "simulator orch = Some sim" "brand = Some b" "pc = Some c" "uc = Some u"
      "b \<noteq> []" "c \<noteq> []" "u \<noteq> []"
  shows "simulation_returned orch aid brand pc uc
      = (case sim aid b c u of Inl err \<Rightarrow> None | Inr r \<Rightarrow> Some r)"
  using assms by (simp add: simulation_returned_def split: sum.splits)

text \<open>
  C7. In a run that gets past the engines (crawl, parse, every write other than the two
  of the simulation result, and every \<open>identify_gaps\<close> succeed) the simulator is called
  exactly when one is configured and brand, product category and use case are all given
  (not \<open>None\<close> and not empty), and the run ends \<open>completed\<close> whatever the simulation does.
  When the step is not entered nothing of a simulation is stored and the gaps are the
  engine gaps. When it is entered and the simulator raises, or the insertion of the
  result raises, the same holds; when the result is inserted and the write of the JSON
  store raises, the row stays in the table and the gaps are still the engine gaps alone;
  when nothing raises, the row and the file are stored and the gaps extracted from the
  result follow the engine gaps.
\<close>

theorem simulation_optional_and_swallowed:
  assumes db: "\<forall>opn. opn \<noteq> SaveSimulationResult \<and> opn \<noteq> WriteSimulationData \<longrightarrow>
                 db_error e opn = None"
      and crawl: "crawl_result e url (new_id e) = Inr content"
      and parse: "parse e content = Inr parsed"
      and gaps: "gaps_ok (engines orch) (successful_scores (engines orch) content parsed) parsed"
  shows "\<exists>s'. analyze_url e orch url brand pc uc s = (Inr (new_id e), s')
     \<and> map_option status (db_analyses s' (new_id e)) = Some COMPLETED
     \<and> map_option error_message (db_analyses s' (new_id e)) = Some None
     \<and> (CallSimulate \<in> set (drop (length (calls s)) (calls s')) \<longleftrightarrow>
          simulator orch \<noteq> None \<and> truthy brand \<and> truthy pc \<and> truthy uc)
     \<and> (simulator orch = None \<or> \<not> truthy brand \<or> \<not> truthy pc \<or> \<not> truthy uc \<longrightarrow>
          db_gaps s' = db_gaps s @
            collect_gaps (engines orch) (successful_scores (engines orch) content parsed) parsed
          \<and> db_simulation_results s' = db_simulation_results s
          \<and> json_simulation_data s' = json_simulation_data s)
     \<and> (\<forall>sim b c u.
          simulator orch = Some sim \<and> brand = Some b \<and> pc = Some c \<and> uc = Some u
          \<and> b \<noteq> [] \<and> c \<noteq> [] \<and> u \<noteq> [] \<longrightarrow>
            (\<forall>err. sim (new_id e) b c u = Inl err \<longrightarrow>
               db_gaps s' = db_gaps s @
                 collect_gaps (engines orch) (successful_scores (engines orch) content parsed) parsed
               \<and> db_simulation_results s' = db_simulation_results s
               \<and> json_simulation_data s' = json_simulation_data s)
          \<and> (\<forall>r. sim (new_id e) b c u = Inr r \<longrightarrow>
               (\<forall>err. db_error e SaveSimulationResult = Some err \<longrightarrow>
                  db_gaps s' = db_gaps s @
                    collect_gaps (engines orch) (successful_scores (engines orch) content parsed)
                      parsed
                  \<and> db_simulation_results s' = db_simulation_results s
                  \<and> json_simulation_data s' = json_simulation_data s)
             \<and> (\<forall>err. db_error e SaveSimulationResult = None
                       \<and> db_error e WriteSimulationData = Some err \<longrightarrow>
                  db_gaps s' = db_gaps s @
                    collect_gaps (engines orch) (successful_scores (engines orch) content parsed)
                      parsed
                  \<and> db_simulation_results s' = db_simulation_results s @ [r]
                  \<and> json_simulation_data s' = json_simulation_data s)
             \<and> (db_error e SaveSimulationResult = None \<and> db_error e WriteSimulationData = None \<longrightarrow>
                  db_gaps s' = db_gaps s @
                    collect_gaps (engines orch) (successful_scores (engines orch) content parsed)
                      parsed
                    @ extract_simulation_gaps (new_id e) r parsed
                  \<and> db_simulation_results s' = db_simulation_results s @ [r]
                  \<and> json_simulation_data s' = (json_simulation_data s)(sr_analysis_id r \<mapsto> r))))"
proof -
  define egaps where
    "egaps = collect_gaps (engines orch) (successful_scores (engines orch) content parsed) parsed"
  from analyze_url_completed [OF db crawl parse gaps, where brand = brand and pc = pc and uc = uc
      and s = s]
  obtain s' where run: "analyze_url e orch url brand pc uc s = (Inr (new_id e), s')"
    and a: "db_analyses s' = (db_analyses s)(new_id e \<mapsto>
           \<lparr>an_id = new_id e, an_url = url, status = COMPLETED,
            composite_score =
              Some (calculate_composite_score (successful_scores (engines orch) content parsed)),
            error_message = None\<rparr>)"
    and sr: "db_simulation_results s' =
          db_simulation_results s @ simulation_rows e orch (new_id e) brand pc uc"
    and js: "json_simulation_data s' =
          simulation_files e orch (new_id e) brand pc uc (json_simulation_data s)"
    and gs: "db_gaps s' = db_gaps s @ egaps @ simulation_gaps e orch (new_id e) brand pc uc parsed"
    and cs: "calls s' = calls s @ crawl_calls e url (new_id e) @ [CallParse]
                 @ map (\<lambda>(n, eng). CallAnalyze n) (engines orch)
                 @ identify_calls (engines orch) (successful_scores (engines orch) content parsed)
                 @ simulation_calls orch brand pc uc"
    unfolding egaps_def by blast
  have called: "CallSimulate \<in> set (drop (length (calls s)) (calls s')) \<longleftrightarrow>
          simulator orch \<noteq> None \<and> truthy brand \<and> truthy pc \<and> truthy uc"
    by (simp add: cs no_simulate_in_crawl_calls no_simulate_in_analyze_calls
          no_simulate_in_identify_calls simulation_calls_def should_simulate_def)
  have skipped: "db_gaps s' = db_gaps s @ egaps
          \<and> db_simulation_results s' = db_simulation_results s
          \<and> json_simulation_data s' = json_simulation_data s"
    if "simulator orch = None \<or> \<not> truthy brand \<or> \<not> truthy pc \<or> \<not> truthy uc"
  proof -
    from that have "\<not> should_simulate orch brand pc uc" by (auto simp add: should_simulate_def)
    from not_simulated [OF this] show ?thesis by (simp add: gs sr js)
  qed
  have entered: "(\<forall>err. sim (new_id e) b c u = Inl err \<longrightarrow>
               db_gaps s' = db_gaps s @ egaps
               \<and> db_simulation_results s' = db_simulation_results s
               \<and> json_simulation_data s' = json_simulation_data s)
          \<and> (\<forall>r. sim (new_id e) b c u = Inr r \<longrightarrow>
               (\<forall>err. db_error e SaveSimulationResult = Some err \<longrightarrow>
                  db_gaps s' = db_gaps s @ egaps
                  \<and> db_simulation_results s' = db_simulation_results s
                  \<and> json_simulation_data s' = json_simulation_data s)
             \<and> (\<forall>err. db_error e SaveSimulationResult = None
                       \<and> db_error e WriteSimulationData = Some err \<longrightarrow>
                  db_gaps s' = db_gaps s @ egaps
                  \<and> db_simulation_results s' = db_simulation_results s @ [r]
                  \<and> json_simulation_data s' = json_simulation_data s)
             \<and> (db_error e SaveSimulationResult = None \<and> db_error e WriteSimulationData = None \<longrightarrow>
                  db_gaps s' = db_gaps s @ egaps @ extract_simulation_gaps (new_id e) r parsed
                  \<and> db_simulation_results s' = db_simulation_results s @ [r]
                  \<and> json_simulation_data s' = (json_simulation_data s)(sr_analysis_id r \<mapsto> r)))"
    if v: "simulator orch = Some sim \<and> brand = Some b \<and> pc = Some c \<and> uc = Some u
          \<and> b \<noteq> [] \<and> c \<noteq> [] \<and> u \<noteq> []" for sim b c u
  proof -
    from v have ret: "simulation_returned orch (new_id e) brand pc uc
        = (case sim (new_id e) b c u of Inl err \<Rightarrow> None | Inr r \<Rightarrow> Some r)"
      by (intro simulated) simp_all
    show ?thesis
      by (auto simp add: gs sr js simulation_gaps_def simulation_rows_def simulation_files_def
            saved_simulation_def ret)
  qed
  show ?thesis
    apply (rule exI [of _ s'])
    apply (intro conjI)
         apply (rule run)
        apply (simp add: a)
       apply (simp add: a)
      apply (rule called)
     apply (use skipped in \<open>simp add: egaps_def\<close>)
    apply (use entered in \<open>simp only: egaps_def\<close>)
    apply blast
    done
qed

theorem simulation_optional_and_swallowed_witness:
  "(\<exists>s'. analyze_url demo_env failing_simulator_orchestrator ''http://example.com''
           (Some ''Acme'') (Some ''running shoes'') (Some ''marathon training'') empty_state
         = (Inr ''a1'', s')
      \<and> map_option status (db_analyses s' ''a1'') = Some COMPLETED
      \<and> CallSimulate \<in> set (calls s')
      \<and> length (db_gaps s') = 9
      \<and> list_all (\<lambda>g. engine_source g \<noteq> ''AI_SIMULATION'') (db_gaps s')
      \<and> db_simulation_results s' = []
      \<and> json_simulation_data s' = Map.empty)
   \<and> (\<exists>s'. analyze_url disk_full_env simulating_orchestrator ''http://example.com''
           (Some ''Acme'') (Some ''running shoes'') (Some ''marathon training'') empty_state
         = (Inr ''a1'', s')
      \<and> map_option status (db_analyses s' ''a1'') = Some COMPLETED
      \<and> CallSimulate \<in> set (calls s')
      \<and> length (db_gaps s') = 9
      \<and> list_all (\<lambda>g. engine_source g \<noteq> ''AI_SIMULATION'') (db_gaps s')
      \<and> db_simulation_results s' = [spec_example_simulation]
      \<and> json_simulation_data s' = Map.empty)
   \<and> (\<exists>s'. analyze_url demo_env simulating_orchestrator ''http://example.com''
           (Some ''Acme'') (Some ''running shoes'') (Some ''marathon training'') empty_state
         = (Inr ''a1'', s')
      \<and> map_option status (db_analyses s' ''a1'') = Some COMPLETED
      \<and> CallSimulate \<in> set (calls s')
      \<and> length (db_gaps s') = 12
      \<and> map gap_type (drop 9 (db_gaps s'))
           = [''not_cited_by_ai'', ''missing_attribute'', ''missing_attribute'']
      \<and> db_simulation_results s' = [spec_example_simulation]
      \<and> json_simulation_data s' ''a1'' = Some spec_example_simulation)
   \<and> (\<exists>s'. analyze_url demo_env simulating_orchestrator ''http://example.com''
           (Some ''Acme'') (Some []) (Some ''marathon training'') empty_state
         = (Inr ''a1'', s')
      \<and> map_option status (db_analyses s' ''a1'') = Some COMPLETED
      \<and> CallSimulate \<notin> set (calls s')
      \<and> length (db_gaps s') = 9
      \<and> db_simulation_results s' = []
      \<and> json_simulation_data s' = Map.empty)"
proof -
  have db: "\<forall>opn. opn \<noteq> SaveSimulationResult \<and> opn \<noteq> WriteSimulationData \<longrightarrow>
      db_error demo_env opn = None"
    by (simp add: demo_env_def)
  have db_full: "\<forall>opn. opn \<noteq> SaveSimulationResult \<and> opn \<noteq> WriteSimulationData \<longrightarrow>
      db_error disk_full_env opn = None"
    by (simp add: disk_full_env_def demo_env_def)
  have crawl: "crawl_result demo_env ''http://example.com'' (new_id demo_env) = Inr demo_content"
    by (simp add: crawl_result_def demo_env_def)
  have crawl_full: "crawl_result disk_full_env ''http://example.com'' (new_id disk_full_env)
      = Inr demo_content"
    by (simp add: crawl_result_def disk_full_env_def demo_env_def)
  have parse: "parse demo_env demo_content = Inr empty_page"
    by (simp add: demo_env_def)
  have parse_full: "parse disk_full_env demo_content = Inr empty_page"
    by (simp add: disk_full_env_def demo_env_def)
  have eng: "engines failing_simulator_orchestrator = engines demo_orchestrator"
    "engines simulating_orchestrator = engines demo_orchestrator"
    by (simp_all add: failing_simulator_orchestrator_def simulating_orchestrator_def
          demo_orchestrator_def make_orchestrator_def)
  have gaps: "gaps_ok (engines failing_simulator_orchestrator)
      (successful_scores (engines failing_simulator_orchestrator) demo_content empty_page) empty_page"
    "gaps_ok (engines simulating_orchestrator)
      (successful_scores (engines simulating_orchestrator) demo_content empty_page) empty_page"
    unfolding failing_simulator_orchestrator_def simulating_orchestrator_def
    by (rule demo_gaps_ok)+
  have sim: "simulator failing_simulator_orchestrator
      = Some (\<lambda>_ _ _ _. Inl (Exception ''connection refused''))"
    "simulator simulating_orchestrator = Some (\<lambda>_ _ _ _. Inr spec_example_simulation)"
    by (simp_all add: failing_simulator_orchestrator_def simulating_orchestrator_def
          make_orchestrator_def)
  have ids: "new_id demo_env = ''a1''" "new_id disk_full_env = ''a1''"
    "db_error demo_env SaveSimulationResult = None" "db_error demo_env WriteSimulationData = None"
    "db_error disk_full_env SaveSimulationResult = None"
    "db_error disk_full_env WriteSimulationData = Some (Exception ''No space left on device'')"
    "sr_analysis_id spec_example_simulation = ''a1''"
    by (simp_all add: demo_env_def disk_full_env_def spec_example_simulation_def)
  have src: "map engine_source (collect_gaps (engines demo_orchestrator)
        (successful_scores (engines demo_orchestrator) demo_content empty_page) empty_page)
      = [''ARCE'', ''ARCE'', ''ARCE'', ''ARCE'', ''TRE'', ''TRE'', ''TRE'', ''TRE'', ''TRE'']"
    using arg_cong [OF demo_gap_types, of "map fst"] by (simp add: comp_def)
  have len: "length (collect_gaps (engines demo_orchestrator)
        (successful_scores (engines demo_orchestrator) demo_content empty_page) empty_page) = 9"
    using arg_cong [OF src, of length] by simp
  have all: "list_all (\<lambda>g. engine_source g \<noteq> ''AI_SIMULATION'') (collect_gaps (engines demo_orchestrator)
        (successful_scores (engines demo_orchestrator) demo_content empty_page) empty_page)"
    using arg_cong [OF src, of "list_all (\<lambda>n. n \<noteq> ''AI_SIMULATION'')"]
    by (simp add: list_all_iff)
  have ex: "map gap_type (extract_simulation_gaps ''a1'' spec_example_simulation empty_page)
      = [''not_cited_by_ai'', ''missing_attribute'', ''missing_attribute'']"
    by (simp add: extract_simulation_gaps_def spec_example_simulation_def Let_def)
  have ex_len: "length (extract_simulation_gaps ''a1'' spec_example_simulation empty_page) = 3"
    using arg_cong [OF ex, of length] by simp
  have 1: "\<exists>s'. analyze_url demo_env failing_simulator_orchestrator ''http://example.com''
           (Some ''Acme'') (Some ''running shoes'') (Some ''marathon training'') empty_state
         = (Inr ''a1'', s')
      \<and> map_option status (db_analyses s' ''a1'') = Some COMPLETED
      \<and> CallSimulate \<in> set (calls s')
      \<and> length (db_gaps s') = 9
      \<and> list_all (\<lambda>g. engine_source g \<noteq> ''AI_SIMULATION'') (db_gaps s')
      \<and> db_simulation_results s' = []
      \<and> json_simulation_data s' = Map.empty"
    using simulation_optional_and_swallowed [OF db crawl parse gaps(1),
      where brand = "Some ''Acme''" and pc = "Some ''running shoes''"
        and uc = "Some ''marathon training''" and s = empty_state]
      len all
    unfolding eng ids
    by (auto simp add: sim empty_state_def ids)
  have 2: "\<exists>s'. analyze_url disk_full_env simulating_orchestrator ''http://example.com''
           (Some ''Acme'') (Some ''running shoes'') (Some ''marathon training'') empty_state
         = (Inr ''a1'', s')
      \<and> map_option status (db_analyses s' ''a1'') = Some COMPLETED
      \<and> CallSimulate \<in> set (calls s')
      \<and> length (db_gaps s') = 9
      \<and> list_all (\<lambda>g. engine_source g \<noteq> ''AI_SIMULATION'') (db_gaps s')
      \<and> db_simulation_results s' = [spec_example_simulation]
      \<and> json_simulation_data s' = Map.empty"
    using simulation_optional_and_swallowed [OF db_full crawl_full parse_full gaps(2),
      where brand = "Some ''Acme''" and pc = "Some ''running shoes''"
        and uc = "Some ''marathon training''" and s = empty_state]
      len all
    unfolding eng ids
    by (auto simp add: sim empty_state_def ids)
  have 3: "\<exists>s'. analyze_url demo_env simulating_orchestrator ''http://example.com''
           (Some ''Acme'') (Some ''running shoes'') (Some ''marathon training'') empty_state
         = (Inr ''a1'', s')
      \<and> map_option status (db_analyses s' ''a1'') = Some COMPLETED
      \<and> CallSimulate \<in> set (calls s')
      \<and> length (db_gaps s') = 12
      \<and> map gap_type (drop 9 (db_gaps s'))
           = [''not_cited_by_ai'', ''missing_attribute'', ''missing_attribute'']
      \<and> db_simulation_results s' = [spec_example_simulation]
      \<and> json_simulation_data s' ''a1'' = Some spec_example_simulation"
    using simulation_optional_and_swallowed [OF db crawl parse gaps(2),
      where brand = "Some ''Acme''" and pc = "Some ''running shoes''"
        and uc = "Some ''marathon training''" and s = empty_state]
      len ex ex_len
    unfolding eng ids
    by (auto simp add: sim empty_state_def ids)
  have 4: "\<exists>s'. analyze_url demo_env simulating_orchestrator ''http://example.com''
           (Some ''Acme'') (Some []) (Some ''marathon training'') empty_state
         = (Inr ''a1'', s')
      \<and> map_option status (db_analyses s' ''a1'') = Some COMPLETED
      \<and> CallSimulate \<notin> set (calls s')
      \<and> length (db_gaps s') = 9
      \<and> db_simulation_results s' = []
      \<and> json_simulation_data s' = Map.empty"
    using simulation_optional_and_swallowed [OF db crawl parse gaps(2),
      where brand = "Some ''Acme''" and pc = "Some []"
        and uc = "Some ''marathon training''" and s = empty_state]
      len
    unfolding eng ids
    by (auto simp add: sim empty_state_def ids)
  from 1 2 3 4 show ?thesis by (intro conjI)
qed

section \<open>Simulation gap extraction\<close>

lemma startswith_refl: "startswith s s"
  by (induction s) simp_all

lemma contains_refl: "contains s s"
  by (cases s) (simp_all add: startswith_refl)

lemma contains_append: "contains (p @ s) s"
  by (induction p) (simp_all add: contains_refl)

lemma contains_zip:
  "(\<And>x. contains (description (f x)) x) \<Longrightarrow>
   list_all (\<lambda>(signal, g). contains (description g) signal) (zip sigs (map f sigs))"
  by (induction sigs) simp_all

lemma filter_map_none: "(\<And>x. \<not> P (f x)) \<Longrightarrow> filter P (map f xs) = []"
  by (induction xs) simp_all

lemma filter_map_all: "(\<And>x. P (f x)) \<Longrightarrow> filter P (map f xs) = map f xs"
  by (induction xs) simp_all

lemma list_all_map: "(\<And>x. P (f x)) \<Longrightarrow> list_all P (map f xs)"
  by (induction xs) simp_all

lemma saved_simulation_Some:
  "simulator orch = Some sim \<Longrightarrow> b \<noteq> [] \<Longrightarrow> c \<noteq> [] \<Longrightarrow> u \<noteq> [] \<Longrightarrow>
   sim aid b c u = Inr r \<Longrightarrow> db_error e SaveSimulationResult = None \<Longrightarrow>
   db_error e WriteSimulationData = None \<Longrightarrow>
   saved_simulation e orch aid (Some b) (Some c) (Some u) = Some r
   \<and> simulation_returned orch aid (Some b) (Some c) (Some u) = Some r"
  by (simp add: saved_simulation_def simulation_returned_def)

text \<open>
  C8. The gaps extracted from a simulation result are: one \<open>critical\<close> gap
  \<open>not_cited_by_ai\<close> exactly when \<open>brand_cited\<close> is false; one \<open>medium\<close> gap
  \<open>missing_attribute\<close> per entry of \<open>missing_signals\<close>, in order, whose description ends
  with the signal name; and nothing else. In a run whose simulation succeeds they are
  stored after all the engine gaps.
\<close>

theorem simulation_gap_extraction:
  "filter (\<lambda>g. gap_type g = ''not_cited_by_ai'') (extract_simulation_gaps aid r parsed) =
     (if brand_cited r then []
      else [\<lparr>gap_analysis_id = aid, gap_type = ''not_cited_by_ai'', severity = ''critical'',
             description = ''Brand was not mentioned in AI recommendation'',
             recommendation = ''Improve product attributes, trust signals, and content clarity to increase AI citation likelihood'',
             engine_source = ''AI_SIMULATION''\<rparr>])
   \<and> filter (\<lambda>g. gap_type g = ''missing_attribute'') (extract_simulation_gaps aid r parsed) =
       map (\<lambda>signal.
              \<lparr>gap_analysis_id = aid, gap_type = ''missing_attribute'', severity = ''medium'',
               description = ''AI values this attribute but it may be missing: '' @ signal,
               recommendation = ''Add or enhance information about: '' @ signal,
               engine_source = ''AI_SIMULATION''\<rparr>)
         (missing_signals r)
   \<and> list_all (\<lambda>(signal, g). contains (description g) signal)
        (zip (missing_signals r)
           (filter (\<lambda>g. gap_type g = ''missing_attribute'') (extract_simulation_gaps aid r parsed)))
   \<and> length (extract_simulation_gaps aid r parsed) =
       (if brand_cited r then 0 else 1) + length (missing_signals r)
   \<and> list_all (\<lambda>g. gap_type g = ''not_cited_by_ai'' \<or> gap_type g = ''missing_attribute'')
        (extract_simulation_gaps aid r parsed)
   \<and> ((\<forall>opn. db_error e opn = None)
        \<and> crawl_result e url (new_id e) = Inr content
        \<and> parse e content = Inr parsed
        \<and> gaps_ok (engines orch) (successful_scores (engines orch) content parsed) parsed
        \<and> simulator orch = Some sim \<and> b \<noteq> [] \<and> c \<noteq> [] \<and> u \<noteq> []
        \<and> sim (new_id e) b c u = Inr r
      \<longrightarrow> (\<exists>s'. analyze_url e orch url (Some b) (Some c) (Some u) s = (Inr (new_id e), s')
            \<and> db_gaps s' = db_gaps s
                 @ collect_gaps (engines orch) (successful_scores (engines orch) content parsed) parsed
                 @ extract_simulation_gaps (new_id e) r parsed
            \<and> db_simulation_results s' = db_simulation_results s @ [r]))"
proof -
  have p1: "filter (\<lambda>g. gap_type g = ''not_cited_by_ai'') (extract_simulation_gaps aid r parsed) =
     (if brand_cited r then []
      else [\<lparr>gap_analysis_id = aid, gap_type = ''not_cited_by_ai'', severity = ''critical'',
             description = ''Brand was not mentioned in AI recommendation'',
             recommendation = ''Improve product attributes, trust signals, and content clarity to increase AI citation likelihood'',
             engine_source = ''AI_SIMULATION''\<rparr>])"
    by (simp add: extract_simulation_gaps_def Let_def filter_map_none)
  have p2: "filter (\<lambda>g. gap_type g = ''missing_attribute'') (extract_simulation_gaps aid r parsed) =
       map (\<lambda>signal.
              \<lparr>gap_analysis_id = aid, gap_type = ''missing_attribute'', severity = ''medium'',
               description = ''AI values this attribute but it may be missing: '' @ signal,
               recommendation = ''Add or enhance information about: '' @ signal,
               engine_source = ''AI_SIMULATION''\<rparr>)
         (missing_signals r)"
    by (simp add: extract_simulation_gaps_def Let_def filter_map_all)
  have p3: "list_all (\<lambda>(signal, g). contains (description g) signal)
        (zip (missing_signals r)
           (filter (\<lambda>g. gap_type g = ''missing_attribute'') (extract_simulation_gaps aid r parsed)))"
    unfolding p2 by (rule contains_zip) (simp only: Gap.select_convs contains_append)
  have p4: "length (extract_simulation_gaps aid r parsed) =
       (if brand_cited r then 0 else 1) + length (missing_signals r)"
    by (simp add: extract_simulation_gaps_def Let_def)
  have p5: "list_all (\<lambda>g. gap_type g = ''not_cited_by_ai'' \<or> gap_type g = ''missing_attribute'')
        (extract_simulation_gaps aid r parsed)"
    by (simp add: extract_simulation_gaps_def Let_def list_all_map)
  have p6: "\<exists>s'. analyze_url e orch url (Some b) (Some c) (Some u) s = (Inr (new_id e), s')
            \<and> db_gaps s' = db_gaps s
                 @ collect_gaps (engines orch) (successful_scores (engines orch) content parsed) parsed
                 @ extract_simulation_gaps (new_id e) r parsed
            \<and> db_simulation_results s' = db_simulation_results s @ [r]"
    if h: "(\<forall>opn. db_error e opn = None)
        \<and> crawl_result e url (new_id e) = Inr content
        \<and> parse e content = Inr parsed
        \<and> gaps_ok (engines orch) (successful_scores (engines orch) content parsed) parsed
        \<and> simulator orch = Some sim \<and> b \<noteq> [] \<and> c \<noteq> [] \<and> u \<noteq> []
        \<and> sim (new_id e) b c u = Inr r"
  proof -
    from h have db: "\<forall>opn. opn \<noteq> SaveSimulationResult \<and> opn \<noteq> WriteSimulationData \<longrightarrow>
        db_error e opn = None"
      and crawl: "crawl_result e url (new_id e) = Inr content"
      and parse: "parse e content = Inr parsed"
      and gaps: "gaps_ok (engines orch) (successful_scores (engines orch) content parsed) parsed"
      by simp_all
    from h have saved: "saved_simulation e orch (new_id e) (Some b) (Some c) (Some u) = Some r"
        "simulation_returned orch (new_id e) (Some b) (Some c) (Some u) = Some r"
      using saved_simulation_Some [of orch sim b c u "new_id e" r e] by simp_all
    from analyze_url_completed [OF db crawl parse gaps, where brand = "Some b" and pc = "Some c"
        and uc = "Some u" and s = s]
    obtain s' where "analyze_url e orch url (Some b) (Some c) (Some u) s = (Inr (new_id e), s')"
      and "db_simulation_results s' =
            db_simulation_results s @ simulation_rows e orch (new_id e) (Some b) (Some c) (Some u)"
      and "db_gaps s' = db_gaps s @
            collect_gaps (engines orch) (successful_scores (engines orch) content parsed) parsed @
            simulation_gaps e orch (new_id e) (Some b) (Some c) (Some u) parsed"
      by blast
    then show ?thesis
      using h by (intro exI [of _ s']) (simp add: simulation_rows_def simulation_gaps_def saved)
  qed
  from p1 p2 p3 p4 p5 p6 show ?thesis by blast
qed

theorem simulation_gap_extraction_witness:
  "\<exists>s'. analyze_url demo_env simulating_orchestrator ''http://example.com''
           (Some ''Acme'') (Some ''running shoes'') (Some ''marathon training'') empty_state
         = (Inr ''a1'', s')
     \<and> map (\<lambda>g. (engine_source g, gap_type g, severity g)) (db_gaps s')
        = [(''ARCE'', ''low_semantic_html'', ''medium''), (''ARCE'', ''missing_h1'', ''high''),
           (''ARCE'', ''poor_readability'', ''medium''), (''ARCE'', ''missing_meta_description'', ''medium''),
           (''TRE'', ''no_buy_button'', ''critical''), (''TRE'', ''missing_offer_schema'', ''high''),
           (''TRE'', ''no_reviews'', ''medium''), (''TRE'', ''no_ssl'', ''critical''),
           (''TRE'', ''no_contact_info'', ''high''),
           (''AI_SIMULATION'', ''not_cited_by_ai'', ''critical''),
           (''AI_SIMULATION'', ''missing_attribute'', ''medium''),
           (''AI_SIMULATION'', ''missing_attribute'', ''medium'')]
     \<and> map description (drop 10 (db_gaps s'))
        = [''AI values this attribute but it may be missing: warranty'',
           ''AI values this attribute but it may be missing: shipping'']"
proof -
  have eng: "engines simulating_orchestrator = engines demo_orchestrator"
    by (simp add: simulating_orchestrator_def demo_orchestrator_def make_orchestrator_def)
  have gaps: "gaps_ok (engines demo_orchestrator)
      (successful_scores (engines demo_orchestrator) demo_content empty_page) empty_page"
    unfolding demo_orchestrator_def by (rule demo_gaps_ok)
  have h: "(\<forall>opn. db_error demo_env opn = None)
        \<and> crawl_result demo_env ''http://example.com'' (new_id demo_env) = Inr demo_content
        \<and> parse demo_env demo_content = Inr empty_page
        \<and> gaps_ok (engines simulating_orchestrator)
             (successful_scores (engines simulating_orchestrator) demo_content empty_page) empty_page
        \<and> simulator simulating_orchestrator = Some (\<lambda>_ _ _ _. Inr spec_example_simulation)
        \<and> ''Acme'' \<noteq> [] \<and> ''running shoes'' \<noteq> [] \<and> ''marathon training'' \<noteq> []
        \<and> (\<lambda>_ _ _ _. Inr spec_example_simulation) (new_id demo_env) ''Acme'' ''running shoes''
             ''marathon training'' = Inr spec_example_simulation"
    using gaps unfolding eng
    by (simp add: demo_env_def crawl_result_def simulating_orchestrator_def make_orchestrator_def)
  have len: "length (collect_gaps (engines demo_orchestrator)
        (successful_scores (engines demo_orchestrator) demo_content empty_page) empty_page) = 9"
    using arg_cong [OF demo_gap_types, of length] by simp
  from simulation_gap_extraction [where e = demo_env and url = "''http://example.com''"
      and content = demo_content and parsed = empty_page and orch = simulating_orchestrator
      and sim = "\<lambda>_ _ _ _. Inr spec_example_simulation" and b = "''Acme''"
      and c = "''running shoes''" and u = "''marathon training''" and r = spec_example_simulation
      and s = empty_state and aid = "''a1''"] h
  obtain s' where "analyze_url demo_env simulating_orchestrator ''http://example.com''
           (Some ''Acme'') (Some ''running shoes'') (Some ''marathon training'') empty_state
         = (Inr (new_id demo_env), s')"
    and "db_gaps s' = db_gaps empty_state
           @ collect_gaps (engines demo_orchestrator)
               (successful_scores (engines demo_orchestrator) demo_content empty_page) empty_page
           @ extract_simulation_gaps (new_id demo_env) spec_example_simulation empty_page"
    unfolding eng by blast
  then show ?thesis
    using demo_gap_types len
    by (intro exI [of _ s'])
       (simp add: demo_env_def empty_state_def extract_simulation_gaps_def
          spec_example_simulation_def Let_def)
qed

section \<open>Heading hierarchy score\<close>

text \<open>
  C9, as the code has it. The heading score gives 10 points when the page has at least
  one H1, 10 points when it does not have several (none or one), and 5 points when no
  level is skipped. Both 10-point parts are earned together exactly when there is one H1;
  a page with two or more H1 earns the first part and not the second, a page with none
  the second and not the first. The score is at most 25.
\<close>

theorem heading_hierarchy_points:
  "ARCE_score_heading_hierarchy (h\<lparr>heading_validation := validate_heading_hierarchy hs\<rparr>) =
     (if 1 \<le> count_list (map fst hs) 1 then 10 else 0)
     + (if count_list (map fst hs) 1 \<le> 1 then 10 else 0)
     + (if find_skipped (map fst hs) = [] then 5 else 0)
   \<and> ARCE_score_heading_hierarchy (h\<lparr>heading_validation := validate_heading_hierarchy hs\<rparr>) \<le> 25
   \<and> (has_h1 (validate_heading_hierarchy hs) \<and> \<not> multiple_h1 (validate_heading_hierarchy hs)
        \<longleftrightarrow> count_list (map fst hs) 1 = 1)"
proof -
  have mem: "(1 \<in> set (map fst hs)) = (1 \<le> count_list (map fst hs) 1)"
    using count_list_0_iff [of "map fst hs" 1] by auto
  have gt: "(1 < count_list (map fst hs) 1) = (\<not> count_list (map fst hs) 1 \<le> 1)"
    by auto
  have eq: "ARCE_score_heading_hierarchy (h\<lparr>heading_validation := validate_heading_hierarchy hs\<rparr>) =
     (if 1 \<le> count_list (map fst hs) 1 then 10 else 0)
     + (if count_list (map fst hs) 1 \<le> 1 then 10 else 0)
     + (if find_skipped (map fst hs) = [] then 5 else 0)"
    unfolding ARCE_score_heading_hierarchy_def validate_heading_hierarchy_def Let_def
    by (simp only: mem gt) simp
  have le: "ARCE_score_heading_hierarchy (h\<lparr>heading_validation := validate_heading_hierarchy hs\<rparr>) \<le> 25"
    unfolding eq by simp
  have both: "has_h1 (validate_heading_hierarchy hs) \<and> \<not> multiple_h1 (validate_heading_hierarchy hs)
        \<longleftrightarrow> count_list (map fst hs) 1 = 1"
    unfolding validate_heading_hierarchy_def Let_def
    by (simp only: mem gt) auto
  from eq le both show ?thesis by simp
qed

text \<open>
  The claim as written fails on a page with two H1 headings and nothing skipped: it earns
  the 10 points for having an H1, 15 in all, where the claim allows it neither 10-point
  part, 5 at most.
\<close>

theorem heading_hierarchy_two_h1_counterexample:
  "h1_count (heading_validation two_h1_page) = 2
   \<and> ARCE_score_heading_hierarchy two_h1_page = 15
   \<and> \<not> ARCE_score_heading_hierarchy two_h1_page \<le> 5"
  by (simp add: two_h1_page_def empty_html_def ARCE_score_heading_hierarchy_def
        validate_heading_hierarchy_def Let_def)

theorem heading_hierarchy_points_witness:
  "ARCE_score_heading_hierarchy
     (empty_html\<lparr>heading_validation := validate_heading_hierarchy [(1, ''Shoes''), (2, ''Sizes'')]\<rparr>)
   = 25"
  using heading_hierarchy_points [where h = empty_html and hs = "[(1, ''Shoes''), (2, ''Sizes'')]"]
  by simp

section \<open>The short-description gap of ADE\<close>

lemma filter_missing_field:
  "filter (\<lambda>g. gap_type g = ''short_description'')
     (map (\<lambda>field. create_gap n a (''missing_field_'' @ field) sv (d field) (r field)) fs) = []"
  by (induction fs) (simp_all add: create_gap_def)

text \<open>
  C10. Whenever ADE scores a page, the \<open>description_length\<close> it records is the length of
  the \<open>description\<close> of the Product schema, and \<open>identify_gaps\<close> emits the \<open>medium\<close> gap
  \<open>short_description\<close>, once and quoting that length, exactly when that length is under
  100, whatever the meta description that the richness score fell back to.
\<close>

theorem ade_short_description_gap:
  assumes "ADE_analyze w content parsed = Inr sc"
  shows "\<exists>prd. product (schema parsed) = Some prd
     \<and> details sc ''description_length'' = Some (DInt (int (length (get_str prd ''description''))))
     \<and> filter (\<lambda>g. gap_type g = ''short_description'') (ADE_identify_gaps sc parsed) =
        (if length (get_str prd ''description'') < 100
         then [create_gap ''ADE'' (cc_analysis_id content) ''short_description'' ''medium''
                 (''Product description is too short (''
                    @ str_nat (length (get_str prd ''description'')) @ '' characters)'')
                 ''Expand product description to at least 300 characters with detailed attributes and benefits'']
         else [])
     \<and> details sc ''attribute_richness_score'' =
        Some (DFloat (calculate_richness_score
                        (if get_str prd ''description'' \<noteq> [] then get_str prd ''description''
                         else meta_description (html parsed)) 300 15
                      + (if truthy (schema_brand (schema parsed)) then 7.5 else 0)
                      + (if truthy (prd ''sku'') \<or> truthy (prd ''gtin'') \<or> truthy (prd ''mpn'')
                         then 7.5 else 0)))"
proof (cases "product (schema parsed)")
  case None
  then show ?thesis using assms
    by (simp add: ADE_analyze_def Let_def ADE_score_attribute_richness_def)
next
  case (Some prd)
  have sc: "details sc ''description_length'' = Some (DInt (int (length (get_str prd ''description''))))"
    and aid: "es_analysis_id sc = cc_analysis_id content"
    and rich: "details sc ''attribute_richness_score'' =
        Some (DFloat (calculate_richness_score
                        (if get_str prd ''description'' \<noteq> [] then get_str prd ''description''
                         else meta_description (html parsed)) 300 15
                      + (if truthy (schema_brand (schema parsed)) then 7.5 else 0)
                      + (if truthy (prd ''sku'') \<or> truthy (prd ''gtin'') \<or> truthy (prd ''mpn'')
                         then 7.5 else 0)))"
    using assms Some
    by (auto simp add: ADE_analyze_def Let_def ADE_score_attribute_richness_def create_score_def)
  show ?thesis
    using Some sc aid rich
    by (simp add: ADE_identify_gaps_def Let_def details_int_def filter_missing_field create_gap_def)
qed

theorem ade_short_description_gap_witness:
  "\<exists>sc. ADE_analyze 0.3 demo_content meta_only_page = Inr sc
     \<and> details sc ''description_length'' = Some (DInt 0)
     \<and> details sc ''attribute_richness_score'' = Some (DFloat 6)
     \<and> map (\<lambda>g. (severity g, description g))
          (filter (\<lambda>g. gap_type g = ''short_description'') (ADE_identify_gaps sc meta_only_page))
        = [(''medium'', ''Product description is too short (0 characters)'')]"
proof -
  obtain sc where ok: "ADE_analyze 0.3 demo_content meta_only_page = Inr sc"
    by (simp add: ADE_analyze_def Let_def ADE_score_attribute_richness_def meta_only_page_def
          empty_schema_def)
  have p: "product (schema meta_only_page) = Some [''name'' \<mapsto> ''Trail shoe'']"
    by (simp add: meta_only_page_def empty_schema_def)
  have d: "get_str [''name'' \<mapsto> ''Trail shoe''] ''description'' = []"
    by (simp add: get_str_def)
  have m: "meta_description (html meta_only_page) = replicate 120 CHR ''x''"
    "schema_brand (schema meta_only_page) = None"
    by (simp_all add: meta_only_page_def empty_html_def empty_schema_def)
  from ade_short_description_gap [OF ok] show ?thesis
    using ok
    by (intro exI [of _ sc])
       (simp add: p d m calculate_richness_score_def create_gap_def str_nat.simps)
qed

end
